theory Spec2Isabelle
  imports Complex_Main "HOL-Library.Char_ord" "HOL-Library.List_Lexorder"
begin

section \<open>Values, errors and strings of the evaluation script\<close>

text \<open>
  The script \<^verbatim>\<open>eval_agent.py\<close> handles JSON-shaped Python values: log payloads, ground-truth
  objects and evaluation-set files. They are embedded as the datatype \<open>jv\<close>. A Python \<open>dict\<close>
  is an association list read with \<open>map_of\<close> (the first binding of a key counts), Python's
  \<open>None\<close> is \<open>JNull\<close>. Numbers are integers: floating-point payload values are outside the
  value model. Strings are lists of characters, each character a code point below 256.
\<close>

datatype jv =
    JNull
  | JBool bool
  | JNum int
  | JStr string
  | JList "jv list"
  | JObj "(string \<times> jv) list"

type_synonym obj = "(string \<times> jv) list"

text \<open>
  Every exception the modelled code can raise is a value. \<open>OutOfModel\<close> marks an input whose
  Python behaviour is not embedded (a group key, metric family or record identity that is
  neither a string nor missing): the model stops there instead of guessing.
\<close>

datatype py_error =
    AttributeError
  | TypeError
  | KeyError
  | IndexError
  | FileNotFoundError
  | ValueError
  | CollaboratorError string
  | OutOfModel

text \<open>Python truthiness (\<^verbatim>\<open>if x:\<close>, \<^verbatim>\<open>x or y\<close>, \<^verbatim>\<open>not x\<close>).\<close>

fun truthy :: "jv \<Rightarrow> bool" where
  "truthy JNull = False"
| "truthy (JBool b) = b"
| "truthy (JNum n) = (n \<noteq> 0)"
| "truthy (JStr s) = (s \<noteq> [])"
| "truthy (JList xs) = (xs \<noteq> [])"
| "truthy (JObj kvs) = (kvs \<noteq> [])"

text \<open>\<^verbatim>\<open>d.get(k)\<close>, \<^verbatim>\<open>d.get(k, default)\<close> and \<^verbatim>\<open>k in d\<close> on a dict.\<close>

definition dict_get :: "obj \<Rightarrow> string \<Rightarrow> jv" where
  "dict_get d k = (case map_of d k of None \<Rightarrow> JNull | Some v \<Rightarrow> v)"

definition dict_get_default :: "obj \<Rightarrow> string \<Rightarrow> jv \<Rightarrow> jv" where
  "dict_get_default d k dflt = (case map_of d k of None \<Rightarrow> dflt | Some v \<Rightarrow> v)"

definition has_key :: "string \<Rightarrow> obj \<Rightarrow> bool" where
  "has_key k d = (map_of d k \<noteq> None)"

subsection \<open>String operations\<close>

text \<open>
  \<^verbatim>\<open>str.isspace\<close> on one character, for code points below 256: TAB, LF, VT, FF, CR, the
  separators FS, GS, RS, US, SPACE, NEL and the no-break space.
\<close>

definition py_isspace :: "char \<Rightarrow> bool" where
  "py_isspace c = ((of_char c :: nat) \<in> {9, 10, 11, 12, 13, 28, 29, 30, 31, 32, 133, 160})"

text \<open>\<^verbatim>\<open>s.strip()\<close>: leading and trailing whitespace removed.\<close>

definition py_strip :: "string \<Rightarrow> string" where
  "py_strip s = rev (dropWhile py_isspace (rev (dropWhile py_isspace s)))"

text \<open>
  \<^verbatim>\<open>s.split(" ")\<close>: cut at every single space character; \<open>cur\<close> is the piece being read.
  Adjacent spaces give empty pieces, and the empty string gives one empty piece.
\<close>

fun split_space_acc :: "string \<Rightarrow> string \<Rightarrow> string list" where
  "split_space_acc cur [] = [cur]"
| "split_space_acc cur (c # cs) =
     (if c = CHR '' '' then cur # split_space_acc [] cs else split_space_acc (cur @ [c]) cs)"

definition py_split_space :: "string \<Rightarrow> string list" where
  "py_split_space s = split_space_acc [] s"

text \<open>\<^verbatim>\<open>w in s\<close> on two strings: \<open>w\<close> occurs as a contiguous substring of \<open>s\<close>.\<close>

fun starts_with :: "string \<Rightarrow> string \<Rightarrow> bool" where
  "starts_with [] s = True"
| "starts_with (a # w) [] = False"
| "starts_with (a # w) (c # s) = (a = c \<and> starts_with w s)"

fun is_substring :: "string \<Rightarrow> string \<Rightarrow> bool" where
  "is_substring w [] = (w = [])"
| "is_substring w (c # cs) = (starts_with w (c # cs) \<or> is_substring w cs)"

text \<open>
  \<^verbatim>\<open>s.replace(old, new)\<close>: every non-overlapping occurrence of \<open>old\<close>, leftmost first. With
  an empty \<open>old\<close> Python inserts \<open>new\<close> before every character and at the end.
\<close>

fun py_replace :: "string \<Rightarrow> string \<Rightarrow> string \<Rightarrow> string" where
  "py_replace old new [] = (if old = [] then new else [])"
| "py_replace old new (c # cs) =
     (if starts_with old (c # cs)
      then new @ (if old = [] then c # py_replace old new cs
                  else py_replace old new (drop (length old - 1) cs))
      else c # py_replace old new cs)"

text \<open>\<^verbatim>\<open>str(i)\<close> for a non-negative integer: its decimal digits.\<close>

definition digit_char :: "nat \<Rightarrow> char" where
  "digit_char d = char_of (48 + d)"

fun show_nat :: "nat \<Rightarrow> string" where
  "show_nat n = (if n < 10 then [digit_char n] else show_nat (n div 10) @ [digit_char (n mod 10)])"

declare show_nat.simps [simp del]

section \<open>The contains-words metric\<close>

text \<open>
  \<^verbatim>\<open>word in response\<close> where \<open>response\<close> is any value: substring test on a string, membership
  in a list, key membership in a dict, and a \<open>TypeError\<close> on a value that is not iterable.
\<close>

fun word_in :: "string \<Rightarrow> jv \<Rightarrow> py_error + bool" where
  "word_in w (JStr s) = Inr (is_substring w s)"
| "word_in w (JList xs) = Inr (JStr w \<in> set xs)"
| "word_in w (JObj kvs) = Inr (w \<in> fst ` set kvs)"
| "word_in w JNull = Inl TypeError"
| "word_in w (JBool b) = Inl TypeError"
| "word_in w (JNum n) = Inl TypeError"

text \<open>
  \<^verbatim>\<open>all(word in response for word in words_to_check)\<close>: the generator is consumed from the
  left and stops at the first word that is absent.
\<close>

fun all_words_in :: "string list \<Rightarrow> jv \<Rightarrow> py_error + bool" where
  "all_words_in [] r = Inr True"
| "all_words_in (w # ws) r =
     (case word_in w r of
        Inl e \<Rightarrow> Inl e
      | Inr False \<Rightarrow> Inr False
      | Inr True \<Rightarrow> all_words_in ws r)"

text \<open>
  \<^verbatim>\<open>[word.strip() for word in reference.split(" ") if word.strip()]\<close>
\<close>

definition words_to_check :: "string \<Rightarrow> string list" where
  "words_to_check reference =
     map py_strip (filter (\<lambda>word. py_strip word \<noteq> []) (py_split_space reference))"

text \<open>
  \<^verbatim>\<open>_contains_words_metric_function(test_case)\<close>. The result dict has the single key
  \<^verbatim>\<open>contains_words\<close>; the model returns its value, the score 1.0 or 0.0. A truthy reference
  that is not a string has no \<^verbatim>\<open>split\<close> method.
\<close>

definition contains_words_metric_function :: "obj \<Rightarrow> py_error + real" where
  "contains_words_metric_function test_case =
     (let response = dict_get_default test_case ''response'' (JStr []);
          reference = dict_get_default test_case ''reference'' (JStr [])
      in if \<not> truthy response \<or> \<not> truthy reference then Inr 0
         else (case reference of
                 JStr ref \<Rightarrow>
                   (case all_words_in (words_to_check ref) response of
                      Inl e \<Rightarrow> Inl e
                    | Inr contains_all_words \<Rightarrow> Inr (if contains_all_words then 1 else 0))
               | _ \<Rightarrow> Inl AttributeError))"

text \<open>
  The reading of "whitespace-delimited tokens" used by the specification: the maximal runs
  of non-whitespace characters, as \<^verbatim>\<open>reference.split()\<close> would return them. It is compared
  with \<open>words_to_check\<close> below and is not part of the program.
\<close>

fun whitespace_tokens_acc :: "string \<Rightarrow> string \<Rightarrow> string list" where
  "whitespace_tokens_acc cur [] = (if cur = [] then [] else [cur])"
| "whitespace_tokens_acc cur (c # cs) =
     (if py_isspace c
      then (if cur = [] then whitespace_tokens_acc [] cs else cur # whitespace_tokens_acc [] cs)
      else whitespace_tokens_acc (cur @ [c]) cs)"

definition whitespace_tokens :: "string \<Rightarrow> string list" where
  "whitespace_tokens s = whitespace_tokens_acc [] s"

text \<open>\<^verbatim>\<open>" ".join(pieces)\<close>, used to state what \<open>py_split_space\<close> returns.\<close>

fun join_space :: "string list \<Rightarrow> string" where
  "join_space [] = []"
| "join_space [p] = p"
| "join_space (p # q # ps) = p @ CHR '' '' # join_space (q # ps)"


section \<open>Reading the logs: \<^verbatim>\<open>get_logs_for_evaluation\<close>\<close>

text \<open>
  A log entry as the logging client returns it. The script reads the attributes
  \<^verbatim>\<open>timestamp\<close>, \<^verbatim>\<open>payload\<close>, \<^verbatim>\<open>json_payload\<close> and \<^verbatim>\<open>text_payload\<close>; an attribute the entry
  does not have is \<open>None\<close>. The \<^verbatim>\<open>payload\<close> attribute is a dict, a string, or something else.
  Timestamps are totally ordered; they are embedded as integers.
\<close>

datatype entry_payload = PayloadDict obj | PayloadStr string | PayloadOther

record log_entry =
  timestamp :: int
  payload_attr :: "entry_payload option"
  json_payload :: "obj option"
  text_payload :: "string option"

text \<open>The \<^verbatim>\<open>if/elif\<close> chain that turns an entry into a payload dict.\<close>

definition normalize_payload :: "log_entry \<Rightarrow> obj" where
  "normalize_payload entry =
     (case payload_attr entry of
        Some (PayloadDict d) \<Rightarrow> d
      | Some (PayloadStr m) \<Rightarrow> [(''message'', JStr m)]
      | _ \<Rightarrow>
        (case json_payload entry of
           Some d \<Rightarrow> d
         | None \<Rightarrow>
           (case text_payload entry of
              Some m \<Rightarrow> [(''message'', JStr m)]
            | None \<Rightarrow> [(''message'', JStr ''Unsupported log entry type'')])))"

text \<open>
  The filter string handed to \<^verbatim>\<open>list_entries\<close>. \<open>log_name\<close> is the module constant
  \<^verbatim>\<open>LOG_NAME\<close>, which the script builds from the environment.
\<close>

definition base_filter :: "string \<Rightarrow> string" where
  "base_filter log_name =
     ''logName=\"'' @ log_name @ ''\" AND '' @
     ''(jsonPayload.session_id:* OR jsonPayload.request_id:*)''"

definition log_filter :: "string \<Rightarrow> string option \<Rightarrow> string" where
  "log_filter log_name last_run_timestamp =
     (case last_run_timestamp of
        None \<Rightarrow> base_filter log_name
      | Some ts \<Rightarrow>
          (if ts \<noteq> [] then base_filter log_name @ '' AND timestamp >= \"'' @ ts @ ''\"''
           else base_filter log_name))"

text \<open>
  A raw log is the dict \<^verbatim>\<open>{"entry": entry, "payload": payload}\<close>, here a pair. The two
  dicts of raw logs keep their keys in insertion order and append to the list of a key
  already there.
\<close>

type_synonym raw_log = "log_entry \<times> obj"

type_synonym buckets = "(string \<times> raw_log list) list"

fun bucket_append :: "string \<Rightarrow> raw_log \<Rightarrow> buckets \<Rightarrow> buckets" where
  "bucket_append k x [] = [(k, [x])]"
| "bucket_append k x ((k', xs) # bs) =
     (if k = k' then (k', xs @ [x]) # bs else (k', xs) # bucket_append k x bs)"

text \<open>
  A truthy group key is used as a dict key. A string is embedded as itself; a list or a
  dict is unhashable and raises \<open>TypeError\<close>; other truthy keys (numbers, \<open>True\<close>) are
  outside the model.
\<close>

fun dict_key :: "jv \<Rightarrow> py_error + string" where
  "dict_key (JStr s) = Inr s"
| "dict_key (JList xs) = Inl TypeError"
| "dict_key (JObj kvs) = Inl TypeError"
| "dict_key JNull = Inl OutOfModel"
| "dict_key (JBool b) = Inl OutOfModel"
| "dict_key (JNum n) = Inl OutOfModel"

text \<open>
  \<^verbatim>\<open>filter_session_id and session_id != filter_session_id and request_id != filter_session_id\<close>
\<close>

definition filtered_out :: "string option \<Rightarrow> jv \<Rightarrow> jv \<Rightarrow> bool" where
  "filtered_out filter_session_id session_id request_id =
     (case filter_session_id of
        None \<Rightarrow> False
      | Some f \<Rightarrow> f \<noteq> [] \<and> session_id \<noteq> JStr f \<and> request_id \<noteq> JStr f)"

definition is_turn_log :: "obj \<Rightarrow> bool" where
  "is_turn_log payload =
     (dict_get payload ''log_type'' = JStr ''user_message''
      \<or> dict_get payload ''log_type'' = JStr ''final_answer'')"

text \<open>One iteration of the loop over the entries.\<close>

definition collect_entry ::
  "string option \<Rightarrow> log_entry \<Rightarrow> buckets \<times> buckets \<Rightarrow> py_error + buckets \<times> buckets" where
  "collect_entry filter_session_id entry st =
     (let payload = normalize_payload entry;
          session_id = dict_get payload ''session_id'';
          request_id = dict_get payload ''request_id''
      in if filtered_out filter_session_id session_id request_id then Inr st
         else if is_turn_log payload then
           (if truthy session_id then
              (case dict_key session_id of
                 Inl e \<Rightarrow> Inl e
               | Inr k \<Rightarrow> Inr (bucket_append k (entry, payload) (fst st), snd st))
            else Inr st)
         else if truthy request_id \<and> has_key ''prompt'' payload \<and> has_key ''response'' payload then
           (case dict_key request_id of
              Inl e \<Rightarrow> Inl e
            | Inr k \<Rightarrow> Inr (fst st, bucket_append k (entry, payload) (snd st)))
         else Inr st)"

fun collect_entries ::
  "string option \<Rightarrow> log_entry list \<Rightarrow> buckets \<times> buckets \<Rightarrow> py_error + buckets \<times> buckets" where
  "collect_entries f [] st = Inr st"
| "collect_entries f (e # es) st =
     (case collect_entry f e st of
        Inl err \<Rightarrow> Inl err
      | Inr st' \<Rightarrow> collect_entries f es st')"

text \<open>
  \<^verbatim>\<open>sorted(raw_logs, key=lambda x: x["entry"].timestamp)\<close>: a stable sort, as \<open>sort_key\<close> is.
\<close>

definition sorted_raw_logs :: "raw_log list \<Rightarrow> raw_log list" where
  "sorted_raw_logs raw_logs = sort_key (\<lambda>x. timestamp (fst x)) raw_logs"

text \<open>
  A row of the data frames the function returns. The simple rows have no
  \<^verbatim>\<open>ground_truth\<close> column.
\<close>

record conv_record =
  cr_eval_id :: string
  cr_session_id :: string
  cr_user_content :: jv
  cr_agent_response :: jv
  cr_reference :: jv
  cr_metric_type :: jv
  cr_metric_value :: string
  cr_ground_truth :: "obj option"

subsection \<open>Structured sessions\<close>

definition adk_prefix :: string where
  "adk_prefix = ''ADK Web Log: Middleware triggered for prompt: ''"

text \<open>
  \<^verbatim>\<open>user_payload.get("prompt") or user_payload.get("message", "").replace(prefix, "")\<close>: the
  right operand is evaluated only when the prompt is falsy, and a message that is not a
  string has no \<^verbatim>\<open>replace\<close>.
\<close>

definition extract_user_content :: "obj \<Rightarrow> py_error + jv" where
  "extract_user_content user_payload =
     (if truthy (dict_get user_payload ''prompt'') then Inr (dict_get user_payload ''prompt'')
      else (case dict_get_default user_payload ''message'' (JStr []) of
              JStr m \<Rightarrow> Inr (JStr (py_replace adk_prefix [] m))
            | _ \<Rightarrow> Inl AttributeError))"

text \<open>
  \<^verbatim>\<open>final_answer_payload.get("ground_truth", {})\<close> must be a dict for the \<^verbatim>\<open>.get\<close> that reads
  the metric type.
\<close>

definition extract_ground_truth :: "obj \<Rightarrow> py_error + obj" where
  "extract_ground_truth final_answer_payload =
     (case dict_get_default final_answer_payload ''ground_truth'' (JObj []) of
        JObj gt \<Rightarrow> Inr gt
      | _ \<Rightarrow> Inl AttributeError)"

text \<open>
  The body of the loop over \<open>i\<close>: all fields are read first, then the row is appended when
  both texts are truthy.
\<close>

definition turn_record :: "string \<Rightarrow> nat \<Rightarrow> obj \<Rightarrow> obj \<Rightarrow> py_error + conv_record option" where
  "turn_record session_id i user_payload final_answer_payload =
     (case extract_user_content user_payload of
        Inl e \<Rightarrow> Inl e
      | Inr user_content \<Rightarrow>
        (let agent_response = dict_get final_answer_payload ''final_answer'';
             reference = dict_get final_answer_payload ''ground_truth''
         in case extract_ground_truth final_answer_payload of
              Inl e \<Rightarrow> Inl e
            | Inr ground_truth_payload \<Rightarrow>
              (if truthy user_content \<and> truthy agent_response then
                 Inr (Some \<lparr>cr_eval_id = session_id @ ''-'' @ show_nat i,
                            cr_session_id = session_id,
                            cr_user_content = user_content,
                            cr_agent_response = agent_response,
                            cr_reference = reference,
                            cr_metric_type =
                              dict_get_default ground_truth_payload ''metric_type''
                                (JStr ''default_agent_metric''),
                            cr_metric_value = [],
                            cr_ground_truth = Some ground_truth_payload\<rparr>)
               else Inr None)))"

text \<open>
  \<^verbatim>\<open>for i in range(min(len(user_messages), len(final_answers)))\<close>: \<open>i\<close> is the current index,
  the last argument the number of iterations left. An exception ends the loop.
\<close>

fun pair_turns :: "string \<Rightarrow> obj list \<Rightarrow> obj list \<Rightarrow> nat \<Rightarrow> nat \<Rightarrow> py_error + conv_record list" where
  "pair_turns session_id user_messages final_answers i 0 = Inr []"
| "pair_turns session_id user_messages final_answers i (Suc k) =
     (case turn_record session_id i (user_messages ! i) (final_answers ! i) of
        Inl e \<Rightarrow> Inl e
      | Inr r \<Rightarrow>
        (case pair_turns session_id user_messages final_answers (Suc i) k of
           Inl e \<Rightarrow> Inl e
         | Inr rs \<Rightarrow> Inr (case r of None \<Rightarrow> rs | Some x \<Rightarrow> x # rs)))"

definition user_messages_of :: "raw_log list \<Rightarrow> obj list" where
  "user_messages_of logs =
     map snd (filter (\<lambda>item. dict_get (snd item) ''log_type'' = JStr ''user_message'') logs)"

definition final_answers_of :: "raw_log list \<Rightarrow> obj list" where
  "final_answers_of logs =
     map snd (filter (\<lambda>item. dict_get (snd item) ''log_type'' = JStr ''final_answer'') logs)"

definition pair_session :: "string \<Rightarrow> raw_log list \<Rightarrow> py_error + conv_record list" where
  "pair_session session_id raw_logs =
     (let logs = sorted_raw_logs raw_logs;
          user_messages = user_messages_of logs;
          final_answers = final_answers_of logs
      in pair_turns session_id user_messages final_answers 0
           (min (length user_messages) (length final_answers)))"

fun agent_sessions :: "buckets \<Rightarrow> py_error + conv_record list" where
  "agent_sessions [] = Inr []"
| "agent_sessions ((session_id, raw_logs) # bs) =
     (case pair_session session_id raw_logs of
        Inl e \<Rightarrow> Inl e
      | Inr rs \<Rightarrow>
        (case agent_sessions bs of
           Inl e \<Rightarrow> Inl e
         | Inr rs' \<Rightarrow> Inr (rs @ rs')))"

subsection \<open>Simple exchanges\<close>

text \<open>
  The scan over the sorted logs of one request: each of the three variables takes the
  value of its key whenever the payload has the key.
\<close>

fun scan_simple :: "raw_log list \<Rightarrow> jv \<times> jv \<times> jv \<Rightarrow> jv \<times> jv \<times> jv" where
  "scan_simple [] st = st"
| "scan_simple (log_item # ls) (prompt, response, reference) =
     scan_simple ls
       (if has_key ''prompt'' (snd log_item) then dict_get (snd log_item) ''prompt'' else prompt,
        if has_key ''response'' (snd log_item) then dict_get (snd log_item) ''response''
        else response,
        if has_key ''ground_truth'' (snd log_item) then dict_get (snd log_item) ''ground_truth''
        else reference)"

definition simple_record :: "string \<Rightarrow> raw_log list \<Rightarrow> conv_record list" where
  "simple_record request_id raw_logs =
     (case scan_simple (sorted_raw_logs raw_logs) (JStr [], JStr [], JStr []) of
        (prompt, response, reference) \<Rightarrow>
          (if truthy prompt \<and> truthy response then
             [\<lparr>cr_eval_id = request_id,
               cr_session_id = request_id,
               cr_user_content = prompt,
               cr_agent_response = response,
               cr_reference = reference,
               cr_metric_type = JStr ''simple'',
               cr_metric_value = [],
               cr_ground_truth = None\<rparr>]
           else []))"

definition simple_sessions :: "buckets \<Rightarrow> conv_record list" where
  "simple_sessions bs = concat (map (\<lambda>(request_id, raw_logs). simple_record request_id raw_logs) bs)"

text \<open>
  \<^verbatim>\<open>get_logs_for_evaluation\<close> on the entries the logging client listed. A data frame is a
  list of rows, and \<open>None\<close> when there is no row.
\<close>

definition frame_or_none :: "'a list \<Rightarrow> 'a list option" where
  "frame_or_none rows = (if rows = [] then None else Some rows)"

definition get_logs_for_evaluation ::
  "string option \<Rightarrow> log_entry list
   \<Rightarrow> py_error + conv_record list option \<times> conv_record list option" where
  "get_logs_for_evaluation filter_session_id entries =
     (case collect_entries filter_session_id entries ([], []) of
        Inl e \<Rightarrow> Inl e
      | Inr (agent_sessions_raw_logs, simple_sessions_raw_logs) \<Rightarrow>
        (case agent_sessions agent_sessions_raw_logs of
           Inl e \<Rightarrow> Inl e
         | Inr agent_sessions_data \<Rightarrow>
             Inr (frame_or_none agent_sessions_data,
                  frame_or_none (simple_sessions simple_sessions_raw_logs))))"

text \<open>The rows of a frame that may be \<open>None\<close>.\<close>

definition rows_of :: "'a list option \<Rightarrow> 'a list" where
  "rows_of df = (case df of None \<Rightarrow> [] | Some rows \<Rightarrow> rows)"


subsection \<open>Notions used to state the pairing properties\<close>

text \<open>
  The raw log the loop stores for an entry, and the guards under which the loop appends
  an entry to the structured bucket of session \<open>s\<close> or to the simple bucket of request \<open>r\<close>,
  read off \<open>collect_entry\<close>. \<open>bucket_of\<close> reads a bucket, empty when the key is absent.
\<close>

definition as_raw_log :: "log_entry \<Rightarrow> raw_log" where
  "as_raw_log entry = (entry, normalize_payload entry)"

definition agent_member :: "string option \<Rightarrow> string \<Rightarrow> log_entry \<Rightarrow> bool" where
  "agent_member filter_session_id s entry =
     (let payload = normalize_payload entry
      in \<not> filtered_out filter_session_id (dict_get payload ''session_id'')
             (dict_get payload ''request_id'')
         \<and> is_turn_log payload
         \<and> s \<noteq> [] \<and> dict_get payload ''session_id'' = JStr s)"

definition simple_member :: "string option \<Rightarrow> string \<Rightarrow> log_entry \<Rightarrow> bool" where
  "simple_member filter_session_id r entry =
     (let payload = normalize_payload entry
      in \<not> filtered_out filter_session_id (dict_get payload ''session_id'')
             (dict_get payload ''request_id'')
         \<and> \<not> is_turn_log payload
         \<and> r \<noteq> [] \<and> dict_get payload ''request_id'' = JStr r
         \<and> has_key ''prompt'' payload \<and> has_key ''response'' payload)"

definition bucket_of :: "buckets \<Rightarrow> string \<Rightarrow> raw_log list" where
  "bucket_of bs k = (case map_of bs k of None \<Rightarrow> [] | Some xs \<Rightarrow> xs)"

text \<open>
  The last value seen for key \<open>k\<close> in a list of raw logs, \<open>init\<close> when no payload has the key.
\<close>

definition last_seen :: "string \<Rightarrow> jv \<Rightarrow> raw_log list \<Rightarrow> jv" where
  "last_seen k init logs =
     (let carrying = filter (\<lambda>item. has_key k (snd item)) logs
      in if carrying = [] then init else dict_get (snd (last carrying)) k)"

text \<open>
  The fields of a paired row as total functions of the two payloads; they agree with
  \<open>extract_user_content\<close> and \<open>extract_ground_truth\<close> wherever those do not raise.
  \<open>pair_kept\<close> is the test \<^verbatim>\<open>if user_content and agent_response\<close>.
\<close>

definition user_content_of :: "obj \<Rightarrow> jv" where
  "user_content_of user_payload =
     (case extract_user_content user_payload of Inl e \<Rightarrow> JNull | Inr v \<Rightarrow> v)"

definition ground_truth_of :: "obj \<Rightarrow> obj" where
  "ground_truth_of final_answer_payload =
     (case extract_ground_truth final_answer_payload of Inl e \<Rightarrow> [] | Inr gt \<Rightarrow> gt)"

definition paired_record :: "string \<Rightarrow> nat \<Rightarrow> obj \<Rightarrow> obj \<Rightarrow> conv_record" where
  "paired_record session_id i user_payload final_answer_payload =
     \<lparr>cr_eval_id = session_id @ ''-'' @ show_nat i,
      cr_session_id = session_id,
      cr_user_content = user_content_of user_payload,
      cr_agent_response = dict_get final_answer_payload ''final_answer'',
      cr_reference = dict_get final_answer_payload ''ground_truth'',
      cr_metric_type =
        dict_get_default (ground_truth_of final_answer_payload) ''metric_type''
          (JStr ''default_agent_metric''),
      cr_metric_value = [],
      cr_ground_truth = Some (ground_truth_of final_answer_payload)\<rparr>"

definition pair_kept :: "obj \<Rightarrow> obj \<Rightarrow> bool" where
  "pair_kept user_payload final_answer_payload =
     (truthy (user_content_of user_payload)
      \<and> truthy (dict_get final_answer_payload ''final_answer''))"

definition paired_rows :: "string \<Rightarrow> raw_log list \<Rightarrow> conv_record list" where
  "paired_rows session_id raw_logs =
     (let logs = sorted_raw_logs raw_logs;
          user_messages = user_messages_of logs;
          final_answers = final_answers_of logs
      in map (\<lambda>i. paired_record session_id i (user_messages ! i) (final_answers ! i))
           (filter (\<lambda>i. pair_kept (user_messages ! i) (final_answers ! i))
              [0..<min (length user_messages) (length final_answers)]))"

definition turns_readable :: "raw_log list \<Rightarrow> bool" where
  "turns_readable raw_logs =
     (let logs = sorted_raw_logs raw_logs;
          user_messages = user_messages_of logs;
          final_answers = final_answers_of logs
      in \<forall>i < min (length user_messages) (length final_answers).
           extract_user_content (user_messages ! i) = Inr (user_content_of (user_messages ! i))
           \<and> extract_ground_truth (final_answers ! i) = Inr (ground_truth_of (final_answers ! i)))"

text \<open>
  An entry the loop and the pairing can read: it is filtered out, or it is a turn log whose
  session id is falsy or a string and whose user content and ground truth can be
  extracted, or it is another log that is not bucketed or whose request id is a string.
\<close>

definition readable_entry :: "string option \<Rightarrow> log_entry \<Rightarrow> bool" where
  "readable_entry filter_session_id entry =
     (let payload = normalize_payload entry;
          session_id = dict_get payload ''session_id'';
          request_id = dict_get payload ''request_id''
      in filtered_out filter_session_id session_id request_id
         \<or> (if is_turn_log payload then
              \<not> truthy session_id
              \<or> (\<not> isl (dict_key session_id) \<and> \<not> isl (extract_user_content payload)
                  \<and> \<not> isl (extract_ground_truth payload))
            else \<not> (truthy request_id \<and> has_key ''prompt'' payload \<and> has_key ''response'' payload)
                 \<or> \<not> isl (dict_key request_id)))"

text \<open>Example entries: a struct entry is one whose \<^verbatim>\<open>payload\<close> attribute is a dict.\<close>

definition struct_entry :: "int \<Rightarrow> obj \<Rightarrow> log_entry" where
  "struct_entry t d =
     \<lparr>timestamp = t, payload_attr = Some (PayloadDict d), json_payload = None,
      text_payload = None\<rparr>"

definition example_simple_entries :: "log_entry list" where
  "example_simple_entries =
     [struct_entry 9 [(''request_id'', JStr ''r''), (''prompt'', JStr ''p2''),
                      (''response'', JStr ''b'')],
      struct_entry 1 [(''request_id'', JStr ''r''), (''prompt'', JStr ''p1''),
                      (''response'', JStr ''a''), (''ground_truth'', JStr ''g'')]]"

definition example_response_only_entries :: "log_entry list" where
  "example_response_only_entries =
     [struct_entry 1 [(''request_id'', JStr ''r''), (''prompt'', JStr ''p''),
                      (''response'', JStr ''a''), (''ground_truth'', JStr ''g'')],
      struct_entry 2 [(''request_id'', JStr ''r''), (''response'', JStr ''b'')]]"

definition example_session_entries :: "log_entry list" where
  "example_session_entries =
     [struct_entry 5 [(''session_id'', JStr ''s''), (''log_type'', JStr ''final_answer''),
                      (''final_answer'', JStr ''a1'')],
      struct_entry 1 [(''session_id'', JStr ''s''), (''log_type'', JStr ''user_message''),
                      (''prompt'', JStr ''q0'')],
      struct_entry 2 [(''session_id'', JStr ''s''), (''log_type'', JStr ''final_answer''),
                      (''final_answer'', JStr ''a0'')],
      struct_entry 3 [(''session_id'', JStr ''s''), (''log_type'', JStr ''user_message''),
                      (''prompt'', JStr ''q1'')],
      struct_entry 7 [(''session_id'', JStr ''s''), (''log_type'', JStr ''user_message''),
                      (''prompt'', JStr ''q2'')]]"

definition example_turn_row :: "string \<Rightarrow> string \<Rightarrow> string \<Rightarrow> conv_record" where
  "example_turn_row eid q a =
     \<lparr>cr_eval_id = eid, cr_session_id = ''s'', cr_user_content = JStr q,
      cr_agent_response = JStr a, cr_reference = JNull,
      cr_metric_type = JStr ''default_agent_metric'', cr_metric_value = [],
      cr_ground_truth = Some []\<rparr>"

definition example_simple_row :: "string \<Rightarrow> string \<Rightarrow> conv_record" where
  "example_simple_row q a =
     \<lparr>cr_eval_id = ''r'', cr_session_id = ''r'', cr_user_content = JStr q,
      cr_agent_response = JStr a, cr_reference = JStr ''g'',
      cr_metric_type = JStr ''simple'', cr_metric_value = [],
      cr_ground_truth = None\<rparr>"


section \<open>The evaluation pass: \<^verbatim>\<open>run_evaluation_and_generate_artifacts\<close>\<close>

subsection \<open>Frames, collaborators and the world\<close>

text \<open>
  A row of the frame \<^verbatim>\<open>main\<close> builds from evaluation-set files (columns \<^verbatim>\<open>conversation\<close>,
  \<^verbatim>\<open>session_id\<close>, \<^verbatim>\<open>response\<close>, \<^verbatim>\<open>prompt\<close>, \<^verbatim>\<open>reference\<close>, \<^verbatim>\<open>ground_truth\<close>). The pass receives
  either such rows or the rows of \<open>get_logs_for_evaluation\<close>, whose columns have other
  names.
\<close>

record eval_case =
  ec_conversation :: jv
  ec_session_id :: jv
  ec_response :: jv
  ec_prompt :: jv
  ec_reference :: jv
  ec_ground_truth :: obj

datatype pass_row = EvalRow eval_case | LogRow conv_record

text \<open>
  The four columns a scoring job receives. A cell that is missing (\<open>None\<close> or \<open>NaN\<close>) is
  \<open>JNull\<close>.
\<close>

record job_row =
  jr_response :: jv
  jr_reference :: jv
  jr_session_id :: jv
  jr_prompt :: jv

text \<open>
  A cell of a score table: missing, a string, a number, or another value. A score table
  as the scoring service returns it has named columns; each row maps column names to
  cells.
\<close>

datatype cell = NaN | Txt string | Num real | Other jv

record mframe =
  mf_columns :: "string list"
  mf_rows :: "(string \<times> cell) list list"

datatype metric_spec = NamedMetric string | CustomContainsWords

record eval_result =
  er_summary_metrics :: "(string \<times> real) list"
  er_metrics_table :: "mframe option"

text \<open>
  The collaborators, each a function that answers or raises: client start-up
  (\<^verbatim>\<open>aiplatform.init\<close>, \<^verbatim>\<open>storage.Client\<close>), the logging client's \<^verbatim>\<open>list_entries\<close> on a filter
  string, the scoring call \<^verbatim>\<open>EvalTask(...).evaluate(...)\<close> on dataset, metrics, autorater
  model and run name, chart rendering (axis labels, the scores and name of each run and the
  time string, to a base64 image), blob upload (blob name, data) and blob download (blob
  name, local file name).
\<close>

record collab =
  co_init :: "py_error option"
  co_list_entries :: "string \<Rightarrow> py_error + log_entry list"
  co_evaluate :: "job_row list \<Rightarrow> metric_spec list \<Rightarrow> string \<Rightarrow> string \<Rightarrow> py_error + eval_result"
  co_render :: "string list \<Rightarrow> (real list \<times> string) list \<Rightarrow> string \<Rightarrow> string"
  co_upload :: "string \<Rightarrow> string \<Rightarrow> py_error option"
  co_download :: "string \<Rightarrow> string \<Rightarrow> py_error option"

text \<open>The module constants read from the environment, and the clock readings of one pass.\<close>

record env =
  env_project_id :: string
  env_location :: string
  env_bucket_name :: string
  env_short_log_name :: string
  env_judgement_model_name :: string

text \<open>\<^verbatim>\<open>LOG_NAME = f"projects/{PROJECT_ID}/logs/{SHORT_LOG_NAME}"\<close>\<close>

definition env_log_name :: "env \<Rightarrow> string" where
  "env_log_name e = ''projects/'' @ env_project_id e @ ''/logs/'' @ env_short_log_name e"

record clock =
  clock_time_str :: string
  clock_utcnow_iso :: string
  clock_yesterday_iso :: string

text \<open>The world the pass changes: the content of \<^verbatim>\<open>last_run_timestamp.txt\<close>, if the file exists.\<close>

record world =
  last_run_file :: "string option"

definition get_last_run_timestamp :: "clock \<Rightarrow> world \<Rightarrow> string" where
  "get_last_run_timestamp clk w =
     (case last_run_file w of
        Some content \<Rightarrow> py_strip content
      | None \<Rightarrow> clock_yesterday_iso clk @ ''Z'')"

definition save_current_timestamp :: "clock \<Rightarrow> world \<Rightarrow> world" where
  "save_current_timestamp clk w = w\<lparr>last_run_file := Some (clock_utcnow_iso clk @ ''Z'')\<rparr>"

text \<open>What the pass prints, and the jobs it hands to the scoring call, in order.\<close>

datatype event =
    SkipNoMetricType nat
  | SkipManual nat
  | SkipEmptyPartition string
  | SkipEmptySimple
  | Job string "job_row list"
  | EvalError string py_error
  | SimpleEvalError py_error
  | MissingSessionId string
  | SessionIdMismatch string
  | Uploaded string
  | Downloaded string

subsection \<open>Partitioning by metric type\<close>

text \<open>\<^verbatim>\<open>gt.get("metric_type") if isinstance(gt, dict) else None\<close> on the ground-truth cell.\<close>

definition ground_truth_cell :: "pass_row \<Rightarrow> jv" where
  "ground_truth_cell row =
     (case row of
        EvalRow c \<Rightarrow> JObj (ec_ground_truth c)
      | LogRow r \<Rightarrow> (case cr_ground_truth r of Some gt \<Rightarrow> JObj gt | None \<Rightarrow> JNull))"

definition get_metric_type :: "jv \<Rightarrow> jv" where
  "get_metric_type gt = (case gt of JObj d \<Rightarrow> dict_get d ''metric_type'' | _ \<Rightarrow> JNull)"

text \<open>
  A metric type as a group key: a string is its own key and a missing one (\<open>None\<close>) is no
  key; any other value is outside the model.
\<close>

fun metric_key :: "jv \<Rightarrow> py_error + string option" where
  "metric_key JNull = Inr None"
| "metric_key (JStr s) = Inr (Some s)"
| "metric_key (JBool b) = Inl OutOfModel"
| "metric_key (JNum n) = Inl OutOfModel"
| "metric_key (JList xs) = Inl OutOfModel"
| "metric_key (JObj kvs) = Inl OutOfModel"

text \<open>
  The column \<^verbatim>\<open>metric_type\<close> of the agent frame. The statement
  \<^verbatim>\<open>agent_df["metric_type"].fillna("simple", inplace=True)\<close> is a chained in-place update:
  whether it reaches the frame depends on the pandas version, so the model takes it as the
  parameter \<open>fill\<close>. Where it does, a missing metric type becomes \<^verbatim>\<open>simple\<close>.
\<close>

fun keyed_rows :: "bool \<Rightarrow> pass_row list \<Rightarrow> py_error + (string option \<times> pass_row) list" where
  "keyed_rows fill [] = Inr []"
| "keyed_rows fill (row # rows) =
     (case metric_key (get_metric_type (ground_truth_cell row)) of
        Inl e \<Rightarrow> Inl e
      | Inr k \<Rightarrow>
        (case keyed_rows fill rows of
           Inl e \<Rightarrow> Inl e
         | Inr krs \<Rightarrow> Inr ((if fill \<and> k = None then Some ''simple'' else k, row) # krs)))"

text \<open>
  \<^verbatim>\<open>groupby("metric_type")\<close>: the groups in ascending key order, rows with a missing key
  dropped, each group in the frame's row order.
\<close>

definition group_by_metric_type :: "(string option \<times> pass_row) list \<Rightarrow> (string \<times> pass_row list) list" where
  "group_by_metric_type krs =
     map (\<lambda>k. (k, map snd (filter (\<lambda>kr. fst kr = Some k) krs)))
       (sort (remdups (List.map_filter fst krs)))"

text \<open>
  \<^verbatim>\<open>group_df_original[["response", "reference", "session_id", "prompt"]]\<close>: the frame of
  \<open>get_logs_for_evaluation\<close> has no \<^verbatim>\<open>response\<close> and no \<^verbatim>\<open>prompt\<close> column, so selecting them
  raises \<open>KeyError\<close>.
\<close>

fun select_job_rows :: "pass_row list \<Rightarrow> py_error + job_row list" where
  "select_job_rows [] = Inr []"
| "select_job_rows (LogRow r # rows) = Inl KeyError"
| "select_job_rows (EvalRow c # rows) =
     (case select_job_rows rows of
        Inl e \<Rightarrow> Inl e
      | Inr jrs \<Rightarrow>
          Inr (\<lparr>jr_response = ec_response c, jr_reference = ec_reference c,
                jr_session_id = ec_session_id c, jr_prompt = ec_prompt c\<rparr> # jrs))"

text \<open>\<^verbatim>\<open>replace("", np.nan)\<close> on the four columns, and \<^verbatim>\<open>dropna(subset=..., how="any")\<close>.\<close>

definition blank_to_nan :: "jv \<Rightarrow> jv" where
  "blank_to_nan v = (if v = JStr [] then JNull else v)"

definition replace_blanks :: "job_row \<Rightarrow> job_row" where
  "replace_blanks r =
     \<lparr>jr_response = blank_to_nan (jr_response r), jr_reference = blank_to_nan (jr_reference r),
      jr_session_id = blank_to_nan (jr_session_id r), jr_prompt = blank_to_nan (jr_prompt r)\<rparr>"

definition isna :: "jv \<Rightarrow> bool" where
  "isna v = (v = JNull)"

definition needs_reference :: "string \<Rightarrow> bool" where
  "needs_reference metric_type =
     (metric_type = ''rouge'' \<or> metric_type = ''bleu'' \<or> metric_type = ''contains_words'')"

definition essential_columns :: "string \<Rightarrow> (job_row \<Rightarrow> jv) list" where
  "essential_columns metric_type =
     (if needs_reference metric_type then [jr_response, jr_reference] else [jr_response])"

definition dropna :: "(job_row \<Rightarrow> jv) list \<Rightarrow> job_row list \<Rightarrow> job_row list" where
  "dropna required rows = filter (\<lambda>r. \<not> (\<exists>column \<in> set required. isna (column r))) rows"

definition clean_partition :: "string \<Rightarrow> job_row list \<Rightarrow> job_row list" where
  "clean_partition metric_type rows =
     dropna (essential_columns metric_type) (map replace_blanks rows)"

subsection \<open>One scoring job: \<^verbatim>\<open>_execute_evaluation_run_for_artifacts\<close>\<close>

text \<open>\<^verbatim>\<open>str.lower\<close> on code points below 256.\<close>

definition py_lower_char :: "char \<Rightarrow> char" where
  "py_lower_char c =
     (let n = (of_char c :: nat)
      in if (65 \<le> n \<and> n \<le> 90) \<or> (192 \<le> n \<and> n \<le> 222 \<and> n \<noteq> 215) then char_of (n + 32)
         else c)"

definition py_lower :: "string \<Rightarrow> string" where
  "py_lower s = map py_lower_char s"

definition run_name_of :: "string \<Rightarrow> string \<Rightarrow> string" where
  "run_name_of metric_type current_time_str =
     (if metric_type = ''contains_words'' then ''custom-metric-'' @ current_time_str
      else py_replace ''_'' ''-'' (py_lower metric_type) @ ''-'' @ current_time_str)"

text \<open>\<^verbatim>\<open>not eval_df["reference"].replace("", np.nan).dropna().empty\<close>\<close>

definition has_reference :: "job_row list \<Rightarrow> bool" where
  "has_reference rows = (\<exists>r \<in> set rows. \<not> isna (blank_to_nan (jr_reference r)))"

definition metrics_to_apply :: "string \<Rightarrow> job_row list \<Rightarrow> metric_spec list" where
  "metrics_to_apply metric_type rows =
     (if metric_type = ''contains_words'' then [CustomContainsWords]
      else if metric_type = ''bleu'' then [NamedMetric ''bleu'']
      else if metric_type = ''rouge'' then [NamedMetric ''rouge'']
      else [NamedMetric ''fluency'', NamedMetric ''coherence'', NamedMetric ''safety'']
           @ (if has_reference rows then [NamedMetric ''rouge'', NamedMetric ''bleu''] else []))"

definition full_judgement_model_name :: "env \<Rightarrow> string" where
  "full_judgement_model_name e =
     ''projects/'' @ env_project_id e @ ''/locations/'' @ env_location e
     @ ''/publishers/google/models/'' @ env_judgement_model_name e"

text \<open>Column assignment on a score table: a new column goes last.\<close>

fun row_set :: "string \<Rightarrow> cell \<Rightarrow> (string \<times> cell) list \<Rightarrow> (string \<times> cell) list" where
  "row_set k v [] = [(k, v)]"
| "row_set k v ((k', v') # r) = (if k = k' then (k, v) # r else (k', v') # row_set k v r)"

definition with_column :: "string \<Rightarrow> string list \<Rightarrow> string list" where
  "with_column k columns = (if k \<in> set columns then columns else columns @ [k])"

definition set_column_const :: "string \<Rightarrow> cell \<Rightarrow> mframe \<Rightarrow> mframe" where
  "set_column_const k v df =
     \<lparr>mf_columns = with_column k (mf_columns df), mf_rows = map (row_set k v) (mf_rows df)\<rparr>"

definition set_column :: "string \<Rightarrow> cell list \<Rightarrow> mframe \<Rightarrow> mframe" where
  "set_column k vs df =
     \<lparr>mf_columns = with_column k (mf_columns df),
      mf_rows = map (\<lambda>(v, r). row_set k v r) (zip vs (mf_rows df))\<rparr>"

definition cell_of_jv :: "jv \<Rightarrow> cell" where
  "cell_of_jv v = (case v of JNull \<Rightarrow> NaN | JStr s \<Rightarrow> Txt s | _ \<Rightarrow> Other v)"

definition cell_at :: "(string \<times> cell) list \<Rightarrow> string \<Rightarrow> cell" where
  "cell_at row k = (case map_of row k of None \<Rightarrow> NaN | Some v \<Rightarrow> v)"

text \<open>
  The job: the scoring call, then the metric type and (when the lengths agree) the session
  ids written into the returned table. The result is what the function returns, or the
  exception the scoring call raised, with the warning it printed.
\<close>

definition execute_evaluation_run ::
  "env \<Rightarrow> collab \<Rightarrow> job_row list \<Rightarrow> string \<Rightarrow> string
   \<Rightarrow> (py_error + (string \<times> real) list \<times> mframe option) \<times> event list" where
  "execute_evaluation_run e co eval_df metric_type0 current_time_str =
     (let metric_type = py_strip metric_type0;
          run_name = run_name_of metric_type current_time_str
      in case co_evaluate co eval_df (metrics_to_apply metric_type eval_df)
                (full_judgement_model_name e) run_name of
           Inl err \<Rightarrow> (Inl err, [])
         | Inr evaluation_result \<Rightarrow>
           (case er_metrics_table evaluation_result of
              None \<Rightarrow> (Inr (er_summary_metrics evaluation_result, None), [])
            | Some table \<Rightarrow>
              (let tagged = set_column_const ''metric_type'' (Txt metric_type) table
               in if length eval_df = length (mf_rows tagged)
                  then (Inr (er_summary_metrics evaluation_result,
                             Some (set_column ''session_id''
                                     (map (\<lambda>r. cell_of_jv (jr_session_id r)) eval_df) tagged)),
                        [])
                  else (Inr (er_summary_metrics evaluation_result, Some tagged),
                        [SessionIdMismatch metric_type]))))"

subsection \<open>The jobs of a pass\<close>

text \<open>
  The state of the loops: the summaries and the score tables collected so far, and what
  was printed and dispatched.
\<close>

record job_acc =
  all_summary_metrics_data :: "((string \<times> real) list \<times> string) list"
  all_metrics_dfs :: "mframe list"
  trace :: "event list"

definition log_event :: "event list \<Rightarrow> job_acc \<Rightarrow> job_acc" where
  "log_event evs acc = acc\<lparr>trace := trace acc @ evs\<rparr>"

text \<open>
  The part of the agent loop body after the \<^verbatim>\<open>try\<close>: the summary is kept when it is not
  empty, the table when it has a \<^verbatim>\<open>session_id\<close> column.
\<close>

definition collect_agent_result ::
  "string \<Rightarrow> (string \<times> real) list \<times> mframe option \<Rightarrow> job_acc \<Rightarrow> job_acc" where
  "collect_agent_result metric_type res acc =
     (let acc1 = (if fst res \<noteq> []
                  then acc\<lparr>all_summary_metrics_data :=
                             all_summary_metrics_data acc @ [(fst res, metric_type)]\<rparr>
                  else acc)
      in case snd res of
           None \<Rightarrow> acc1
         | Some metrics_df \<Rightarrow>
             (if ''session_id'' \<in> set (mf_columns metrics_df)
              then acc1\<lparr>all_metrics_dfs :=
                          all_metrics_dfs acc1
                          @ [set_column_const ''metric_type'' (Txt metric_type) metrics_df]\<rparr>
              else log_event [MissingSessionId metric_type] acc1))"

text \<open>
  The loop over the groups of the agent frame. Only the column selection can end it with
  an exception; an exception of the job is caught, printed, and the loop goes on.
\<close>

fun run_agent_groups ::
  "env \<Rightarrow> collab \<Rightarrow> string \<Rightarrow> (string \<times> pass_row list) list \<Rightarrow> job_acc \<Rightarrow> py_error + job_acc" where
  "run_agent_groups e co ts [] acc = Inr acc"
| "run_agent_groups e co ts ((metric_type, group_df_original) # groups) acc =
     (if metric_type = [] then
        run_agent_groups e co ts groups
          (log_event [SkipNoMetricType (length group_df_original)] acc)
      else if metric_type = ''MANUAL'' then
        run_agent_groups e co ts groups (log_event [SkipManual (length group_df_original)] acc)
      else
        (case select_job_rows group_df_original of
           Inl err \<Rightarrow> Inl err
         | Inr selected \<Rightarrow>
           (let group_df = clean_partition metric_type selected
            in if group_df = [] then
                 run_agent_groups e co ts groups (log_event [SkipEmptyPartition metric_type] acc)
               else
                 (case execute_evaluation_run e co group_df metric_type ts of
                    (Inl err, evs) \<Rightarrow>
                      run_agent_groups e co ts groups
                        (log_event (Job metric_type group_df # evs @ [EvalError metric_type err])
                           acc)
                  | (Inr res, evs) \<Rightarrow>
                      run_agent_groups e co ts groups
                        (collect_agent_result metric_type res
                           (log_event (Job metric_type group_df # evs) acc))))))"

text \<open>The agent part of the pass: skipped when the frame is \<open>None\<close> or empty.\<close>

definition run_agent_part ::
  "env \<Rightarrow> collab \<Rightarrow> bool \<Rightarrow> string \<Rightarrow> pass_row list option \<Rightarrow> job_acc \<Rightarrow> py_error + job_acc" where
  "run_agent_part e co fill ts agent_df acc =
     (case agent_df of
        None \<Rightarrow> Inr acc
      | Some rows \<Rightarrow>
          (if rows = [] then Inr acc
           else (case keyed_rows fill rows of
                   Inl err \<Rightarrow> Inl err
                 | Inr krs \<Rightarrow> run_agent_groups e co ts (group_by_metric_type krs) acc)))"

text \<open>The simple part: one job for the whole simple frame, only the response required.\<close>

definition run_simple_part ::
  "env \<Rightarrow> collab \<Rightarrow> string \<Rightarrow> pass_row list option \<Rightarrow> job_acc \<Rightarrow> py_error + job_acc" where
  "run_simple_part e co ts simple_df acc =
     (case simple_df of
        None \<Rightarrow> Inr acc
      | Some rows \<Rightarrow>
          (if rows = [] then Inr acc
           else (case select_job_rows rows of
                   Inl err \<Rightarrow> Inl err
                 | Inr selected \<Rightarrow>
                   (let simple_df_cleaned = dropna [jr_response] (map replace_blanks selected)
                    in if simple_df_cleaned = [] then Inr (log_event [SkipEmptySimple] acc)
                       else
                         (case execute_evaluation_run e co simple_df_cleaned ''simple'' ts of
                            (Inl err, evs) \<Rightarrow>
                              Inr (log_event
                                     (Job ''simple'' simple_df_cleaned # evs @ [SimpleEvalError err])
                                     acc)
                          | (Inr res, evs) \<Rightarrow>
                              (let acc0 = log_event (Job ''simple'' simple_df_cleaned # evs) acc;
                                   acc1 = (if fst res \<noteq> []
                                           then acc0\<lparr>all_summary_metrics_data :=
                                                   all_summary_metrics_data acc0
                                                   @ [(fst res, ''simple'')]\<rparr>
                                           else acc0)
                               in Inr (case snd res of
                                         None \<Rightarrow> acc1
                                       | Some metrics_df \<Rightarrow>
                                           acc1\<lparr>all_metrics_dfs :=
                                                  all_metrics_dfs acc1 @ [metrics_df]\<rparr>)))))))"


definition run_jobs ::
  "env \<Rightarrow> collab \<Rightarrow> bool \<Rightarrow> string \<Rightarrow> pass_row list option \<Rightarrow> pass_row list option
   \<Rightarrow> py_error + job_acc" where
  "run_jobs e co fill ts agent_df simple_df =
     (case run_agent_part e co fill ts agent_df
             \<lparr>all_summary_metrics_data = [], all_metrics_dfs = [], trace = []\<rparr> of
        Inl err \<Rightarrow> Inl err
      | Inr acc \<Rightarrow> run_simple_part e co ts simple_df acc)"

subsection \<open>The radar chart\<close>

text \<open>
  \<^verbatim>\<open>generate_radar_chart\<close>: the axis labels are the summary keys that contain \<^verbatim>\<open>/mean\<close>, with
  it removed, sorted; each run is plotted with 0.0 on the axes it lacks. Drawing and
  encoding the image is the collaborator \<open>co_render\<close>.
\<close>

definition radar_labels :: "((string \<times> real) list \<times> string) list \<Rightarrow> string list" where
  "radar_labels summaries =
     sort (remdups (concat (map (\<lambda>(summary_metrics, run).
        map (\<lambda>key. py_replace ''/mean'' [] key)
          (filter (\<lambda>key. is_substring ''/mean'' key) (map fst summary_metrics))) summaries)))"

definition radar_scores :: "string list \<Rightarrow> (string \<times> real) list \<Rightarrow> real list" where
  "radar_scores labels summary_metrics =
     map (\<lambda>label. case map_of summary_metrics (label @ ''/mean'') of None \<Rightarrow> 0 | Some v \<Rightarrow> v)
       labels"

definition generate_radar_chart ::
  "collab \<Rightarrow> ((string \<times> real) list \<times> string) list \<Rightarrow> string \<Rightarrow> string" where
  "generate_radar_chart co summaries current_time_str =
     (if summaries = [] then []
      else if radar_labels summaries = [] then []
      else co_render co (radar_labels summaries)
             (map (\<lambda>(summary_metrics, run). (radar_scores (radar_labels summaries) summary_metrics, run))
                summaries)
             current_time_str)"

record artifact =
  art_id :: string
  art_version_id :: string
  art_mime_type :: string
  art_gcs_url :: string
  art_data :: string

text \<open>
  The chart is uploaded and downloaded again only when there is a summary and the chart is
  not empty. An exception of the upload or the download is not caught.
\<close>

definition upload_radar_chart ::
  "env \<Rightarrow> collab \<Rightarrow> string \<Rightarrow> job_acc \<Rightarrow> py_error + artifact list \<times> job_acc" where
  "upload_radar_chart e co ts acc =
     (if all_summary_metrics_data acc = [] then Inr ([], acc)
      else
        (let chart = generate_radar_chart co (all_summary_metrics_data acc) ts
         in if chart = [] then Inr ([], acc)
            else
              (let filename = ''all_metrics_radar_chart_'' @ ts @ ''.png'';
                   blob_name = ''evaluation_artifacts/combined/'' @ filename;
                   gcs_uri = ''gs://'' @ py_replace ''gs://'' [] (env_bucket_name e)
                             @ ''/'' @ blob_name
               in case co_upload co blob_name chart of
                    Some err \<Rightarrow> Inl err
                  | None \<Rightarrow>
                    (case co_download co blob_name filename of
                       Some err \<Rightarrow> Inl err
                     | None \<Rightarrow>
                         Inr ([\<lparr>art_id = ''all_metrics_radar_chart'', art_version_id = ts,
                                 art_mime_type = ''image/png'', art_gcs_url = gcs_uri,
                                 art_data = ''data:image/png;base64,'' @ chart\<rparr>],
                              log_event [Uploaded gcs_uri, Downloaded filename] acc)))))"

subsection \<open>The long-form score table\<close>

record score_row =
  sr_session_id :: cell
  sr_metric_type :: cell
  sr_metric_value :: cell

definition non_metric_columns :: "string list" where
  "non_metric_columns =
     [''session_id'', ''response'', ''reference'', ''metric_type'', ''prompt'',
      ''conversation'', ''ground_truth'']"

definition score_cols :: "mframe \<Rightarrow> string list" where
  "score_cols df = filter (\<lambda>col. col \<notin> set non_metric_columns) (mf_columns df)"

text \<open>
  \<^verbatim>\<open>melt\<close> with \<^verbatim>\<open>session_id\<close> as the id column: one block of rows per score column, and the
  \<^verbatim>\<open>_score\<close> suffix convention removed from the column name.
\<close>

definition melt :: "mframe \<Rightarrow> string list \<Rightarrow> score_row list" where
  "melt df cols =
     concat (map (\<lambda>col. map (\<lambda>r. \<lparr>sr_session_id = cell_at r ''session_id'',
                                     sr_metric_type = Txt (py_replace ''_score'' [] col),
                                     sr_metric_value = cell_at r col\<rparr>) (mf_rows df)) cols)"

definition frame_empty :: "mframe \<Rightarrow> bool" where
  "frame_empty df = (mf_rows df = [] \<or> mf_columns df = [])"

text \<open>
  The loop that fills \<^verbatim>\<open>processed_dfs_for_concat\<close>. Selecting the \<^verbatim>\<open>session_id\<close> column of a
  table that has none raises \<open>KeyError\<close>.
\<close>

fun process_metrics_dfs :: "mframe list \<Rightarrow> py_error + score_row list list" where
  "process_metrics_dfs [] = Inr []"
| "process_metrics_dfs (df # dfs) =
     (if frame_empty df \<or> ''metric_type'' \<notin> set (mf_columns df) then process_metrics_dfs dfs
      else if score_cols df = [] then process_metrics_dfs dfs
      else if ''session_id'' \<notin> set (mf_columns df) then Inl KeyError
      else (case process_metrics_dfs dfs of
              Inl err \<Rightarrow> Inl err
            | Inr melted \<Rightarrow> Inr (melt df (score_cols df) # melted)))"

definition combine_metrics :: "mframe list \<Rightarrow> py_error + score_row list option" where
  "combine_metrics dfs =
     (if dfs = [] then Inr None
      else (case process_metrics_dfs dfs of
              Inl err \<Rightarrow> Inl err
            | Inr melted \<Rightarrow> Inr (Some (concat melted))))"

subsection \<open>The whole pass\<close>

text \<open>
  The frames of the pass: the rows handed in, split by whether the ground truth says
  \<^verbatim>\<open>simple\<close>, or else the rows read from the log.
\<close>

definition split_eval_df :: "eval_case list \<Rightarrow> pass_row list option \<times> pass_row list option" where
  "split_eval_df eval_df =
     (if eval_df \<noteq> [] then
        (frame_or_none
           (map EvalRow
              (filter (\<lambda>c. dict_get (ec_ground_truth c) ''metric_type'' \<noteq> JStr ''simple'') eval_df)),
         frame_or_none
           (map EvalRow
              (filter (\<lambda>c. dict_get (ec_ground_truth c) ''metric_type'' = JStr ''simple'') eval_df)))
      else (Some [], Some []))"

definition load_frames ::
  "env \<Rightarrow> collab \<Rightarrow> eval_case list option \<Rightarrow> string option \<Rightarrow> string option
   \<Rightarrow> py_error + pass_row list option \<times> pass_row list option" where
  "load_frames e co eval_df last_run session_id =
     (case eval_df of
        Some df \<Rightarrow> Inr (split_eval_df df)
      | None \<Rightarrow>
        (case co_list_entries co (log_filter (env_log_name e) last_run) of
           Inl err \<Rightarrow> Inl err
         | Inr entries \<Rightarrow>
           (case get_logs_for_evaluation session_id entries of
              Inl err \<Rightarrow> Inl err
            | Inr (agent_df, simple_df) \<Rightarrow>
                Inr (map_option (map LogRow) agent_df, map_option (map LogRow) simple_df))))"

text \<open>
  What the pass returns (the artifacts and the combined score table), together with the
  state of its loops, kept to state properties of the pass.
\<close>

record pass_result =
  pr_artifacts :: "artifact list"
  pr_final_combined_df :: "score_row list option"
  pr_jobs :: job_acc

text \<open>Everything the pass does before it touches the timestamp file.\<close>

definition run_pass_body ::
  "env \<Rightarrow> collab \<Rightarrow> clock \<Rightarrow> bool \<Rightarrow> eval_case list option \<Rightarrow> bool \<Rightarrow> string option \<Rightarrow> world
   \<Rightarrow> py_error + pass_result" where
  "run_pass_body e co clk fill eval_df all_time session_id w =
     (case co_init co of
        Some err \<Rightarrow> Inl err
      | None \<Rightarrow>
        (let current_time_str = clock_time_str clk;
             last_run = (if all_time then None else Some (get_last_run_timestamp clk w))
         in case load_frames e co eval_df last_run session_id of
              Inl err \<Rightarrow> Inl err
            | Inr (agent_df, simple_df) \<Rightarrow>
              (case run_jobs e co fill current_time_str agent_df simple_df of
                 Inl err \<Rightarrow> Inl err
               | Inr acc \<Rightarrow>
                 (case upload_radar_chart e co current_time_str acc of
                    Inl err \<Rightarrow> Inl err
                  | Inr (artifacts, acc') \<Rightarrow>
                    (case combine_metrics (all_metrics_dfs acc') of
                       Inl err \<Rightarrow> Inl err
                     | Inr final_combined_df \<Rightarrow>
                         Inr \<lparr>pr_artifacts = artifacts,
                              pr_final_combined_df = final_combined_df,
                              pr_jobs = acc'\<rparr>)))))"

text \<open>
  The pass: an exception anywhere in the body leaves the function before its last
  statement, \<^verbatim>\<open>if not all_time: save_current_timestamp()\<close>.
\<close>

definition run_evaluation_and_generate_artifacts ::
  "env \<Rightarrow> collab \<Rightarrow> clock \<Rightarrow> bool \<Rightarrow> eval_case list option \<Rightarrow> bool \<Rightarrow> string option \<Rightarrow> world
   \<Rightarrow> (py_error + pass_result) \<times> world" where
  "run_evaluation_and_generate_artifacts e co clk fill eval_df all_time session_id w =
     (case run_pass_body e co clk fill eval_df all_time session_id w of
        Inl err \<Rightarrow> (Inl err, w)
      | Inr res \<Rightarrow> (Inr res, if all_time then w else save_current_timestamp clk w))"

subsection \<open>Notions used to state the properties of the pass\<close>

text \<open>
  The jobs and the caught job failures recorded in a trace, the value a job returned or
  the exception it raised, and what the jobs leave in the collected summaries.
\<close>

fun jobs_of :: "event list \<Rightarrow> (string \<times> job_row list) list" where
  "jobs_of [] = []"
| "jobs_of (Job metric_type rows # evs) = (metric_type, rows) # jobs_of evs"
| "jobs_of (ev # evs) = jobs_of evs"

fun errors_of :: "event list \<Rightarrow> (string \<times> py_error) list" where
  "errors_of [] = []"
| "errors_of (EvalError metric_type err # evs) = (metric_type, err) # errors_of evs"
| "errors_of (SimpleEvalError err # evs) = (''simple'', err) # errors_of evs"
| "errors_of (ev # evs) = errors_of evs"

definition job_outcome ::
  "env \<Rightarrow> collab \<Rightarrow> string \<Rightarrow> string \<times> job_row list
   \<Rightarrow> py_error + (string \<times> real) list \<times> mframe option" where
  "job_outcome e co ts job = fst (execute_evaluation_run e co (snd job) (fst job) ts)"

definition summaries_of_jobs ::
  "env \<Rightarrow> collab \<Rightarrow> string \<Rightarrow> (string \<times> job_row list) list
   \<Rightarrow> ((string \<times> real) list \<times> string) list" where
  "summaries_of_jobs e co ts jobs =
     concat (map (\<lambda>job. case job_outcome e co ts job of
                          Inl err \<Rightarrow> []
                        | Inr res \<Rightarrow> (if fst res \<noteq> [] then [(fst res, fst job)] else [])) jobs)"

definition errors_of_jobs ::
  "env \<Rightarrow> collab \<Rightarrow> string \<Rightarrow> (string \<times> job_row list) list \<Rightarrow> (string \<times> py_error) list" where
  "errors_of_jobs e co ts jobs =
     concat (map (\<lambda>job. case job_outcome e co ts job of
                          Inl err \<Rightarrow> [(fst job, err)]
                        | Inr res \<Rightarrow> []) jobs)"

text \<open>
  A cell holds a text when it is neither missing nor the empty string. The rows a
  partition keeps: those with a response text and, in a family that needs a reference,
  a reference text.
\<close>

definition has_text :: "jv \<Rightarrow> bool" where
  "has_text v = (v \<noteq> JNull \<and> v \<noteq> JStr [])"

definition valid_rows :: "string \<Rightarrow> job_row list \<Rightarrow> job_row list" where
  "valid_rows metric_type rows =
     filter (\<lambda>r. has_text (jr_response r)
                 \<and> (needs_reference metric_type \<longrightarrow> has_text (jr_reference r))) rows"

text \<open>
  The jobs the groups of the agent frame call for, and the job of the simple frame: a
  group with an empty or \<^verbatim>\<open>MANUAL\<close> metric type and a partition without valid rows call for
  none.
\<close>

definition job_rows_of :: "pass_row list \<Rightarrow> job_row list" where
  "job_rows_of rows = (case select_job_rows rows of Inl err \<Rightarrow> [] | Inr selected \<Rightarrow> selected)"

definition planned_agent_jobs :: "(string \<times> pass_row list) list \<Rightarrow> (string \<times> job_row list) list" where
  "planned_agent_jobs groups =
     concat (map (\<lambda>(metric_type, group).
        if metric_type = [] \<or> metric_type = ''MANUAL''
           \<or> valid_rows metric_type (job_rows_of group) = [] then []
        else [(metric_type, map replace_blanks (valid_rows metric_type (job_rows_of group)))])
       groups)"

definition planned_simple_jobs :: "pass_row list \<Rightarrow> (string \<times> job_row list) list" where
  "planned_simple_jobs rows =
     (if valid_rows ''simple'' (job_rows_of rows) = [] then []
      else [(''simple'', map replace_blanks (valid_rows ''simple'' (job_rows_of rows)))])"


text \<open>
  \<open>acc'\<close> is \<open>acc\<close> after the given jobs ran: the jobs are recorded in order, the collected
  summaries are those of the jobs that returned a non-empty summary, the recorded failures
  are those of the jobs that raised, and every failed job leaves no score table.
\<close>

definition jobs_added ::
  "env \<Rightarrow> collab \<Rightarrow> string \<Rightarrow> job_acc \<Rightarrow> job_acc \<Rightarrow> (string \<times> job_row list) list \<Rightarrow> bool" where
  "jobs_added e co ts acc acc' jobs =
     (jobs_of (trace acc') = jobs_of (trace acc) @ jobs
      \<and> all_summary_metrics_data acc' =
          all_summary_metrics_data acc @ summaries_of_jobs e co ts jobs
      \<and> errors_of (trace acc') = errors_of (trace acc) @ errors_of_jobs e co ts jobs
      \<and> length (all_metrics_dfs acc') + length (errors_of_jobs e co ts jobs)
          \<le> length (all_metrics_dfs acc) + length jobs
      \<and> length (all_metrics_dfs acc) \<le> length (all_metrics_dfs acc'))"

text \<open>
  Example collaborators, clock and rows: a scoring service that answers every job, one
  that raises on the \<^verbatim>\<open>bleu\<close> job, a logging client that cannot be reached, a blob store
  that cannot be reached, and clients that fail to start.
\<close>

definition example_env :: env where
  "example_env = \<lparr>env_project_id = ''project'', env_location = ''us-central1'',
                   env_bucket_name = ''gs://bucket'', env_short_log_name = ''run'',
                   env_judgement_model_name = ''judge''\<rparr>"

definition example_clock :: clock where
  "example_clock = \<lparr>clock_time_str = ''20260102030405'',
                     clock_utcnow_iso = ''2026-01-02T03:04:05'',
                     clock_yesterday_iso = ''2026-01-01T03:04:05''\<rparr>"

definition example_collab :: collab where
  "example_collab =
     \<lparr>co_init = None,
      co_list_entries = (\<lambda>log_filter. Inr []),
      co_evaluate = (\<lambda>dataset metrics model run_name.
         Inr \<lparr>er_summary_metrics = [(''score/mean'', 1)], er_metrics_table = None\<rparr>),
      co_render = (\<lambda>labels runs time_str. ''png''),
      co_upload = (\<lambda>blob_name data. None),
      co_download = (\<lambda>blob_name file_name. None)\<rparr>"

definition example_bleu_failing_collab :: collab where
  "example_bleu_failing_collab =
     example_collab\<lparr>co_evaluate := (\<lambda>dataset metrics model run_name.
         if metrics = [NamedMetric ''bleu''] then Inl (CollaboratorError ''scoring failed'')
         else Inr \<lparr>er_summary_metrics = [(''score/mean'', 1)], er_metrics_table = None\<rparr>)\<rparr>"

definition example_unreachable_logs_collab :: collab where
  "example_unreachable_logs_collab =
     example_collab\<lparr>co_list_entries := (\<lambda>log_filter. Inl (CollaboratorError ''logging unreachable''))\<rparr>"

definition example_upload_failing_collab :: collab where
  "example_upload_failing_collab =
     example_collab\<lparr>co_upload := (\<lambda>blob_name data. Some (CollaboratorError ''storage unreachable''))\<rparr>"

definition example_init_failing_collab :: collab where
  "example_init_failing_collab =
     example_collab\<lparr>co_init := Some (CollaboratorError ''no credentials'')\<rparr>"

text \<open>
  A logging client that lists given entries; a logged session of one turn with a reference
  under the family \<^verbatim>\<open>bleu\<close>, and a logged simple exchange without reference, each with the
  row \<open>get_logs_for_evaluation\<close> makes of it.
\<close>

definition example_scored_session_entries :: "log_entry list" where
  "example_scored_session_entries =
     [struct_entry 1 [(''session_id'', JStr ''s''), (''log_type'', JStr ''user_message''),
                      (''prompt'', JStr ''q0'')],
      struct_entry 2 [(''session_id'', JStr ''s''), (''log_type'', JStr ''final_answer''),
                      (''final_answer'', JStr ''a0''),
                      (''ground_truth'',
                       JObj [(''metric_type'', JStr ''bleu''), (''reference'', JStr ''x'')])]]"

definition example_scored_session_row :: conv_record where
  "example_scored_session_row =
     \<lparr>cr_eval_id = ''s-0'', cr_session_id = ''s'', cr_user_content = JStr ''q0'',
      cr_agent_response = JStr ''a0'',
      cr_reference = JObj [(''metric_type'', JStr ''bleu''), (''reference'', JStr ''x'')],
      cr_metric_type = JStr ''bleu'', cr_metric_value = [],
      cr_ground_truth = Some [(''metric_type'', JStr ''bleu''), (''reference'', JStr ''x'')]\<rparr>"

definition example_plain_exchange_entries :: "log_entry list" where
  "example_plain_exchange_entries =
     [struct_entry 1 [(''request_id'', JStr ''r''), (''prompt'', JStr ''p''),
                      (''response'', JStr ''a'')]]"

definition example_plain_exchange_row :: conv_record where
  "example_plain_exchange_row =
     \<lparr>cr_eval_id = ''r'', cr_session_id = ''r'', cr_user_content = JStr ''p'',
      cr_agent_response = JStr ''a'', cr_reference = JStr [],
      cr_metric_type = JStr ''simple'', cr_metric_value = [],
      cr_ground_truth = None\<rparr>"

definition example_logging_collab :: "log_entry list \<Rightarrow> collab" where
  "example_logging_collab entries =
     example_collab\<lparr>co_list_entries := (\<lambda>log_filter. Inr entries)\<rparr>"

definition example_case :: "string \<Rightarrow> string \<Rightarrow> string \<Rightarrow> string \<Rightarrow> eval_case" where
  "example_case session response reference metric_type =
     \<lparr>ec_conversation = JList [], ec_session_id = JStr session, ec_response = JStr response,
      ec_prompt = JStr ''q'', ec_reference = JStr reference,
      ec_ground_truth = [(''metric_type'', JStr metric_type)]\<rparr>"

definition example_eval_df :: "eval_case list" where
  "example_eval_df =
     [example_case ''a'' ''ra'' [] ''bleu'',
      example_case ''c'' ''rc'' ''x'' ''bleu'',
      example_case ''d'' ''rd'' [] ''rouge'',
      example_case ''b'' ''rb'' [] ''simple'']"

definition example_job_row :: "string \<Rightarrow> string \<Rightarrow> jv \<Rightarrow> job_row" where
  "example_job_row session response reference =
     \<lparr>jr_response = JStr response, jr_reference = reference, jr_session_id = JStr session,
      jr_prompt = JStr ''q''\<rparr>"

definition example_jobs :: "(string \<times> job_row list) list" where
  "example_jobs =
     [(''bleu'', [example_job_row ''c'' ''rc'' (JStr ''x'')]),
      (''simple'', [example_job_row ''b'' ''rb'' JNull])]"


section \<open>Merge on export: the score table written by \<^verbatim>\<open>main\<close>\<close>

text \<open>
  A table: named columns and rows of cells aligned with the columns. The prior export
  handed to the export step is what \<^verbatim>\<open>pd.read_csv\<close> makes of the file at the output path: the
  file is absent, not readable as a table (the read raises something other than
  \<open>FileNotFoundError\<close>), or a frame. The result of the step is the frame handed to \<^verbatim>\<open>to_csv\<close>.
  What \<^verbatim>\<open>read_csv\<close> makes of a file that \<^verbatim>\<open>to_csv\<close> wrote is not part of the model: the reader
  types every column anew, so a column of identities that all look like numbers comes back
  as numbers.
\<close>

record csv_table =
  ct_columns :: "string list"
  ct_rows :: "cell list list"

datatype csv_file = NoFile | Unreadable py_error | CsvFile csv_table

definition cell_in :: "string list \<Rightarrow> cell list \<Rightarrow> string \<Rightarrow> cell" where
  "cell_in columns row k = (case map_of (zip columns row) k of None \<Rightarrow> NaN | Some v \<Rightarrow> v)"

definition table_empty :: "csv_table \<Rightarrow> bool" where
  "table_empty t = (ct_rows t = [] \<or> ct_columns t = [])"

text \<open>
  \<^verbatim>\<open>drop_duplicates(subset=[key], keep="first")\<close>: a row is dropped when an earlier row has
  the same key; missing keys count as equal.
\<close>

fun drop_duplicates_seen :: "('a \<Rightarrow> cell) \<Rightarrow> cell list \<Rightarrow> 'a list \<Rightarrow> 'a list" where
  "drop_duplicates_seen key seen [] = []"
| "drop_duplicates_seen key seen (r # rs) =
     (if key r \<in> set seen then drop_duplicates_seen key seen rs
      else r # drop_duplicates_seen key (key r # seen) rs)"

definition drop_duplicates :: "('a \<Rightarrow> cell) \<Rightarrow> 'a list \<Rightarrow> 'a list" where
  "drop_duplicates key rows = drop_duplicates_seen key [] rows"

text \<open>
  Reading the prior export: a missing file is the empty frame; the duplicates of
  \<^verbatim>\<open>eval_id\<close> are dropped in place, which raises \<open>KeyError\<close> on a table without that column.
\<close>

definition read_original :: "csv_file \<Rightarrow> py_error + csv_table" where
  "read_original file =
     (case file of
        NoFile \<Rightarrow> Inr \<lparr>ct_columns = [], ct_rows = []\<rparr>
      | Unreadable err \<Rightarrow> Inl err
      | CsvFile t \<Rightarrow>
          (if ''eval_id'' \<in> set (ct_columns t)
           then Inr (t\<lparr>ct_rows := drop_duplicates (\<lambda>row. cell_in (ct_columns t) row ''eval_id'')
                                      (ct_rows t)\<rparr>)
           else Inl KeyError))"

text \<open>
  The combined score table with \<^verbatim>\<open>session_id\<close> renamed to \<^verbatim>\<open>eval_id\<close>, as a table.
\<close>

definition table_of_scores :: "score_row list \<Rightarrow> csv_table" where
  "table_of_scores rows =
     \<lparr>ct_columns = [''eval_id'', ''metric_type'', ''metric_value''],
      ct_rows = map (\<lambda>r. [sr_session_id r, sr_metric_type r, sr_metric_value r]) rows\<rparr>"

text \<open>\<^verbatim>\<open>new.fillna(original)\<close> on one cell.\<close>

definition fillna :: "cell \<Rightarrow> cell \<Rightarrow> cell" where
  "fillna new original = (if new = NaN then original else new)"

text \<open>
  One row of the left table through \<^verbatim>\<open>pd.merge(..., on="eval_id", how="left")\<close> and the two
  fill statements: the row is joined with every row of the right table that has its
  \<^verbatim>\<open>eval_id\<close>, or with missing values when there is none; the two metric columns take the
  new cell where it is present and the original cell otherwise, and move to the end.
\<close>

definition merged_row :: "string list \<Rightarrow> cell list \<Rightarrow> cell \<Rightarrow> cell \<Rightarrow> cell list" where
  "merged_row columns row new_type new_value =
     map snd (filter (\<lambda>(c, v). c \<noteq> ''metric_type'' \<and> c \<noteq> ''metric_value'') (zip columns row))
     @ [fillna new_type (cell_in columns row ''metric_type''),
        fillna new_value (cell_in columns row ''metric_value'')]"

definition merge_left_row :: "string list \<Rightarrow> score_row list \<Rightarrow> cell list \<Rightarrow> cell list list" where
  "merge_left_row columns right row =
     (let matches = filter (\<lambda>n. sr_session_id n = cell_in columns row ''eval_id'') right
      in if matches = [] then [merged_row columns row NaN NaN]
         else map (\<lambda>n. merged_row columns row (sr_metric_type n) (sr_metric_value n)) matches)"

definition merged_columns :: "string list \<Rightarrow> string list" where
  "merged_columns columns =
     filter (\<lambda>c. c \<noteq> ''metric_type'' \<and> c \<noteq> ''metric_value'') columns
     @ [''metric_type'', ''metric_value'']"

text \<open>
  The key columns of \<^verbatim>\<open>pd.merge\<close>. The \<^verbatim>\<open>eval_id\<close> column of a frame read from a file has a
  numeric type when every cell is a number or missing. The \<^verbatim>\<open>eval_id\<close> column of the pass
  is a column of Python objects that \<^verbatim>\<open>pd.merge\<close> infers to be string-like when every cell is a
  string or missing; identities of the pass that are not strings are outside the model.
  Merging a numeric key column with a string-like one raises \<open>ValueError\<close>.
\<close>

definition eval_ids :: "csv_table \<Rightarrow> cell list" where
  "eval_ids t = map (\<lambda>row. cell_in (ct_columns t) row ''eval_id'') (ct_rows t)"

fun number_or_missing :: "cell \<Rightarrow> bool" where
  "number_or_missing NaN = True"
| "number_or_missing (Num x) = True"
| "number_or_missing (Txt s) = False"
| "number_or_missing (Other v) = False"

fun string_or_missing :: "cell \<Rightarrow> bool" where
  "string_or_missing NaN = True"
| "string_or_missing (Txt s) = True"
| "string_or_missing (Num x) = False"
| "string_or_missing (Other v) = False"

definition numeric_keys :: "cell list \<Rightarrow> bool" where
  "numeric_keys cells = list_all number_or_missing cells"

definition string_keys :: "cell list \<Rightarrow> bool" where
  "string_keys cells = list_all string_or_missing cells"

text \<open>
  The export step of \<^verbatim>\<open>main\<close>: nothing is written without a non-empty combined table and an
  output path. With a non-empty prior frame, \<^verbatim>\<open>pd.merge\<close> first checks the two key columns;
  then, without both metric columns in the prior frame, the merged frame has no suffixed
  columns and reading them raises \<open>KeyError\<close>. The result is the frame written to the output
  path.
\<close>

definition export_scores ::
  "string option \<Rightarrow> csv_file \<Rightarrow> score_row list option \<Rightarrow> py_error + csv_file" where
  "export_scores output_csv_path file final_combined_df =
     (case final_combined_df of
        None \<Rightarrow> Inr file
      | Some new_rows \<Rightarrow>
          (if new_rows = [] \<or> output_csv_path = None \<or> output_csv_path = Some [] then Inr file
           else
             (case read_original file of
                Inl err \<Rightarrow> Inl err
              | Inr original_df \<Rightarrow>
                  (let final_combined_df_unique = drop_duplicates sr_session_id new_rows
                   in if \<not> table_empty original_df then
                        (if \<not> string_keys (map sr_session_id final_combined_df_unique)
                         then Inl OutOfModel
                         else if numeric_keys (eval_ids original_df) then Inl ValueError
                         else if ''metric_type'' \<in> set (ct_columns original_df)
                            \<and> ''metric_value'' \<in> set (ct_columns original_df)
                         then Inr (CsvFile
                                \<lparr>ct_columns = merged_columns (ct_columns original_df),
                                 ct_rows = concat (map (merge_left_row (ct_columns original_df)
                                                          final_combined_df_unique)
                                                     (ct_rows original_df))\<rparr>)
                         else Inl KeyError)
                      else Inr (CsvFile (table_of_scores new_rows))))))"

subsection \<open>Notions used to state the merge properties\<close>

text \<open>
  The \<^verbatim>\<open>eval_id\<close> cells of a file, the first row of the new pass for an identity, and tables
  whose rows have one cell per column.
\<close>

definition file_eval_ids :: "csv_file \<Rightarrow> cell set" where
  "file_eval_ids file = (case file of CsvFile t \<Rightarrow> set (eval_ids t) | _ \<Rightarrow> {})"

definition first_new :: "score_row list \<Rightarrow> cell \<Rightarrow> score_row option" where
  "first_new new_rows eval_id = find (\<lambda>n. sr_session_id n = eval_id) new_rows"

definition well_formed :: "csv_table \<Rightarrow> bool" where
  "well_formed t = (\<forall>row \<in> set (ct_rows t). length row = length (ct_columns t))"


text \<open>
  The metric cells the new pass offers for an identity (those of its first row for it,
  missing when it has none), and the rows of the prior table that survive the removal of
  duplicate identities.
\<close>

definition new_type_for :: "score_row list \<Rightarrow> cell \<Rightarrow> cell" where
  "new_type_for new_rows eval_id =
     (case first_new new_rows eval_id of None \<Rightarrow> NaN | Some n \<Rightarrow> sr_metric_type n)"

definition new_value_for :: "score_row list \<Rightarrow> cell \<Rightarrow> cell" where
  "new_value_for new_rows eval_id =
     (case first_new new_rows eval_id of None \<Rightarrow> NaN | Some n \<Rightarrow> sr_metric_value n)"

definition kept_prior_rows :: "csv_table \<Rightarrow> cell list list" where
  "kept_prior_rows t =
     drop_duplicates (\<lambda>row. cell_in (ct_columns t) row ''eval_id'') (ct_rows t)"

text \<open>Example score rows and an example prior export with a further column.\<close>

definition example_score :: "string \<Rightarrow> string \<Rightarrow> real \<Rightarrow> score_row" where
  "example_score eval_id metric_type v =
     \<lparr>sr_session_id = Txt eval_id, sr_metric_type = Txt metric_type, sr_metric_value = Num v\<rparr>"

definition example_first_pass :: "score_row list" where
  "example_first_pass = [example_score ''a'' ''fluency'' 1, example_score ''a'' ''coherence'' 2]"

definition example_second_pass :: "score_row list" where
  "example_second_pass = [example_score ''b'' ''fluency'' 3]"

definition example_third_pass :: "score_row list" where
  "example_third_pass =
     [example_score ''a'' ''fluency'' 3, example_score ''a'' ''safety'' 4,
      example_score ''b'' ''fluency'' 1]"

definition example_prior_export :: csv_table where
  "example_prior_export =
     \<lparr>ct_columns = [''eval_id'', ''session_id'', ''metric_type'', ''metric_value''],
      ct_rows = [[Txt ''a'', Txt ''s'', NaN, NaN], [Txt ''c'', Txt ''s'', Txt ''old'', Num 5]]\<rparr>"


definition example_merged_export :: csv_table where
  "example_merged_export =
     \<lparr>ct_columns = [''eval_id'', ''session_id'', ''metric_type'', ''metric_value''],
      ct_rows = [[Txt ''a'', Txt ''s'', Txt ''fluency'', Num 3],
                 [Txt ''c'', Txt ''s'', Txt ''old'', Num 5]]\<rparr>"


section \<open>Evaluation-set files\<close>

subsection \<open>Writing: \<^verbatim>\<open>export_sessions_to_evalset\<close>\<close>

text \<open>
  The content of a file is the JSON value handed to \<^verbatim>\<open>json.dump\<close>; reading the file back with
  \<^verbatim>\<open>json.load\<close> is taken to give the same value.
\<close>

definition text_parts :: "jv \<Rightarrow> jv" where
  "text_parts t = JObj [(''parts'', JList [JObj [(''text'', t)]])]"

text \<open>One conversation turn; the expected response is added only for a truthy reference.\<close>

definition conversation_turn :: "conv_record \<Rightarrow> jv" where
  "conversation_turn row =
     JObj ([(''user_content'', text_parts (cr_user_content row)),
            (''final_response'', text_parts (cr_agent_response row))]
           @ (if truthy (cr_reference row)
              then [(''expected_final_response'', text_parts (cr_reference row))] else []))"

text \<open>
  The rows of one session become one evaluation case: the turns in ascending order of the
  string \<^verbatim>\<open>eval_id\<close>, with the ground truth of the first row of the group. (A group of
  \<^verbatim>\<open>groupby\<close> is never empty; a missing ground truth is not a dict.)
\<close>

definition export_agent_session :: "string \<Rightarrow> conv_record list \<Rightarrow> jv" where
  "export_agent_session session_id group_df =
     (let sorted_group_df = sort_key cr_eval_id group_df;
          conversation_turns = map conversation_turn sorted_group_df;
          ground_truth_obj =
            (case group_df of
               [] \<Rightarrow> JNull
             | row # rest \<Rightarrow> (case cr_ground_truth row of Some gt \<Rightarrow> JObj gt | None \<Rightarrow> JNull))
      in JObj [(''eval_set_id'', JStr session_id),
               (''eval_cases'',
                JList [JObj [(''eval_id'', JStr (''case-'' @ session_id)),
                             (''conversation'', JList conversation_turns),
                             (''ground_truth'', ground_truth_obj)]])])"

text \<open>A simple row becomes an evaluation set of its own, with a ground truth built from the row.\<close>

definition export_simple_row :: "conv_record \<Rightarrow> jv" where
  "export_simple_row row =
     JObj [(''eval_set_id'', JStr (cr_session_id row)),
           (''eval_cases'',
            JList [JObj [(''eval_id'', JStr (''case-'' @ cr_session_id row)),
                         (''conversation'', JList [conversation_turn row]),
                         (''ground_truth'',
                          JObj [(''reference'', cr_reference row),
                                (''metric_type'', cr_metric_type row)])]])]"

definition evalset_filename :: "string \<Rightarrow> string" where
  "evalset_filename session_id = ''rag-agent.evalset.'' @ session_id @ ''.json''"

text \<open>
  The files the function writes, in order: one per session of the agent frame (the sessions
  in ascending order), then one per row of the simple frame.
\<close>

definition export_sessions_to_evalset ::
  "conv_record list option \<Rightarrow> conv_record list option \<Rightarrow> (string \<times> jv) list" where
  "export_sessions_to_evalset agent_df simple_df =
     (if rows_of agent_df = [] \<and> rows_of simple_df = [] then []
      else
        map (\<lambda>session_id.
               (evalset_filename session_id,
                export_agent_session session_id
                  (filter (\<lambda>row. cr_session_id row = session_id) (rows_of agent_df))))
          (sort (remdups (map cr_session_id (rows_of agent_df))))
        @ map (\<lambda>row. (evalset_filename (cr_session_id row), export_simple_row row))
            (rows_of simple_df))"

text \<open>
  The \<^verbatim>\<open>--export-sessions\<close> branch of \<^verbatim>\<open>main\<close>: the export, then the timestamp file is written
  unless the run is all-time. An exception of the export leaves \<^verbatim>\<open>main\<close> before that.
\<close>

definition main_export_sessions ::
  "env \<Rightarrow> collab \<Rightarrow> clock \<Rightarrow> bool \<Rightarrow> world \<Rightarrow> (py_error + (string \<times> jv) list) \<times> world" where
  "main_export_sessions e co clk all_time w =
     (let timestamp = (if all_time then None else Some (get_last_run_timestamp clk w))
      in case co_list_entries co (log_filter (env_log_name e) timestamp) of
           Inl err \<Rightarrow> (Inl err, w)
         | Inr entries \<Rightarrow>
           (case get_logs_for_evaluation None entries of
              Inl err \<Rightarrow> (Inl err, w)
            | Inr (agent_df, simple_df) \<Rightarrow>
                (Inr (export_sessions_to_evalset agent_df simple_df),
                 if all_time then w else save_current_timestamp clk w)))"

subsection \<open>Reading: the loop over evaluation cases in \<^verbatim>\<open>main\<close>\<close>

text \<open>
  The receiver of a \<^verbatim>\<open>.get\<close> must be a dict; \<^verbatim>\<open>x[0]\<close> and \<^verbatim>\<open>x[-1]\<close> work on a non-empty list or
  string, raise \<open>IndexError\<close> on an empty one, \<open>KeyError\<close> on a dict (whose keys are
  strings) and \<open>TypeError\<close> on anything else; a \<^verbatim>\<open>for\<close> loop runs over the items of a list,
  the keys of a dict or the characters of a string.
\<close>

fun as_dict :: "jv \<Rightarrow> py_error + obj" where
  "as_dict (JObj d) = Inr d"
| "as_dict JNull = Inl AttributeError"
| "as_dict (JBool b) = Inl AttributeError"
| "as_dict (JNum n) = Inl AttributeError"
| "as_dict (JStr s) = Inl AttributeError"
| "as_dict (JList xs) = Inl AttributeError"

fun first_item :: "jv \<Rightarrow> py_error + jv" where
  "first_item (JList []) = Inl IndexError"
| "first_item (JList (x # xs)) = Inr x"
| "first_item (JStr []) = Inl IndexError"
| "first_item (JStr (c # cs)) = Inr (JStr [c])"
| "first_item (JObj d) = Inl KeyError"
| "first_item JNull = Inl TypeError"
| "first_item (JBool b) = Inl TypeError"
| "first_item (JNum n) = Inl TypeError"

fun last_item :: "jv \<Rightarrow> py_error + jv" where
  "last_item (JList xs) = (if xs = [] then Inl IndexError else Inr (last xs))"
| "last_item (JStr s) = (if s = [] then Inl IndexError else Inr (JStr [last s]))"
| "last_item (JObj d) = Inl KeyError"
| "last_item JNull = Inl TypeError"
| "last_item (JBool b) = Inl TypeError"
| "last_item (JNum n) = Inl TypeError"

fun iter_items :: "jv \<Rightarrow> py_error + jv list" where
  "iter_items (JList xs) = Inr xs"
| "iter_items (JObj d) = Inr (map (\<lambda>kv. JStr (fst kv)) d)"
| "iter_items (JStr s) = Inr (map (\<lambda>c. JStr [c]) s)"
| "iter_items JNull = Inl TypeError"
| "iter_items (JBool b) = Inl TypeError"
| "iter_items (JNum n) = Inl TypeError"

text \<open>\<^verbatim>\<open>turn.get(field, {}).get("parts", [{}])[0].get("text", "")\<close>\<close>

definition turn_text :: "jv \<Rightarrow> string \<Rightarrow> py_error + jv" where
  "turn_text turn field =
     (case as_dict turn of
        Inl e \<Rightarrow> Inl e
      | Inr d \<Rightarrow>
        (case as_dict (dict_get_default d field (JObj [])) of
           Inl e \<Rightarrow> Inl e
         | Inr content \<Rightarrow>
           (case first_item (dict_get_default content ''parts'' (JList [JObj []])) of
              Inl e \<Rightarrow> Inl e
            | Inr part \<Rightarrow>
              (case as_dict part of
                 Inl e \<Rightarrow> Inl e
               | Inr p \<Rightarrow> Inr (dict_get_default p ''text'' (JStr []))))))"

text \<open>
  \<^verbatim>\<open>ground_truth.get("reference", "") or conversation[-1].get("expected_final_response", ...)\<close>:
  the last turn is read only when the ground truth has no truthy reference.
\<close>

definition case_reference_of :: "obj \<Rightarrow> jv \<Rightarrow> py_error + jv" where
  "case_reference_of ground_truth conversation =
     (if truthy (dict_get_default ground_truth ''reference'' (JStr []))
      then Inr (dict_get_default ground_truth ''reference'' (JStr []))
      else (case last_item conversation of
              Inl e \<Rightarrow> Inl e
            | Inr turn \<Rightarrow> turn_text turn ''expected_final_response''))"

text \<open>
  The body of the loop over the cases: the row appended for a case with a truthy
  conversation, nothing for another case. The response is read from the last turn before
  the prompt is read from the first.
\<close>

definition load_eval_case :: "jv \<Rightarrow> py_error + eval_case option" where
  "load_eval_case c =
     (case as_dict c of
        Inl e \<Rightarrow> Inl e
      | Inr cd \<Rightarrow>
        (let conversation = dict_get_default cd ''conversation'' (JList [])
         in case as_dict (dict_get_default cd ''ground_truth'' (JObj [])) of
              Inl e \<Rightarrow> Inl e
            | Inr ground_truth \<Rightarrow>
              (case case_reference_of ground_truth conversation of
                 Inl e \<Rightarrow> Inl e
               | Inr case_reference \<Rightarrow>
                 (if truthy conversation then
                    (case last_item conversation of
                       Inl e \<Rightarrow> Inl e
                     | Inr last_turn \<Rightarrow>
                       (case turn_text last_turn ''final_response'' of
                          Inl e \<Rightarrow> Inl e
                        | Inr response \<Rightarrow>
                          (case first_item conversation of
                             Inl e \<Rightarrow> Inl e
                           | Inr first_turn \<Rightarrow>
                             (case turn_text first_turn ''user_content'' of
                                Inl e \<Rightarrow> Inl e
                              | Inr prompt \<Rightarrow>
                                  Inr (Some \<lparr>ec_conversation = conversation,
                                             ec_session_id = dict_get cd ''eval_id'',
                                             ec_response = response,
                                             ec_prompt = prompt,
                                             ec_reference = case_reference,
                                             ec_ground_truth = ground_truth\<rparr>)))))
                  else Inr None))))"

fun load_eval_cases :: "jv list \<Rightarrow> py_error + eval_case list" where
  "load_eval_cases [] = Inr []"
| "load_eval_cases (c # cs) =
     (case load_eval_case c of
        Inl e \<Rightarrow> Inl e
      | Inr r \<Rightarrow>
        (case load_eval_cases cs of
           Inl e \<Rightarrow> Inl e
         | Inr rs \<Rightarrow> Inr (case r of None \<Rightarrow> rs | Some x \<Rightarrow> x # rs)))"

text \<open>The rows one evaluation-set file contributes to \<^verbatim>\<open>all_eval_cases\<close>.\<close>

definition load_eval_set :: "jv \<Rightarrow> py_error + eval_case list" where
  "load_eval_set eval_set =
     (case as_dict eval_set of
        Inl e \<Rightarrow> Inl e
      | Inr d \<Rightarrow>
        (case iter_items (dict_get_default d ''eval_cases'' (JList [])) of
           Inl e \<Rightarrow> Inl e
         | Inr cases \<Rightarrow> load_eval_cases cases))"

subsection \<open>Notions used to state the round trip\<close>

text \<open>
  The reference a reader recovers: the reference entry of the ground truth when it is
  truthy, else the reference of the last turn when that is truthy, else the empty string.
\<close>

definition recovered_reference :: "obj \<Rightarrow> jv \<Rightarrow> jv" where
  "recovered_reference ground_truth last_reference =
     (if truthy (dict_get_default ground_truth ''reference'' (JStr []))
      then dict_get_default ground_truth ''reference'' (JStr [])
      else if truthy last_reference then last_reference else JStr [])"

text \<open>The prompt, response and reference of a row read back, for comparison.\<close>

definition texts_of :: "eval_case \<Rightarrow> jv \<times> jv \<times> jv" where
  "texts_of c = (ec_prompt c, ec_response c, ec_reference c)"


text \<open>
  An example row of a structured session whose ground truth carries a reference text: the
  row's reference column holds the whole ground-truth dict.
\<close>

definition example_reference_row :: conv_record where
  "example_reference_row =
     \<lparr>cr_eval_id = ''t-0'', cr_session_id = ''t'', cr_user_content = JStr ''capital of France?'',
      cr_agent_response = JStr ''Paris.'',
      cr_reference = JObj [(''reference'', JStr ''Paris''), (''metric_type'', JStr ''rouge'')],
      cr_metric_type = JStr ''rouge'', cr_metric_value = [],
      cr_ground_truth = Some [(''reference'', JStr ''Paris''), (''metric_type'', JStr ''rouge'')]\<rparr>"


section \<open>Properties of the string operations\<close>

lemma starts_with_iff: "starts_with w s \<longleftrightarrow> (\<exists>q. s = w @ q)"
  by (induction w s rule: starts_with.induct) auto

lemma is_substring_iff: "is_substring w s \<longleftrightarrow> (\<exists>p q. s = p @ w @ q)"
proof (induction s)
  case Nil
  then show ?case by auto
next
  case (Cons c cs)
  show ?case
  proof
    assume "is_substring w (c # cs)"
    then consider "starts_with w (c # cs)" | "is_substring w cs" by auto
    then show "\<exists>p q. c # cs = p @ w @ q"
    proof cases
      case 1
      then obtain q where "c # cs = w @ q" using starts_with_iff by blast
      then have "c # cs = [] @ w @ q" by simp
      then show ?thesis by blast
    next
      case 2
      then obtain p q where "cs = p @ w @ q" using Cons.IH by blast
      then have "c # cs = (c # p) @ w @ q" by simp
      then show ?thesis by blast
    qed
  next
    assume "\<exists>p q. c # cs = p @ w @ q"
    then obtain p q where pq: "c # cs = p @ w @ q" by blast
    show "is_substring w (c # cs)"
    proof (cases p)
      case Nil
      then have "starts_with w (c # cs)" using pq starts_with_iff by auto
      then show ?thesis by simp
    next
      case (Cons a p')
      then have "cs = p' @ w @ q" using pq by simp
      then have "is_substring w cs" using Cons.IH by blast
      then show ?thesis by simp
    qed
  qed
qed

lemma split_space_acc_nonempty: "split_space_acc cur s \<noteq> []"
  by (induction s arbitrary: cur) auto

lemma join_space_Cons: "ps \<noteq> [] \<Longrightarrow> join_space (p # ps) = p @ CHR '' '' # join_space ps"
  by (cases ps) auto

lemma join_split_space_acc: "join_space (split_space_acc cur s) = cur @ s"
  by (induction s arbitrary: cur) (auto simp: join_space_Cons split_space_acc_nonempty)

lemma split_space_acc_no_space:
  "CHR '' '' \<notin> set cur \<Longrightarrow> \<forall>p \<in> set (split_space_acc cur s). CHR '' '' \<notin> set p"
proof (induction s arbitrary: cur)
  case Nil
  then show ?case by simp
next
  case (Cons c cs)
  show ?case
  proof (cases "c = CHR '' ''")
    case True
    have "\<forall>p \<in> set (split_space_acc [] cs). CHR '' '' \<notin> set p"
      by (rule Cons.IH) simp
    with True Cons.prems show ?thesis by simp
  next
    case False
    have "\<forall>p \<in> set (split_space_acc (cur @ [c]) cs). CHR '' '' \<notin> set p"
      by (rule Cons.IH) (use False Cons.prems in auto)
    with False show ?thesis by simp
  qed
qed

text \<open>
  \<open>py_split_space\<close> cuts exactly at the spaces: joining the pieces with single spaces gives
  the string back, and no piece holds a space.
\<close>

lemma py_split_space_join: "join_space (py_split_space s) = s"
  by (simp add: py_split_space_def join_split_space_acc)

lemma py_split_space_pieces: "p \<in> set (py_split_space s) \<Longrightarrow> CHR '' '' \<notin> set p"
  unfolding py_split_space_def using split_space_acc_no_space [of "[]" s] by auto

section \<open>The contains-words metric: what it scores\<close>

lemma all_words_in_str: "all_words_in ws (JStr s) = Inr (\<forall>w \<in> set ws. is_substring w s)"
  by (induction ws) (auto split: bool.splits)

lemma words_to_check_set:
  "set (words_to_check ref) = {py_strip p | p. p \<in> set (py_split_space ref) \<and> py_strip p \<noteq> []}"
  by (auto simp: words_to_check_def)

text \<open>
  Claim C5, as the code has it. On a string response and a string reference the score is
  1.0 exactly when both are non-empty and every checked word occurs as a contiguous
  substring of the response, and 0.0 otherwise; in particular it is 0.0 when either is
  empty. The checked words are the pieces of the reference between single space
  characters, each stripped of surrounding whitespace, the empty ones left out. They are
  not the whitespace-delimited tokens: a tab or a newline inside a piece stays in the word.
\<close>

theorem contains_words_space_delimited:
  assumes "dict_get_default test_case ''response'' (JStr []) = JStr resp"
    and "dict_get_default test_case ''reference'' (JStr []) = JStr ref"
  shows "contains_words_metric_function test_case =
           Inr (if resp \<noteq> [] \<and> ref \<noteq> [] \<and>
                   (\<forall>w \<in> set (words_to_check ref). \<exists>p q. resp = p @ w @ q)
                then 1 else 0)
         \<and> set (words_to_check ref) =
             {py_strip p | p. p \<in> set (py_split_space ref) \<and> py_strip p \<noteq> []}"
  using assms
  by (simp add: contains_words_metric_function_def all_words_in_str is_substring_iff
      words_to_check_set [symmetric])

text \<open>
  The examples of the specification, at which the theorem applies: response
  \<^verbatim>\<open>"the cat sat"\<close> scores 1.0 against \<^verbatim>\<open>"cat sat"\<close>, 0.0 against \<^verbatim>\<open>"cat dog"\<close> and 0.0 against
  the empty reference.
\<close>

theorem contains_words_space_delimited_witness:
  "dict_get_default [(''response'', JStr ''the cat sat''), (''reference'', JStr ''cat sat'')]
      ''response'' (JStr []) = JStr ''the cat sat''
   \<and> dict_get_default [(''response'', JStr ''the cat sat''), (''reference'', JStr ''cat sat'')]
      ''reference'' (JStr []) = JStr ''cat sat''
   \<and> contains_words_metric_function
        [(''response'', JStr ''the cat sat''), (''reference'', JStr ''cat sat'')] = Inr 1
   \<and> set (words_to_check ''cat sat'') =
        {py_strip p | p. p \<in> set (py_split_space ''cat sat'') \<and> py_strip p \<noteq> []}
   \<and> contains_words_metric_function
        [(''response'', JStr ''the cat sat''), (''reference'', JStr ''cat dog'')] = Inr 0
   \<and> contains_words_metric_function
        [(''response'', JStr ''the cat sat''), (''reference'', JStr [])] = Inr 0"
proof -
  let ?tc = "[(''response'', JStr ''the cat sat''), (''reference'', JStr ''cat sat'')]"
  have h1: "dict_get_default ?tc ''response'' (JStr []) = JStr ''the cat sat''"
    by (simp add: dict_get_default_def)
  have h2: "dict_get_default ?tc ''reference'' (JStr []) = JStr ''cat sat''"
    by (simp add: dict_get_default_def)
  have r1: "contains_words_metric_function ?tc = Inr 1"
    by code_simp
  have r2: "contains_words_metric_function
        [(''response'', JStr ''the cat sat''), (''reference'', JStr ''cat dog'')] = Inr 0"
    by code_simp
  have r3: "contains_words_metric_function
        [(''response'', JStr ''the cat sat''), (''reference'', JStr [])] = Inr 0"
    by code_simp
  from contains_words_space_delimited [OF h1 h2]
  have "set (words_to_check ''cat sat'') =
        {py_strip p | p. p \<in> set (py_split_space ''cat sat'') \<and> py_strip p \<noteq> []}"
    by blast
  with h1 h2 r1 r2 r3 show ?thesis by blast
qed

text \<open>
  Claim C5 as the specification words it fails on a reference whose words are separated
  by a tab: both whitespace-delimited tokens of the reference occur in the response, yet
  the score is 0.0, because the code looks for the one word \<^verbatim>\<open>"cat\tsat"\<close>.
\<close>

theorem contains_words_whitespace_counterexample:
  "whitespace_tokens (''cat'' @ [CHR 0x09] @ ''sat'') = [''cat'', ''sat'']
   \<and> is_substring ''cat'' ''cat sat''
   \<and> is_substring ''sat'' ''cat sat''
   \<and> contains_words_metric_function
        [(''response'', JStr ''cat sat''), (''reference'', JStr (''cat'' @ [CHR 0x09] @ ''sat''))]
      = Inr 0"
  by code_simp

section \<open>The buckets built from the log entries\<close>

lemma bucket_of_append:
  "bucket_of (bucket_append k x bs) k' = (if k = k' then bucket_of bs k @ [x] else bucket_of bs k')"
  by (induction bs) (auto simp: bucket_of_def)

lemma keys_bucket_append:
  "map fst (bucket_append k x bs) = (if k \<in> set (map fst bs) then map fst bs else map fst bs @ [k])"
  by (induction bs) force+

lemma distinct_bucket_append:
  "distinct (map fst bs) \<Longrightarrow> distinct (map fst (bucket_append k x bs))"
  by (simp add: keys_bucket_append)

lemma dict_key_Inr: "dict_key v = Inr k \<longleftrightarrow> v = JStr k"
  by (cases v) auto

lemma truthy_JStr: "truthy (JStr s) \<longleftrightarrow> s \<noteq> []"
  by simp

lemma collect_entry_buckets:
  assumes "collect_entry f e st = Inr st'"
  shows "bucket_of (fst st') s = bucket_of (fst st) s @ map as_raw_log (filter (agent_member f s) [e])"
    and "bucket_of (snd st') r = bucket_of (snd st) r @ map as_raw_log (filter (simple_member f r) [e])"
    and "distinct (map fst (fst st)) \<Longrightarrow> distinct (map fst (fst st'))"
    and "distinct (map fst (snd st)) \<Longrightarrow> distinct (map fst (snd st'))"
  using assms
  by (auto simp: collect_entry_def Let_def agent_member_def simple_member_def as_raw_log_def
      bucket_of_append dict_key_Inr distinct_bucket_append
      split: if_splits sum.splits)

lemma collect_entries_buckets:
  assumes "collect_entries f es st = Inr st'"
  shows "bucket_of (fst st') s = bucket_of (fst st) s @ map as_raw_log (filter (agent_member f s) es)
       \<and> bucket_of (snd st') r = bucket_of (snd st) r @ map as_raw_log (filter (simple_member f r) es)
       \<and> (distinct (map fst (fst st)) \<longrightarrow> distinct (map fst (fst st')))
       \<and> (distinct (map fst (snd st)) \<longrightarrow> distinct (map fst (snd st')))"
  using assms
proof (induction es arbitrary: st)
  case Nil
  then show ?case by simp
next
  case (Cons e es)
  from Cons.prems obtain st1 where e: "collect_entry f e st = Inr st1"
    and rest: "collect_entries f es st1 = Inr st'"
    by (auto split: sum.splits)
  note step = collect_entry_buckets [OF e]
  note ih = Cons.IH [OF rest]
  show ?case
    using step(1) [of s] step(2) [of r] step(3) step(4) ih
    by (cases "agent_member f s e"; cases "simple_member f r e") auto
qed

lemma last_seen_Nil: "last_seen k init [] = init"
  by (simp add: last_seen_def)

lemma last_seen_Cons:
  "last_seen k init (l # ls) =
     last_seen k (if has_key k (snd l) then dict_get (snd l) k else init) ls"
  by (simp add: last_seen_def Let_def)

lemma scan_simple_last_seen:
  "scan_simple ls (p, r, g) =
     (last_seen ''prompt'' p ls, last_seen ''response'' r ls, last_seen ''ground_truth'' g ls)"
  by (induction ls arbitrary: p r g) (simp_all add: last_seen_Nil last_seen_Cons)

lemma last_seen_all_carry:
  assumes "\<forall>l \<in> set ls. has_key k (snd l)" and "ls \<noteq> []"
  shows "last_seen k init ls = dict_get (snd (last ls)) k"
proof -
  have "filter (\<lambda>item. has_key k (snd item)) ls = ls"
    using assms(1) by (simp add: filter_id_conv)
  then show ?thesis using assms(2) by (simp add: last_seen_def)
qed

lemma simple_record_session: "rec \<in> set (simple_record k logs) \<Longrightarrow> cr_session_id rec = k"
  by (auto simp: simple_record_def split: prod.splits if_splits)

lemma simple_record_Nil: "simple_record k [] = []"
  by (simp add: simple_record_def sorted_raw_logs_def)

lemma filter_simple_record:
  "filter (\<lambda>rec. cr_session_id rec = r) (simple_record k logs) =
     (if k = r then simple_record k logs else [])"
  by (auto simp: filter_empty_conv filter_id_conv dest: simple_record_session)

lemma simple_sessions_by_request:
  assumes "distinct (map fst bs)"
  shows "filter (\<lambda>rec. cr_session_id rec = r) (simple_sessions bs) = simple_record r (bucket_of bs r)"
  using assms
proof (induction bs)
  case Nil
  then show ?case by (simp add: simple_sessions_def bucket_of_def simple_record_Nil)
next
  case (Cons b bs)
  obtain k logs where b: "b = (k, logs)" by (cases b)
  have ih: "filter (\<lambda>rec. cr_session_id rec = r) (simple_sessions bs) = simple_record r (bucket_of bs r)"
    using Cons by simp
  have unfold: "simple_sessions (b # bs) = simple_record k logs @ simple_sessions bs"
    by (simp add: simple_sessions_def b)
  show ?case
  proof (cases "k = r")
    case True
    then have "r \<notin> fst ` set bs" using Cons.prems b by auto
    then have "map_of bs r = None" by (simp add: map_of_eq_None_iff)
    then have "bucket_of bs r = []" by (simp add: bucket_of_def)
    then have "filter (\<lambda>rec. cr_session_id rec = r) (simple_sessions bs) = []"
      using ih by (simp add: simple_record_Nil)
    moreover have "bucket_of (b # bs) r = logs" using True b by (simp add: bucket_of_def)
    ultimately show ?thesis using True by (simp add: unfold filter_simple_record)
  next
    case False
    then have "bucket_of (b # bs) r = bucket_of bs r" using b by (simp add: bucket_of_def)
    then show ?thesis using False ih by (simp add: unfold filter_simple_record)
  qed
qed

lemma rows_of_frame_or_none: "rows_of (frame_or_none rows) = rows"
  by (simp add: rows_of_def frame_or_none_def)

lemma get_logs_buckets:
  assumes "get_logs_for_evaluation f es = Inr (agent_df, simple_df)"
  obtains a s where "collect_entries f es ([], []) = Inr (a, s)"
    and "agent_sessions a = Inr (rows_of agent_df)"
    and "rows_of simple_df = simple_sessions s"
    and "distinct (map fst a)" and "distinct (map fst s)"
    and "\<And>k. bucket_of a k = map as_raw_log (filter (agent_member f k) es)"
    and "\<And>k. bucket_of s k = map as_raw_log (filter (simple_member f k) es)"
proof -
  from assms obtain a s recs where c: "collect_entries f es ([], []) = Inr (a, s)"
    and ag: "agent_sessions a = Inr recs"
    and dfs: "agent_df = frame_or_none recs" "simple_df = frame_or_none (simple_sessions s)"
    by (auto simp: get_logs_for_evaluation_def split: sum.splits prod.splits)
  have b: "\<And>k k'. bucket_of a k = map as_raw_log (filter (agent_member f k) es)
        \<and> bucket_of s k' = map as_raw_log (filter (simple_member f k') es)
        \<and> distinct (map fst a) \<and> distinct (map fst s)"
    using collect_entries_buckets [OF c] by (simp add: bucket_of_def)
  show ?thesis
    using that [OF c] ag dfs b by (simp add: rows_of_frame_or_none)
qed

lemma simple_bucket_carries:
  assumes "item \<in> set (sorted_raw_logs (map as_raw_log (filter (simple_member f r) es)))"
  shows "has_key ''prompt'' (snd item) \<and> has_key ''response'' (snd item)"
  using assms by (auto simp: sorted_raw_logs_def as_raw_log_def simple_member_def Let_def)

section \<open>The log reader returns on readable entries\<close>

lemma collect_entry_total:
  assumes "readable_entry f e"
  shows "\<exists>st'. collect_entry f e st = Inr st'"
proof (cases "filtered_out f (dict_get (normalize_payload e) ''session_id'')
                 (dict_get (normalize_payload e) ''request_id'')")
  case True
  then show ?thesis by (simp add: collect_entry_def)
next
  case False
  show ?thesis
  proof (cases "is_turn_log (normalize_payload e)")
    case True
    then show ?thesis using assms False
      by (cases "dict_key (dict_get (normalize_payload e) ''session_id'')")
        (auto simp: readable_entry_def collect_entry_def Let_def)
  next
    case nt: False
    then show ?thesis using assms False
      by (cases "dict_key (dict_get (normalize_payload e) ''request_id'')")
        (auto simp: readable_entry_def collect_entry_def Let_def)
  qed
qed

lemma collect_entries_total:
  assumes "\<forall>e \<in> set es. readable_entry f e"
  shows "\<exists>st'. collect_entries f es st = Inr st'"
  using assms
proof (induction es arbitrary: st)
  case Nil
  then show ?case by simp
next
  case (Cons e es)
  from Cons.prems collect_entry_total [of f e st] obtain st1 where "collect_entry f e st = Inr st1"
    by auto
  then show ?case using Cons.IH [of st1] Cons.prems by simp
qed

lemma turn_record_total:
  assumes "\<not> isl (extract_user_content u)" and "\<not> isl (extract_ground_truth fa)"
  shows "\<exists>ro. turn_record s i u fa = Inr ro"
  using assms by (auto simp: turn_record_def Let_def split: sum.splits)

lemma pair_turns_total:
  assumes "\<forall>j. i \<le> j \<and> j < i + k \<longrightarrow>
             \<not> isl (extract_user_content (us ! j)) \<and> \<not> isl (extract_ground_truth (fs ! j))"
  shows "\<exists>rs. pair_turns s us fs i k = Inr rs"
  using assms
proof (induction k arbitrary: i)
  case 0
  then show ?case by simp
next
  case (Suc k)
  from Suc.prems turn_record_total [of "us ! i" "fs ! i" s i]
  obtain ro where t: "turn_record s i (us ! i) (fs ! i) = Inr ro" by auto
  have "\<forall>j. Suc i \<le> j \<and> j < Suc i + k \<longrightarrow>
             \<not> isl (extract_user_content (us ! j)) \<and> \<not> isl (extract_ground_truth (fs ! j))"
    using Suc.prems by simp
  from Suc.IH [OF this] obtain rs where "pair_turns s us fs (Suc i) k = Inr rs" by blast
  then show ?case using t by simp
qed

lemma pair_session_total:
  assumes "\<forall>x \<in> set logs. \<not> isl (extract_user_content (snd x)) \<and> \<not> isl (extract_ground_truth (snd x))"
  shows "\<exists>rs. pair_session s logs = Inr rs"
proof -
  let ?us = "user_messages_of (sorted_raw_logs logs)"
  let ?fs = "final_answers_of (sorted_raw_logs logs)"
  have u: "set ?us \<subseteq> snd ` set logs"
    by (auto simp: user_messages_of_def sorted_raw_logs_def)
  have f: "set ?fs \<subseteq> snd ` set logs"
    by (auto simp: final_answers_of_def sorted_raw_logs_def)
  have "\<forall>j. 0 \<le> j \<and> j < 0 + min (length ?us) (length ?fs) \<longrightarrow>
             \<not> isl (extract_user_content (?us ! j)) \<and> \<not> isl (extract_ground_truth (?fs ! j))"
  proof (intro allI impI)
    fix j assume "0 \<le> j \<and> j < 0 + min (length ?us) (length ?fs)"
    then have "?us ! j \<in> set ?us" "?fs ! j \<in> set ?fs" by simp_all
    then have "?us ! j \<in> snd ` set logs" "?fs ! j \<in> snd ` set logs" using u f by blast+
    then show "\<not> isl (extract_user_content (?us ! j)) \<and> \<not> isl (extract_ground_truth (?fs ! j))"
      using assms by auto
  qed
  from pair_turns_total [OF this, of s] show ?thesis
    by (simp add: pair_session_def Let_def)
qed

lemma agent_sessions_total:
  assumes "\<forall>b \<in> set bs. \<forall>x \<in> set (snd b).
             \<not> isl (extract_user_content (snd x)) \<and> \<not> isl (extract_ground_truth (snd x))"
  shows "\<exists>recs. agent_sessions bs = Inr recs"
  using assms
proof (induction bs)
  case Nil
  then show ?case by simp
next
  case (Cons b bs)
  obtain k logs where b: "b = (k, logs)" by (cases b)
  from Cons.prems b pair_session_total [of logs k] obtain rs where "pair_session k logs = Inr rs"
    by auto
  moreover from Cons obtain rs' where "agent_sessions bs = Inr rs'" by auto
  ultimately show ?case using b by simp
qed

lemma agent_member_readable:
  assumes "readable_entry f e" and "agent_member f k e"
  shows "\<not> isl (extract_user_content (snd (as_raw_log e)))
         \<and> \<not> isl (extract_ground_truth (snd (as_raw_log e)))"
  using assms
  by (auto simp: readable_entry_def agent_member_def as_raw_log_def Let_def)

lemma get_logs_for_evaluation_returns:
  assumes "\<forall>entry \<in> set es. readable_entry f entry"
  shows "\<exists>agent_df simple_df. get_logs_for_evaluation f es = Inr (agent_df, simple_df)"
proof -
  from collect_entries_total [OF assms, of "([], [])"]
  obtain a s where c: "collect_entries f es ([], []) = Inr (a, s)" by force
  have d: "distinct (map fst a)"
    and b: "\<And>k. bucket_of a k = map as_raw_log (filter (agent_member f k) es)"
    using collect_entries_buckets [OF c] by (simp_all add: bucket_of_def)
  have "\<forall>b \<in> set a. \<forall>x \<in> set (snd b).
             \<not> isl (extract_user_content (snd x)) \<and> \<not> isl (extract_ground_truth (snd x))"
  proof (intro ballI)
    fix bk x assume bk: "bk \<in> set a" and x: "x \<in> set (snd bk)"
    obtain k logs where kl: "bk = (k, logs)" by (cases bk)
    have "map_of a k = Some logs" using d bk kl by simp
    then have "bucket_of a k = logs" by (simp add: bucket_of_def)
    then have "x \<in> set (map as_raw_log (filter (agent_member f k) es))"
      using b x kl by simp
    then obtain e where "e \<in> set es" "agent_member f k e" "x = as_raw_log e" by auto
    then show "\<not> isl (extract_user_content (snd x)) \<and> \<not> isl (extract_ground_truth (snd x))"
      using agent_member_readable assms by blast
  qed
  from agent_sessions_total [OF this] obtain recs where "agent_sessions a = Inr recs" by blast
  then show ?thesis using c by (simp add: get_logs_for_evaluation_def)
qed

section \<open>Simple pairing\<close>

text \<open>
  Claim C1, as the code has it. When the function returns, the simple rows of request
  \<open>r\<close> are determined by the bucket of \<open>r\<close> in timestamp order (ties in arrival order): the
  row's prompt, response and reference are the last values seen in the bucket for the
  keys \<^verbatim>\<open>prompt\<close>, \<^verbatim>\<open>response\<close> and \<^verbatim>\<open>ground_truth\<close>, the row exists exactly when prompt and
  response are both truthy, and its metric type is \<^verbatim>\<open>simple\<close>. An entry joins the bucket only
  when its payload has both a \<^verbatim>\<open>prompt\<close> and a \<^verbatim>\<open>response\<close> key (\<open>simple_member\<close>), so prompt
  and response are always those of the latest entry of the bucket. The function returns
  on every list of readable entries (\<open>get_logs_for_evaluation_returns\<close>).
\<close>

theorem simple_pairing_last_write_wins:
  assumes "get_logs_for_evaluation f es = Inr (agent_df, simple_df)"
  shows "(let bucket = sorted_raw_logs (map as_raw_log (filter (simple_member f r) es));
              prompt = last_seen ''prompt'' (JStr []) bucket;
              response = last_seen ''response'' (JStr []) bucket;
              reference = last_seen ''ground_truth'' (JStr []) bucket
          in filter (\<lambda>rec. cr_session_id rec = r) (rows_of simple_df) =
               (if truthy prompt \<and> truthy response
                then [\<lparr>cr_eval_id = r, cr_session_id = r, cr_user_content = prompt,
                       cr_agent_response = response, cr_reference = reference,
                       cr_metric_type = JStr ''simple'', cr_metric_value = [],
                       cr_ground_truth = None\<rparr>]
                else [])
             \<and> (bucket \<noteq> [] \<longrightarrow>
                  prompt = dict_get (snd (last bucket)) ''prompt''
                  \<and> response = dict_get (snd (last bucket)) ''response''))"
proof -
  let ?bucket = "sorted_raw_logs (map as_raw_log (filter (simple_member f r) es))"
  from assms obtain a s where s: "rows_of simple_df = simple_sessions s"
    "distinct (map fst s)"
    "\<And>k. bucket_of s k = map as_raw_log (filter (simple_member f k) es)"
    by (rule get_logs_buckets) blast
  have rows: "filter (\<lambda>rec. cr_session_id rec = r) (rows_of simple_df) =
      (if truthy (last_seen ''prompt'' (JStr []) ?bucket)
          \<and> truthy (last_seen ''response'' (JStr []) ?bucket)
       then [\<lparr>cr_eval_id = r, cr_session_id = r,
              cr_user_content = last_seen ''prompt'' (JStr []) ?bucket,
              cr_agent_response = last_seen ''response'' (JStr []) ?bucket,
              cr_reference = last_seen ''ground_truth'' (JStr []) ?bucket,
              cr_metric_type = JStr ''simple'', cr_metric_value = [],
              cr_ground_truth = None\<rparr>]
       else [])"
    by (simp add: s(1) simple_sessions_by_request [OF s(2)] s(3) simple_record_def
        scan_simple_last_seen)
  have p: "?bucket \<noteq> [] \<Longrightarrow>
      last_seen ''prompt'' (JStr []) ?bucket = dict_get (snd (last ?bucket)) ''prompt''"
    by (rule last_seen_all_carry) (use simple_bucket_carries in blast)+
  have q: "?bucket \<noteq> [] \<Longrightarrow>
      last_seen ''response'' (JStr []) ?bucket = dict_get (snd (last ?bucket)) ''response''"
    by (rule last_seen_all_carry) (use simple_bucket_carries in blast)+
  show ?thesis
    unfolding Let_def using rows p q by blast
qed

text \<open>
  Two events of one request that both carry prompt and response, the later one listed
  first: the row takes prompt and response from the later event and keeps the reference
  of the earlier one.
\<close>

theorem simple_pairing_last_write_wins_witness:
  "get_logs_for_evaluation None example_simple_entries =
     Inr (None, Some [example_simple_row ''p2'' ''b''])
   \<and> (let bucket = sorted_raw_logs
                      (map as_raw_log (filter (simple_member None ''r'') example_simple_entries));
           prompt = last_seen ''prompt'' (JStr []) bucket;
           response = last_seen ''response'' (JStr []) bucket;
           reference = last_seen ''ground_truth'' (JStr []) bucket
       in filter (\<lambda>rec. cr_session_id rec = ''r'')
            (rows_of (Some [example_simple_row ''p2'' ''b''])) =
            (if truthy prompt \<and> truthy response
             then [\<lparr>cr_eval_id = ''r'', cr_session_id = ''r'', cr_user_content = prompt,
                    cr_agent_response = response, cr_reference = reference,
                    cr_metric_type = JStr ''simple'', cr_metric_value = [],
                    cr_ground_truth = None\<rparr>]
             else [])
          \<and> (bucket \<noteq> [] \<longrightarrow>
               prompt = dict_get (snd (last bucket)) ''prompt''
               \<and> response = dict_get (snd (last bucket)) ''response''))"
proof -
  have run: "get_logs_for_evaluation None example_simple_entries =
     Inr (None, Some [example_simple_row ''p2'' ''b''])"
    by code_simp
  from run simple_pairing_last_write_wins [OF run, of "''r''"]
  show ?thesis by (rule conjI)
qed

text \<open>
  Claim C1 as the specification words it fails where the later event carries only a
  \<^verbatim>\<open>response\<close> field: that event has no \<^verbatim>\<open>prompt\<close> key, is never put into the bucket, and the
  row keeps the response \<^verbatim>\<open>a\<close> of the earlier event instead of the later \<^verbatim>\<open>b\<close>.
\<close>

theorem simple_pairing_response_only_counterexample:
  "get_logs_for_evaluation None example_response_only_entries =
     Inr (None, Some [example_simple_row ''p'' ''a''])"
  by code_simp

section \<open>Structured pairing\<close>

lemma turn_record_Inr:
  assumes "turn_record s i u fa = Inr ro"
  shows "ro = (if pair_kept u fa then Some (paired_record s i u fa) else None)"
    and "extract_user_content u = Inr (user_content_of u)"
    and "extract_ground_truth fa = Inr (ground_truth_of fa)"
  using assms
  by (auto simp: turn_record_def pair_kept_def paired_record_def user_content_of_def
      ground_truth_of_def Let_def split: sum.splits if_splits)

lemma pair_turns_Inr:
  assumes "pair_turns s us fs i k = Inr rs"
  shows "rs = map (\<lambda>j. paired_record s j (us ! j) (fs ! j))
               (filter (\<lambda>j. pair_kept (us ! j) (fs ! j)) [i..<i + k])
         \<and> (\<forall>j. i \<le> j \<and> j < i + k \<longrightarrow>
               extract_user_content (us ! j) = Inr (user_content_of (us ! j))
               \<and> extract_ground_truth (fs ! j) = Inr (ground_truth_of (fs ! j)))"
  using assms
proof (induction k arbitrary: i rs)
  case 0
  then show ?case by auto
next
  case (Suc k)
  from Suc.prems obtain ro rs' where t: "turn_record s i (us ! i) (fs ! i) = Inr ro"
    and rest: "pair_turns s us fs (Suc i) k = Inr rs'"
    and rs: "rs = (case ro of None \<Rightarrow> rs' | Some x \<Rightarrow> x # rs')"
    by (auto split: sum.splits)
  note ih = Suc.IH [OF rest]
  note tr = turn_record_Inr [OF t]
  have upt: "[i..<i + Suc k] = i # [Suc i..<Suc i + k]"
    by (simp add: upt_conv_Cons)
  have first: "rs = map (\<lambda>j. paired_record s j (us ! j) (fs ! j))
               (filter (\<lambda>j. pair_kept (us ! j) (fs ! j)) [i..<i + Suc k])"
    unfolding upt using ih rs tr(1) by simp
  have second: "\<forall>j. i \<le> j \<and> j < i + Suc k \<longrightarrow>
               extract_user_content (us ! j) = Inr (user_content_of (us ! j))
               \<and> extract_ground_truth (fs ! j) = Inr (ground_truth_of (fs ! j))"
  proof (intro allI impI)
    fix j assume j: "i \<le> j \<and> j < i + Suc k"
    show "extract_user_content (us ! j) = Inr (user_content_of (us ! j))
               \<and> extract_ground_truth (fs ! j) = Inr (ground_truth_of (fs ! j))"
    proof (cases "j = i")
      case True
      then show ?thesis using tr(2,3) by simp
    next
      case False
      then have "Suc i \<le> j \<and> j < Suc i + k" using j by simp
      then show ?thesis using ih by blast
    qed
  qed
  from first second show ?case by blast
qed

lemma pair_session_Inr:
  assumes "pair_session s logs = Inr rs"
  shows "rs = paired_rows s logs" and "turns_readable logs"
  using pair_turns_Inr [of s "user_messages_of (sorted_raw_logs logs)"
      "final_answers_of (sorted_raw_logs logs)" 0 _ rs] assms
  by (simp_all add: pair_session_def paired_rows_def turns_readable_def Let_def)

lemma paired_rows_Nil: "paired_rows s [] = []"
  by (simp add: paired_rows_def sorted_raw_logs_def user_messages_of_def)

lemma turns_readable_Nil: "turns_readable []"
  by (simp add: turns_readable_def sorted_raw_logs_def user_messages_of_def)

lemma paired_rows_session: "rec \<in> set (paired_rows k logs) \<Longrightarrow> cr_session_id rec = k"
  by (auto simp: paired_rows_def paired_record_def Let_def)

lemma filter_paired_rows:
  "filter (\<lambda>rec. cr_session_id rec = s) (paired_rows k logs) =
     (if k = s then paired_rows k logs else [])"
  by (auto simp: filter_empty_conv filter_id_conv dest: paired_rows_session)

lemma agent_sessions_by_session:
  assumes "distinct (map fst bs)" and "agent_sessions bs = Inr recs"
  shows "filter (\<lambda>rec. cr_session_id rec = s) recs = paired_rows s (bucket_of bs s)
         \<and> turns_readable (bucket_of bs s)"
  using assms
proof (induction bs arbitrary: recs)
  case Nil
  then show ?case by (simp add: bucket_of_def paired_rows_Nil turns_readable_Nil)
next
  case (Cons b bs)
  obtain k logs where b: "b = (k, logs)" by (cases b)
  from Cons.prems(2) b obtain rs rs' where p: "pair_session k logs = Inr rs"
    and rest: "agent_sessions bs = Inr rs'" and recs: "recs = rs @ rs'"
    by (auto split: sum.splits)
  have d: "distinct (map fst bs)" using Cons.prems(1) by simp
  note ih = Cons.IH [OF d rest]
  note ps = pair_session_Inr [OF p]
  show ?case
  proof (cases "k = s")
    case True
    then have "s \<notin> fst ` set bs" using Cons.prems(1) b by auto
    then have "map_of bs s = None" by (simp add: map_of_eq_None_iff)
    then have "bucket_of bs s = []" by (simp add: bucket_of_def)
    then have "filter (\<lambda>rec. cr_session_id rec = s) rs' = []"
      using ih by (simp add: paired_rows_Nil)
    moreover have "bucket_of (b # bs) s = logs" using True b by (simp add: bucket_of_def)
    ultimately show ?thesis using True ps by (simp add: recs filter_paired_rows)
  next
    case False
    then have "bucket_of (b # bs) s = bucket_of bs s" using b by (simp add: bucket_of_def)
    then show ?thesis using False ih ps(1) by (simp add: recs filter_paired_rows)
  qed
qed

text \<open>
  Claim C4. When the function returns, the rows of session \<open>s\<close> are, in order, the rows of
  the indices \<open>i\<close> below the smaller of the two counts at which both texts are truthy; row
  \<open>i\<close> pairs the \<open>i\<close>-th user message with the \<open>i\<close>-th final answer of the session's entries in
  timestamp order and has the id \<^verbatim>\<open>{session_id}-{i}\<close>. No index at or beyond the smaller
  count yields a row. The function returns on every list of readable entries
  (\<open>get_logs_for_evaluation_returns\<close>).
\<close>

theorem structured_pairing_bounded_zip:
  assumes "get_logs_for_evaluation f es = Inr (agent_df, simple_df)"
  shows "(let logs = sorted_raw_logs (map as_raw_log (filter (agent_member f s) es));
              user_messages = user_messages_of logs;
              final_answers = final_answers_of logs
          in filter (\<lambda>rec. cr_session_id rec = s) (rows_of agent_df) =
               map (\<lambda>i. paired_record s i (user_messages ! i) (final_answers ! i))
                 (filter (\<lambda>i. pair_kept (user_messages ! i) (final_answers ! i))
                    [0..<min (length user_messages) (length final_answers)])
             \<and> (\<forall>i < min (length user_messages) (length final_answers).
                  cr_eval_id (paired_record s i (user_messages ! i) (final_answers ! i)) =
                    s @ ''-'' @ show_nat i
                  \<and> extract_user_content (user_messages ! i) =
                      Inr (user_content_of (user_messages ! i))
                  \<and> extract_ground_truth (final_answers ! i) =
                      Inr (ground_truth_of (final_answers ! i))))"
proof -
  from assms obtain a where a: "agent_sessions a = Inr (rows_of agent_df)"
    "distinct (map fst a)"
    "\<And>k. bucket_of a k = map as_raw_log (filter (agent_member f k) es)"
    by (rule get_logs_buckets) blast
  from agent_sessions_by_session [OF a(2) a(1), of s]
  show ?thesis
    by (simp add: a(3) paired_rows_def turns_readable_def Let_def paired_record_def)
qed

text \<open>
  Three user messages and two final answers in one session, listed out of order: exactly
  two rows, with the indices 0 and 1; the third user message yields nothing.
\<close>

theorem structured_pairing_bounded_zip_witness:
  "get_logs_for_evaluation None example_session_entries =
     Inr (Some [example_turn_row ''s-0'' ''q0'' ''a0'', example_turn_row ''s-1'' ''q1'' ''a1''],
          None)
   \<and> length (user_messages_of (sorted_raw_logs
        (map as_raw_log (filter (agent_member None ''s'') example_session_entries)))) = 3
   \<and> length (final_answers_of (sorted_raw_logs
        (map as_raw_log (filter (agent_member None ''s'') example_session_entries)))) = 2
   \<and> (let logs = sorted_raw_logs
                    (map as_raw_log (filter (agent_member None ''s'') example_session_entries));
           user_messages = user_messages_of logs;
           final_answers = final_answers_of logs
       in filter (\<lambda>rec. cr_session_id rec = ''s'')
            (rows_of (Some [example_turn_row ''s-0'' ''q0'' ''a0'',
                            example_turn_row ''s-1'' ''q1'' ''a1''])) =
            map (\<lambda>i. paired_record ''s'' i (user_messages ! i) (final_answers ! i))
              (filter (\<lambda>i. pair_kept (user_messages ! i) (final_answers ! i))
                 [0..<min (length user_messages) (length final_answers)])
          \<and> (\<forall>i < min (length user_messages) (length final_answers).
               cr_eval_id (paired_record ''s'' i (user_messages ! i) (final_answers ! i)) =
                 ''s'' @ ''-'' @ show_nat i
               \<and> extract_user_content (user_messages ! i) =
                   Inr (user_content_of (user_messages ! i))
               \<and> extract_ground_truth (final_answers ! i) =
                   Inr (ground_truth_of (final_answers ! i))))"
proof -
  have run: "get_logs_for_evaluation None example_session_entries =
     Inr (Some [example_turn_row ''s-0'' ''q0'' ''a0'', example_turn_row ''s-1'' ''q1'' ''a1''],
          None)"
    by code_simp
  have n_user: "length (user_messages_of (sorted_raw_logs
        (map as_raw_log (filter (agent_member None ''s'') example_session_entries)))) = 3"
    by code_simp
  have n_final: "length (final_answers_of (sorted_raw_logs
        (map as_raw_log (filter (agent_member None ''s'') example_session_entries)))) = 2"
    by code_simp
  from run n_user n_final structured_pairing_bounded_zip [OF run, of "''s''"]
  show ?thesis by (intro conjI)
qed

section \<open>The jobs of a pass\<close>

lemma isna_blank: "isna (blank_to_nan v) \<longleftrightarrow> \<not> has_text v"
  by (auto simp: isna_def blank_to_nan_def has_text_def)

lemma clean_partition_valid:
  "clean_partition metric_type rows = map replace_blanks (valid_rows metric_type rows)"
  by (simp add: clean_partition_def dropna_def essential_columns_def valid_rows_def filter_map
      o_def replace_blanks_def isna_blank cong: filter_cong)

lemma dropna_response_valid:
  "dropna [jr_response] (map replace_blanks rows) = map replace_blanks (valid_rows ''simple'' rows)"
  by (simp add: dropna_def valid_rows_def filter_map o_def replace_blanks_def isna_blank
      needs_reference_def)

lemma jobs_of_append: "jobs_of (xs @ ys) = jobs_of xs @ jobs_of ys"
  by (induction xs rule: jobs_of.induct) simp_all

lemma errors_of_append: "errors_of (xs @ ys) = errors_of xs @ errors_of ys"
  by (induction xs rule: errors_of.induct) simp_all

lemma execute_events:
  "jobs_of (snd (execute_evaluation_run e co rows mt ts)) = []
   \<and> errors_of (snd (execute_evaluation_run e co rows mt ts)) = []"
  by (simp add: execute_evaluation_run_def Let_def split: sum.splits option.splits)

lemma collect_agent_result_props:
  "jobs_of (trace (collect_agent_result mt res acc)) = jobs_of (trace acc)
   \<and> errors_of (trace (collect_agent_result mt res acc)) = errors_of (trace acc)
   \<and> all_summary_metrics_data (collect_agent_result mt res acc) =
       all_summary_metrics_data acc @ (if fst res \<noteq> [] then [(fst res, mt)] else [])
   \<and> length (all_metrics_dfs (collect_agent_result mt res acc)) \<le> Suc (length (all_metrics_dfs acc))
   \<and> length (all_metrics_dfs acc) \<le> length (all_metrics_dfs (collect_agent_result mt res acc))"
  by (simp add: collect_agent_result_def Let_def log_event_def jobs_of_append errors_of_append
      split: option.splits)
lemma summaries_of_jobs_append:
  "summaries_of_jobs e co ts (xs @ ys) = summaries_of_jobs e co ts xs @ summaries_of_jobs e co ts ys"
  by (simp add: summaries_of_jobs_def)

lemma errors_of_jobs_append:
  "errors_of_jobs e co ts (xs @ ys) = errors_of_jobs e co ts xs @ errors_of_jobs e co ts ys"
  by (simp add: errors_of_jobs_def)

lemma jobs_added_refl: "jobs_added e co ts acc acc []"
  by (simp add: jobs_added_def summaries_of_jobs_def errors_of_jobs_def)

lemma jobs_added_trans:
  assumes "jobs_added e co ts a b js" and "jobs_added e co ts b c ks"
  shows "jobs_added e co ts a c (js @ ks)"
  using assms
  by (simp add: jobs_added_def summaries_of_jobs_append errors_of_jobs_append)

lemma jobs_added_log:
  assumes "jobs_of evs = []" and "errors_of evs = []"
  shows "jobs_added e co ts acc (log_event evs acc) []"
  using assms
  by (simp add: jobs_added_def log_event_def jobs_of_append errors_of_append
      summaries_of_jobs_def errors_of_jobs_def)

lemma job_failed_added:
  assumes "execute_evaluation_run e co rows mt ts = (Inl err, evs)"
  shows "jobs_added e co ts acc (log_event (Job mt rows # evs @ [EvalError mt err]) acc) [(mt, rows)]"
  using assms execute_events [of e co rows mt ts]
  by (simp add: jobs_added_def log_event_def jobs_of_append errors_of_append
      summaries_of_jobs_def errors_of_jobs_def job_outcome_def)

lemma job_succeeded_added:
  assumes "execute_evaluation_run e co rows mt ts = (Inr res, evs)"
  shows "jobs_added e co ts acc
           (collect_agent_result mt res (log_event (Job mt rows # evs) acc)) [(mt, rows)]"
  using assms execute_events [of e co rows mt ts]
    collect_agent_result_props [of mt res "log_event (Job mt rows # evs) acc"]
  by (simp add: jobs_added_def log_event_def jobs_of_append errors_of_append
      summaries_of_jobs_def errors_of_jobs_def job_outcome_def)

lemma planned_agent_jobs_Cons:
  "planned_agent_jobs ((mt, g) # gs) =
     (if mt = [] \<or> mt = ''MANUAL'' \<or> valid_rows mt (job_rows_of g) = [] then []
      else [(mt, map replace_blanks (valid_rows mt (job_rows_of g)))]) @ planned_agent_jobs gs"
  by (simp add: planned_agent_jobs_def)

lemma run_agent_groups_Inr:
  assumes "run_agent_groups e co ts gs acc = Inr acc'"
  shows "jobs_added e co ts acc acc' (planned_agent_jobs gs)"
  using assms
proof (induction gs arbitrary: acc)
  case Nil
  then show ?case by (simp add: planned_agent_jobs_def jobs_added_refl)
next
  case (Cons g gs)
  obtain mt grp where g: "g = (mt, grp)" by (cases g)
  show ?case
  proof (cases "mt = [] \<or> mt = ''MANUAL''")
    case True
    then obtain ev where run: "run_agent_groups e co ts gs (log_event [ev] acc) = Inr acc'"
      and ev: "jobs_of [ev] = []" "errors_of [ev] = []"
      using Cons.prems g by (auto split: if_splits)
    have "jobs_added e co ts acc (log_event [ev] acc) []"
      using ev by (rule jobs_added_log)
    from jobs_added_trans [OF this Cons.IH [OF run]]
    show ?thesis using True g by (auto simp: planned_agent_jobs_Cons)
  next
    case False
    then obtain sel where sel: "select_job_rows grp = Inr sel"
      using Cons.prems g by (auto split: sum.splits)
    then have jr: "job_rows_of grp = sel" by (simp add: job_rows_of_def)
    let ?rows = "map replace_blanks (valid_rows mt sel)"
    show ?thesis
    proof (cases "valid_rows mt sel = []")
      case True
      then have run: "run_agent_groups e co ts gs (log_event [SkipEmptyPartition mt] acc) = Inr acc'"
        using Cons.prems g False sel by (simp add: clean_partition_valid)
      have "jobs_added e co ts acc (log_event [SkipEmptyPartition mt] acc) []"
        by (rule jobs_added_log) simp_all
      from jobs_added_trans [OF this Cons.IH [OF run]]
      show ?thesis using True False g jr by (simp add: planned_agent_jobs_Cons)
    next
      case nonempty: False
      obtain out evs where ex: "execute_evaluation_run e co ?rows mt ts = (out, evs)"
        by (cases "execute_evaluation_run e co ?rows mt ts")
      show ?thesis
      proof (cases out)
        case (Inl err)
        then have run: "run_agent_groups e co ts gs
            (log_event (Job mt ?rows # evs @ [EvalError mt err]) acc) = Inr acc'"
          using Cons.prems g False sel nonempty ex by (simp add: clean_partition_valid)
        have "jobs_added e co ts acc
            (log_event (Job mt ?rows # evs @ [EvalError mt err]) acc) [(mt, ?rows)]"
          using ex Inl by (intro job_failed_added) simp
        from jobs_added_trans [OF this Cons.IH [OF run]]
        show ?thesis using nonempty False g jr by (simp add: planned_agent_jobs_Cons)
      next
        case (Inr res)
        then have run: "run_agent_groups e co ts gs
            (collect_agent_result mt res (log_event (Job mt ?rows # evs) acc)) = Inr acc'"
          using Cons.prems g False sel nonempty ex by (simp add: clean_partition_valid)
        have "jobs_added e co ts acc
            (collect_agent_result mt res (log_event (Job mt ?rows # evs) acc)) [(mt, ?rows)]"
          using ex Inr by (intro job_succeeded_added) simp
        from jobs_added_trans [OF this Cons.IH [OF run]]
        show ?thesis using nonempty False g jr by (simp add: planned_agent_jobs_Cons)
      qed
    qed
  qed
qed

lemma run_agent_groups_total:
  assumes "\<forall>g \<in> set gs. \<exists>sel. select_job_rows (snd g) = Inr sel"
  shows "\<exists>acc'. run_agent_groups e co ts gs acc = Inr acc'"
  using assms
proof (induction gs arbitrary: acc)
  case Nil
  then show ?case by simp
next
  case (Cons g gs)
  obtain mt grp where g: "g = (mt, grp)" by (cases g)
  from Cons.prems g obtain sel where sel: "select_job_rows grp = Inr sel" by auto
  have ih: "\<And>a. \<exists>acc'. run_agent_groups e co ts gs a = Inr acc'"
    using Cons by simp
  show ?case
    using ih g sel
    by (auto simp: Let_def split: sum.splits prod.splits)
qed


lemma select_job_rows_total:
  assumes "\<forall>r \<in> set rows. \<exists>c. r = EvalRow c"
  shows "\<exists>sel. select_job_rows rows = Inr sel"
  using assms by (induction rows rule: select_job_rows.induct) auto

lemma keyed_rows_rows: "keyed_rows fill rows = Inr krs \<Longrightarrow> map snd krs = rows"
  by (induction rows arbitrary: krs) (auto split: sum.splits)

lemma group_rows_subset:
  assumes "g \<in> set (group_by_metric_type krs)"
  shows "set (snd g) \<subseteq> snd ` set krs"
  using assms by (auto simp: group_by_metric_type_def)

lemma group_by_metric_type_Nil: "group_by_metric_type [] = []"
  by (simp add: group_by_metric_type_def List.map_filter_simps)

lemma run_agent_part_Inr:
  assumes "run_agent_part e co fill ts agent_df acc = Inr acc'"
  shows "\<exists>krs. keyed_rows fill (rows_of agent_df) = Inr krs
           \<and> jobs_added e co ts acc acc' (planned_agent_jobs (group_by_metric_type krs))"
proof (cases "rows_of agent_df = []")
  case True
  then have "acc' = acc" using assms
    by (auto simp: run_agent_part_def rows_of_def split: option.splits)
  then show ?thesis
    using True by (simp add: group_by_metric_type_Nil planned_agent_jobs_def jobs_added_refl)
next
  case False
  then obtain krs where k: "keyed_rows fill (rows_of agent_df) = Inr krs"
    and run: "run_agent_groups e co ts (group_by_metric_type krs) acc = Inr acc'"
    using assms
    by (auto simp: run_agent_part_def rows_of_def split: option.splits sum.splits)
  from run_agent_groups_Inr [OF run] k show ?thesis by blast
qed

lemma run_agent_part_total:
  assumes "keyed_rows fill (rows_of agent_df) = Inr krs"
    and "\<forall>r \<in> set (rows_of agent_df). \<exists>c. r = EvalRow c"
  shows "\<exists>acc'. run_agent_part e co fill ts agent_df acc = Inr acc'"
proof (cases "rows_of agent_df = []")
  case True
  then show ?thesis by (auto simp: run_agent_part_def rows_of_def split: option.splits)
next
  case False
  have "\<forall>g \<in> set (group_by_metric_type krs). \<exists>sel. select_job_rows (snd g) = Inr sel"
  proof
    fix g assume g: "g \<in> set (group_by_metric_type krs)"
    have "set (snd g) \<subseteq> set (rows_of agent_df)"
      using group_rows_subset [OF g] keyed_rows_rows [OF assms(1)] by (metis set_map)
    then have "\<forall>r \<in> set (snd g). \<exists>c. r = EvalRow c" using assms(2) by blast
    then show "\<exists>sel. select_job_rows (snd g) = Inr sel" by (rule select_job_rows_total)
  qed
  from run_agent_groups_total [OF this, of e co ts acc]
  show ?thesis using False assms(1)
    by (auto simp: run_agent_part_def rows_of_def split: option.splits)
qed

lemma planned_simple_jobs_Nil: "planned_simple_jobs [] = []"
  by (simp add: planned_simple_jobs_def job_rows_of_def valid_rows_def)

lemma simple_job_failed_added:
  assumes "execute_evaluation_run e co rows ''simple'' ts = (Inl err, evs)"
  shows "jobs_added e co ts acc (log_event (Job ''simple'' rows # evs @ [SimpleEvalError err]) acc)
           [(''simple'', rows)]"
  using assms execute_events [of e co rows "''simple''" ts]
  by (simp add: jobs_added_def log_event_def jobs_of_append errors_of_append
      summaries_of_jobs_def errors_of_jobs_def job_outcome_def)

lemma simple_job_succeeded_added:
  assumes "execute_evaluation_run e co rows ''simple'' ts = (Inr res, evs)"
    and "acc0 = log_event (Job ''simple'' rows # evs) acc"
    and "acc1 = (if fst res \<noteq> []
                 then acc0\<lparr>all_summary_metrics_data :=
                         all_summary_metrics_data acc0 @ [(fst res, ''simple'')]\<rparr>
                 else acc0)"
    and "acc2 = (case snd res of
                   None \<Rightarrow> acc1
                 | Some metrics_df \<Rightarrow> acc1\<lparr>all_metrics_dfs := all_metrics_dfs acc1 @ [metrics_df]\<rparr>)"
  shows "jobs_added e co ts acc acc2 [(''simple'', rows)]"
  using assms execute_events [of e co rows "''simple''" ts]
  by (simp add: jobs_added_def log_event_def jobs_of_append errors_of_append
      summaries_of_jobs_def errors_of_jobs_def job_outcome_def split: option.splits)

lemma run_simple_part_Inr:
  assumes "run_simple_part e co ts simple_df acc = Inr acc'"
  shows "jobs_added e co ts acc acc' (planned_simple_jobs (rows_of simple_df))"
proof (cases "rows_of simple_df = []")
  case True
  then have "acc' = acc" using assms
    by (auto simp: run_simple_part_def rows_of_def split: option.splits)
  then show ?thesis using True by (simp add: planned_simple_jobs_Nil jobs_added_refl)
next
  case False
  then obtain rows where rows: "simple_df = Some rows" "rows \<noteq> []"
    by (auto simp: rows_of_def split: option.splits)
  then obtain sel where sel: "select_job_rows rows = Inr sel"
    using assms by (auto simp: run_simple_part_def split: sum.splits)
  then have jr: "job_rows_of (rows_of simple_df) = sel"
    using rows by (simp add: job_rows_of_def rows_of_def)
  let ?rows = "map replace_blanks (valid_rows ''simple'' sel)"
  show ?thesis
  proof (cases "valid_rows ''simple'' sel = []")
    case True
    then have "acc' = log_event [SkipEmptySimple] acc"
      using assms rows sel by (simp add: run_simple_part_def dropna_response_valid)
    moreover have "jobs_added e co ts acc (log_event [SkipEmptySimple] acc) []"
      by (rule jobs_added_log) simp_all
    ultimately show ?thesis using True jr by (simp add: planned_simple_jobs_def)
  next
    case nonempty: False
    obtain out evs where ex: "execute_evaluation_run e co ?rows ''simple'' ts = (out, evs)"
      by (cases "execute_evaluation_run e co ?rows ''simple'' ts")
    have planned: "planned_simple_jobs (rows_of simple_df) = [(''simple'', ?rows)]"
      using nonempty jr by (simp add: planned_simple_jobs_def)
    show ?thesis
    proof (cases out)
      case (Inl err)
      then have "acc' = log_event (Job ''simple'' ?rows # evs @ [SimpleEvalError err]) acc"
        using assms rows sel nonempty ex
        by (simp add: run_simple_part_def dropna_response_valid)
      moreover have "jobs_added e co ts acc
          (log_event (Job ''simple'' ?rows # evs @ [SimpleEvalError err]) acc) [(''simple'', ?rows)]"
        using ex Inl by (intro simple_job_failed_added) simp
      ultimately show ?thesis using planned by simp
    next
      case (Inr res)
      define acc0 where "acc0 = log_event (Job ''simple'' ?rows # evs) acc"
      define acc1 where "acc1 = (if fst res \<noteq> []
                 then acc0\<lparr>all_summary_metrics_data :=
                         all_summary_metrics_data acc0 @ [(fst res, ''simple'')]\<rparr>
                 else acc0)"
      define acc2 where "acc2 = (case snd res of
                   None \<Rightarrow> acc1
                 | Some metrics_df \<Rightarrow> acc1\<lparr>all_metrics_dfs := all_metrics_dfs acc1 @ [metrics_df]\<rparr>)"
      have "acc' = acc2"
        unfolding acc2_def acc1_def acc0_def
        using assms rows sel nonempty ex Inr
        by (simp add: run_simple_part_def dropna_response_valid Let_def)
      moreover have "jobs_added e co ts acc acc2 [(''simple'', ?rows)]"
        using ex Inr acc0_def acc1_def acc2_def by (intro simple_job_succeeded_added) simp_all
      ultimately show ?thesis using planned by simp
    qed
  qed
qed

lemma run_simple_part_total:
  assumes "\<forall>r \<in> set (rows_of simple_df). \<exists>c. r = EvalRow c"
  shows "\<exists>acc'. run_simple_part e co ts simple_df acc = Inr acc'"
proof (cases "rows_of simple_df = []")
  case True
  then show ?thesis by (auto simp: run_simple_part_def rows_of_def split: option.splits)
next
  case False
  then obtain rows where rows: "simple_df = Some rows" "rows \<noteq> []"
    by (auto simp: rows_of_def split: option.splits)
  from select_job_rows_total [OF assms] rows obtain sel where "select_job_rows rows = Inr sel"
    by (auto simp: rows_of_def)
  then show ?thesis using rows
    by (auto simp: run_simple_part_def Let_def split: sum.splits prod.splits)
qed

lemma split_eval_df_rows:
  "\<forall>r \<in> set (rows_of (fst (split_eval_df df))). \<exists>c. r = EvalRow c"
  "\<forall>r \<in> set (rows_of (snd (split_eval_df df))). \<exists>c. r = EvalRow c"
  by (auto simp: split_eval_df_def rows_of_def frame_or_none_def)

lemma run_jobs_Inr:
  assumes "run_jobs e co fill ts agent_df simple_df = Inr acc"
  shows "\<exists>krs. keyed_rows fill (rows_of agent_df) = Inr krs
           \<and> jobs_of (trace acc) =
               planned_agent_jobs (group_by_metric_type krs) @ planned_simple_jobs (rows_of simple_df)
           \<and> errors_of (trace acc) = errors_of_jobs e co ts (jobs_of (trace acc))
           \<and> all_summary_metrics_data acc = summaries_of_jobs e co ts (jobs_of (trace acc))
           \<and> length (all_metrics_dfs acc) + length (errors_of (trace acc))
               \<le> length (jobs_of (trace acc))"
proof -
  let ?acc0 = "\<lparr>all_summary_metrics_data = [], all_metrics_dfs = [], trace = []\<rparr>"
  from assms obtain acc1 where a: "run_agent_part e co fill ts agent_df ?acc0 = Inr acc1"
    and s: "run_simple_part e co ts simple_df acc1 = Inr acc"
    by (auto simp: run_jobs_def split: sum.splits)
  from run_agent_part_Inr [OF a] obtain krs where k: "keyed_rows fill (rows_of agent_df) = Inr krs"
    and ja: "jobs_added e co ts ?acc0 acc1 (planned_agent_jobs (group_by_metric_type krs))"
    by blast
  from jobs_added_trans [OF ja run_simple_part_Inr [OF s]]
  have "jobs_added e co ts ?acc0 acc
          (planned_agent_jobs (group_by_metric_type krs) @ planned_simple_jobs (rows_of simple_df))" .
  then show ?thesis using k by (auto simp: jobs_added_def)
qed


lemma upload_radar_chart_jobs:
  assumes "upload_radar_chart e co ts acc = Inr (arts, acc')"
  shows "jobs_of (trace acc') = jobs_of (trace acc) \<and> errors_of (trace acc') = errors_of (trace acc)
         \<and> all_summary_metrics_data acc' = all_summary_metrics_data acc
         \<and> all_metrics_dfs acc' = all_metrics_dfs acc"
  using assms
  by (auto simp: upload_radar_chart_def Let_def log_event_def jobs_of_append errors_of_append
      split: if_splits option.splits)

lemma run_pass_body_Inr:
  assumes "run_pass_body e co clk fill eval_df all_time sid w = Inr res"
  obtains agent_df simple_df acc arts where
    "load_frames e co eval_df (if all_time then None else Some (get_last_run_timestamp clk w)) sid
       = Inr (agent_df, simple_df)"
    and "run_jobs e co fill (clock_time_str clk) agent_df simple_df = Inr acc"
    and "upload_radar_chart e co (clock_time_str clk) acc = Inr (arts, pr_jobs res)"
  using assms
  by (auto simp: run_pass_body_def Let_def split: option.splits sum.splits prod.splits)

lemma valid_rows_kept:
  assumes "r \<in> set (map replace_blanks (valid_rows mt rows))"
  shows "has_text (jr_response r) \<and> (needs_reference mt \<longrightarrow> has_text (jr_reference r))"
  using assms
  by (auto simp: valid_rows_def replace_blanks_def blank_to_nan_def has_text_def)

lemma planned_agent_job_valid:
  assumes "(mt, rows) \<in> set (planned_agent_jobs gs)"
  shows "rows \<noteq> [] \<and> (\<forall>r \<in> set rows. has_text (jr_response r)
            \<and> (needs_reference mt \<longrightarrow> has_text (jr_reference r)))"
  using assms valid_rows_kept
  by (auto simp: planned_agent_jobs_def split: if_splits)

lemma planned_simple_job_valid:
  assumes "(mt, rows) \<in> set (planned_simple_jobs srows)"
  shows "rows \<noteq> [] \<and> (\<forall>r \<in> set rows. has_text (jr_response r)
            \<and> (needs_reference mt \<longrightarrow> has_text (jr_reference r)))"
  using assms valid_rows_kept
  by (auto simp: planned_simple_jobs_def split: if_splits)

text \<open>
  The frames read from the log hold rows without the columns the pass selects, so they
  call for no job: a pass fed from the log returns only when it dispatches no job.
\<close>

lemma job_rows_of_log_rows:
  assumes "\<forall>r \<in> set rows. \<exists>l. r = LogRow l"
  shows "job_rows_of rows = []"
  using assms by (cases rows) (auto simp: job_rows_of_def)

lemma planned_agent_jobs_log_rows:
  assumes "\<forall>g \<in> set gs. \<forall>r \<in> set (snd g). \<exists>l. r = LogRow l"
  shows "planned_agent_jobs gs = []"
  using assms
  by (auto simp: planned_agent_jobs_def job_rows_of_log_rows valid_rows_def)

lemma planned_simple_jobs_log_rows:
  assumes "\<forall>r \<in> set rows. \<exists>l. r = LogRow l"
  shows "planned_simple_jobs rows = []"
  using assms by (simp add: planned_simple_jobs_def job_rows_of_log_rows valid_rows_def)

lemma rows_of_log_rows: "\<forall>r \<in> set (rows_of (map_option (map LogRow) df)). \<exists>l. r = LogRow l"
  by (cases df) (auto simp: rows_of_def)

lemma load_frames_log_rows:
  assumes "load_frames e co None last_run sid = Inr (agent_df, simple_df)"
  shows "(\<forall>r \<in> set (rows_of agent_df). \<exists>l. r = LogRow l)
         \<and> (\<forall>r \<in> set (rows_of simple_df). \<exists>l. r = LogRow l)"
proof -
  from assms obtain a b where "agent_df = map_option (map LogRow) a"
    "simple_df = map_option (map LogRow) b"
    by (auto simp: load_frames_def split: sum.splits)
  then show ?thesis using rows_of_log_rows by blast
qed

lemma log_fed_pass_dispatches_no_job:
  assumes "run_evaluation_and_generate_artifacts e co clk fill None all_time sid w = (Inr res, w')"
  shows "jobs_of (trace (pr_jobs res)) = []"
proof -
  from assms have body: "run_pass_body e co clk fill None all_time sid w = Inr res"
    by (auto simp: run_evaluation_and_generate_artifacts_def split: sum.splits)
  from body obtain agent_df simple_df acc arts where
    lf: "load_frames e co None (if all_time then None else Some (get_last_run_timestamp clk w)) sid
       = Inr (agent_df, simple_df)"
    and rj: "run_jobs e co fill (clock_time_str clk) agent_df simple_df = Inr acc"
    and up: "upload_radar_chart e co (clock_time_str clk) acc = Inr (arts, pr_jobs res)"
    by (rule run_pass_body_Inr) blast
  from run_jobs_Inr [OF rj] obtain krs where k: "keyed_rows fill (rows_of agent_df) = Inr krs"
    and j: "jobs_of (trace acc) =
               planned_agent_jobs (group_by_metric_type krs) @ planned_simple_jobs (rows_of simple_df)"
    by blast
  note lr = load_frames_log_rows [OF lf]
  have "\<forall>g \<in> set (group_by_metric_type krs). \<forall>r \<in> set (snd g). \<exists>l. r = LogRow l"
  proof (intro ballI)
    fix g r assume g: "g \<in> set (group_by_metric_type krs)" and r: "r \<in> set (snd g)"
    have "set (snd g) \<subseteq> set (rows_of agent_df)"
      using group_rows_subset [OF g] keyed_rows_rows [OF k] by (metis set_map)
    then show "\<exists>l. r = LogRow l" using lr r by blast
  qed
  then have "planned_agent_jobs (group_by_metric_type krs) = []"
    by (rule planned_agent_jobs_log_rows)
  moreover have "planned_simple_jobs (rows_of simple_df) = []"
    using lr by (intro planned_simple_jobs_log_rows) blast
  ultimately show ?thesis
    using upload_radar_chart_jobs [OF up] j by simp
qed

section \<open>Per-partition validity filter\<close>

text \<open>
  The filter on the passes that return. A pass fed from evaluation-set files is of this
  kind unless a collaborator outside the jobs fails; a pass fed from the log is of this
  kind only when it scores nothing (\<open>log_fed_pass_dispatches_no_job\<close>). The jobs handed to
  the scoring call are, in order,
  the planned jobs of the metric-type groups of the agent frame followed by the planned
  job of the simple frame: the input of a job is its partition with empty strings turned
  into missing values, restricted to the rows that have a response text and, for the
  families \<^verbatim>\<open>rouge\<close>, \<^verbatim>\<open>bleu\<close> and \<^verbatim>\<open>contains_words\<close>, a reference text (\<open>valid_rows\<close>); a row
  without reference text stays in any other family's partition; and a partition with no
  valid row gives no job.
\<close>

theorem partition_validity_filter:
  assumes "run_evaluation_and_generate_artifacts e co clk fill eval_df all_time sid w = (Inr res, w')"
  shows "\<exists>agent_df simple_df krs.
           load_frames e co eval_df
             (if all_time then None else Some (get_last_run_timestamp clk w)) sid
             = Inr (agent_df, simple_df)
           \<and> keyed_rows fill (rows_of agent_df) = Inr krs
           \<and> jobs_of (trace (pr_jobs res)) =
               planned_agent_jobs (group_by_metric_type krs)
               @ planned_simple_jobs (rows_of simple_df)
           \<and> (\<forall>(metric_type, rows) \<in> set (jobs_of (trace (pr_jobs res))).
                 rows \<noteq> []
                 \<and> (\<forall>r \<in> set rows. has_text (jr_response r)
                       \<and> (needs_reference metric_type \<longrightarrow> has_text (jr_reference r))))"
proof -
  from assms have body: "run_pass_body e co clk fill eval_df all_time sid w = Inr res"
    by (auto simp: run_evaluation_and_generate_artifacts_def split: sum.splits)
  from body obtain agent_df simple_df acc arts where
    lf: "load_frames e co eval_df (if all_time then None else Some (get_last_run_timestamp clk w)) sid
       = Inr (agent_df, simple_df)"
    and rj: "run_jobs e co fill (clock_time_str clk) agent_df simple_df = Inr acc"
    and up: "upload_radar_chart e co (clock_time_str clk) acc = Inr (arts, pr_jobs res)"
    by (rule run_pass_body_Inr) blast
  from run_jobs_Inr [OF rj] obtain krs where k: "keyed_rows fill (rows_of agent_df) = Inr krs"
    and j: "jobs_of (trace acc) =
               planned_agent_jobs (group_by_metric_type krs) @ planned_simple_jobs (rows_of simple_df)"
    by blast
  have j': "jobs_of (trace (pr_jobs res)) =
               planned_agent_jobs (group_by_metric_type krs) @ planned_simple_jobs (rows_of simple_df)"
    using upload_radar_chart_jobs [OF up] j by simp
  have "\<forall>(metric_type, rows) \<in> set (jobs_of (trace (pr_jobs res))).
                 rows \<noteq> []
                 \<and> (\<forall>r \<in> set rows. has_text (jr_response r)
                       \<and> (needs_reference metric_type \<longrightarrow> has_text (jr_reference r)))"
  proof (clarify, intro conjI ballI)
    fix mt rows assume m: "(mt, rows) \<in> set (jobs_of (trace (pr_jobs res)))"
    then consider "(mt, rows) \<in> set (planned_agent_jobs (group_by_metric_type krs))"
      | "(mt, rows) \<in> set (planned_simple_jobs (rows_of simple_df))"
      unfolding j' by auto
    then have v: "rows \<noteq> [] \<and> (\<forall>r \<in> set rows. has_text (jr_response r)
            \<and> (needs_reference mt \<longrightarrow> has_text (jr_reference r)))"
      using planned_agent_job_valid planned_simple_job_valid by cases blast+
    from v show "rows \<noteq> []" by blast
    fix r assume "r \<in> set rows"
    with v show "has_text (jr_response r)"
      and "needs_reference mt \<longrightarrow> has_text (jr_reference r)" by blast+
  qed
  with lf k j' show ?thesis by blast
qed

text \<open>
  A pass over four rows: the \<^verbatim>\<open>bleu\<close> row with an empty reference is excluded from the \<^verbatim>\<open>bleu\<close>
  job, which keeps the row that has a reference; the \<^verbatim>\<open>rouge\<close> partition holds only a row
  with an empty reference and gives no job; the \<^verbatim>\<open>simple\<close> row with an empty reference is
  retained.
\<close>

theorem partition_validity_filter_witness:
  "\<exists>res w'.
     run_evaluation_and_generate_artifacts example_env example_collab example_clock False
       (Some example_eval_df) False None \<lparr>last_run_file = None\<rparr> = (Inr res, w')
     \<and> jobs_of (trace (pr_jobs res)) = example_jobs
     \<and> (\<forall>(metric_type, rows) \<in> set (jobs_of (trace (pr_jobs res))).
           rows \<noteq> []
           \<and> (\<forall>r \<in> set rows. has_text (jr_response r)
                 \<and> (needs_reference metric_type \<longrightarrow> has_text (jr_reference r))))"
proof -
  let ?run = "run_evaluation_and_generate_artifacts example_env example_collab example_clock False
       (Some example_eval_df) False None \<lparr>last_run_file = None\<rparr>"
  have ev: "(case fst ?run of
               Inl err \<Rightarrow> False
             | Inr res \<Rightarrow> jobs_of (trace (pr_jobs res)) = example_jobs)"
    by code_simp
  then obtain res where r: "fst ?run = Inr res"
    and j: "jobs_of (trace (pr_jobs res)) = example_jobs"
    by (cases "fst ?run") auto
  have run: "?run = (Inr res, snd ?run)"
    using r by (metis prod.collapse)
  from partition_validity_filter [OF run] j run show ?thesis by blast
qed

text \<open>
  Claim C6 does not hold on a pass fed from the log. The frames of
  \<open>get_logs_for_evaluation\<close> name their text columns \<^verbatim>\<open>user_content\<close> and \<^verbatim>\<open>agent_response\<close>, and
  the pass selects the columns \<^verbatim>\<open>response\<close>, \<^verbatim>\<open>reference\<close>, \<^verbatim>\<open>session_id\<close> and \<^verbatim>\<open>prompt\<close> of a
  partition before it filters it. The selection raises \<open>KeyError\<close> outside any \<^verbatim>\<open>try\<close>, so
  the pass ends before a job exists. A logged session with a response and a reference under
  the family \<^verbatim>\<open>bleu\<close> ends the pass so, whether or not the missing metric types were filled,
  and so does a logged simple exchange without reference, which the filter would retain
  in the job of the \<^verbatim>\<open>simple\<close> partition.
\<close>

theorem partition_filter_log_pass_raises:
  "get_logs_for_evaluation None example_scored_session_entries
     = Inr (Some [example_scored_session_row], None)
   \<and> run_evaluation_and_generate_artifacts example_env
        (example_logging_collab example_scored_session_entries) example_clock False
        None False None \<lparr>last_run_file = None\<rparr>
     = (Inl KeyError, \<lparr>last_run_file = None\<rparr>)
   \<and> run_evaluation_and_generate_artifacts example_env
        (example_logging_collab example_scored_session_entries) example_clock True
        None False None \<lparr>last_run_file = None\<rparr>
     = (Inl KeyError, \<lparr>last_run_file = None\<rparr>)
   \<and> get_logs_for_evaluation None example_plain_exchange_entries
     = Inr (None, Some [example_plain_exchange_row])
   \<and> run_evaluation_and_generate_artifacts example_env
        (example_logging_collab example_plain_exchange_entries) example_clock False
        None False None \<lparr>last_run_file = None\<rparr>
     = (Inl KeyError, \<lparr>last_run_file = None\<rparr>)"
  by code_simp

section \<open>Job failure isolation\<close>

text \<open>
  Claim C8. On the rows of evaluation-set files whose metric types are strings or
  missing, the jobs of a pass always run to the end: whatever the scoring call does, every
  planned job is dispatched (the planned jobs do not depend on the collaborator), each job
  that raises is recorded as a caught failure and leaves neither a summary nor a score
  table, and the summaries collected are exactly those of the jobs that returned one.
\<close>

theorem job_failure_isolation:
  assumes "\<not> isl (keyed_rows fill (rows_of (fst (split_eval_df df))))"
  shows "\<exists>acc. run_jobs e co fill ts (fst (split_eval_df df)) (snd (split_eval_df df)) = Inr acc
          \<and> jobs_of (trace acc) =
              planned_agent_jobs
                (group_by_metric_type (projr (keyed_rows fill (rows_of (fst (split_eval_df df))))))
              @ planned_simple_jobs (rows_of (snd (split_eval_df df)))
          \<and> errors_of (trace acc) = errors_of_jobs e co ts (jobs_of (trace acc))
          \<and> all_summary_metrics_data acc = summaries_of_jobs e co ts (jobs_of (trace acc))
          \<and> length (all_metrics_dfs acc) + length (errors_of (trace acc))
              \<le> length (jobs_of (trace acc))"
proof -
  let ?acc0 = "\<lparr>all_summary_metrics_data = [], all_metrics_dfs = [], trace = []\<rparr>"
  from assms obtain krs where k: "keyed_rows fill (rows_of (fst (split_eval_df df))) = Inr krs"
    by (cases "keyed_rows fill (rows_of (fst (split_eval_df df)))") auto
  from run_agent_part_total [OF k split_eval_df_rows(1), of e co ts ?acc0]
  obtain acc1 where a: "run_agent_part e co fill ts (fst (split_eval_df df)) ?acc0 = Inr acc1"
    by blast
  from run_simple_part_total [OF split_eval_df_rows(2), of e co ts df acc1]
  obtain acc where s: "run_simple_part e co ts (snd (split_eval_df df)) acc1 = Inr acc"
    by blast
  have rj: "run_jobs e co fill ts (fst (split_eval_df df)) (snd (split_eval_df df)) = Inr acc"
    using a s by (simp add: run_jobs_def)
  from run_jobs_Inr [OF rj] k rj show ?thesis by auto
qed

text \<open>
  The scoring call raises on the \<^verbatim>\<open>bleu\<close> job: the failure is recorded, the \<^verbatim>\<open>simple\<close> job still
  runs, and only its summary is collected.
\<close>

theorem job_failure_isolation_witness:
  "\<not> isl (keyed_rows False (rows_of (fst (split_eval_df example_eval_df))))
   \<and> (\<exists>acc. run_jobs example_env example_bleu_failing_collab False ''t''
               (fst (split_eval_df example_eval_df)) (snd (split_eval_df example_eval_df)) = Inr acc
            \<and> jobs_of (trace acc) = example_jobs
            \<and> errors_of (trace acc) = [(''bleu'', CollaboratorError ''scoring failed'')]
            \<and> all_summary_metrics_data acc = [([(''score/mean'', 1)], ''simple'')]
            \<and> errors_of (trace acc) =
                errors_of_jobs example_env example_bleu_failing_collab ''t'' (jobs_of (trace acc))
            \<and> all_summary_metrics_data acc =
                summaries_of_jobs example_env example_bleu_failing_collab ''t'' (jobs_of (trace acc))
            \<and> length (all_metrics_dfs acc) + length (errors_of (trace acc))
                \<le> length (jobs_of (trace acc)))"
proof -
  let ?run = "run_jobs example_env example_bleu_failing_collab False ''t''
               (fst (split_eval_df example_eval_df)) (snd (split_eval_df example_eval_df))"
  have h: "\<not> isl (keyed_rows False (rows_of (fst (split_eval_df example_eval_df))))"
    by code_simp
  have ev: "(case ?run of
               Inl err \<Rightarrow> False
             | Inr acc \<Rightarrow> jobs_of (trace acc) = example_jobs
                 \<and> errors_of (trace acc) = [(''bleu'', CollaboratorError ''scoring failed'')]
                 \<and> all_summary_metrics_data acc = [([(''score/mean'', 1)], ''simple'')])"
    by code_simp
  from job_failure_isolation [OF h, of example_env example_bleu_failing_collab "''t''"]
  obtain acc where acc: "?run = Inr acc"
    "errors_of (trace acc) =
       errors_of_jobs example_env example_bleu_failing_collab ''t'' (jobs_of (trace acc))"
    "all_summary_metrics_data acc =
       summaries_of_jobs example_env example_bleu_failing_collab ''t'' (jobs_of (trace acc))"
    "length (all_metrics_dfs acc) + length (errors_of (trace acc)) \<le> length (jobs_of (trace acc))"
    by blast
  from ev acc(1) have "jobs_of (trace acc) = example_jobs
      \<and> errors_of (trace acc) = [(''bleu'', CollaboratorError ''scoring failed'')]
      \<and> all_summary_metrics_data acc = [([(''score/mean'', 1)], ''simple'')]"
    by simp
  with h acc show ?thesis by blast
qed

section \<open>Writing the run state\<close>

text \<open>
  Claim C9. The pass leaves the timestamp file as it was whenever it is an all-time pass
  or ends with an exception, and otherwise writes the current time into it: the file is
  written only by a pass that completes and is not all-time. In particular an exception of
  client start-up, of the logging client, or of the chart upload or download ends the pass
  with that exception and the file unwritten. The only other writer of the file, the
  \<^verbatim>\<open>--export-sessions\<close> branch of \<^verbatim>\<open>main\<close>, is gated in the same way.
\<close>

theorem run_state_write_gating:
  "snd (run_evaluation_and_generate_artifacts e co clk fill eval_df all_time sid w) =
     (if all_time \<or> isl (fst (run_evaluation_and_generate_artifacts e co clk fill eval_df all_time sid w))
      then w else save_current_timestamp clk w)
   \<and> last_run_file (save_current_timestamp clk w) = Some (clock_utcnow_iso clk @ ''Z'')
   \<and> (co_init co = Some err \<longrightarrow>
        fst (run_evaluation_and_generate_artifacts e co clk fill eval_df all_time sid w) = Inl err)
   \<and> (co_init co = None \<and> eval_df = None
        \<and> co_list_entries co
             (log_filter (env_log_name e)
                (if all_time then None else Some (get_last_run_timestamp clk w))) = Inl err \<longrightarrow>
        fst (run_evaluation_and_generate_artifacts e co clk fill eval_df all_time sid w) = Inl err)
   \<and> (\<forall>agent_df simple_df acc.
        co_init co = None
        \<and> load_frames e co eval_df
             (if all_time then None else Some (get_last_run_timestamp clk w)) sid
             = Inr (agent_df, simple_df)
        \<and> run_jobs e co fill (clock_time_str clk) agent_df simple_df = Inr acc
        \<and> upload_radar_chart e co (clock_time_str clk) acc = Inl err \<longrightarrow>
        fst (run_evaluation_and_generate_artifacts e co clk fill eval_df all_time sid w) = Inl err)
   \<and> snd (main_export_sessions e co clk all_time w) =
       (if all_time \<or> isl (fst (main_export_sessions e co clk all_time w))
        then w else save_current_timestamp clk w)"
  by (auto simp: run_evaluation_and_generate_artifacts_def run_pass_body_def load_frames_def
      save_current_timestamp_def main_export_sessions_def Let_def
      split: sum.splits option.splits prod.splits)

text \<open>
  Passes at which each case of the theorem applies: client start-up fails, the logging
  client is unreachable (the file keeps its content), the blob store is unreachable (no
  file is created), a pass that completes writes the current time, and an all-time pass
  that completes writes nothing. A pass in which a scoring job raises completes, since
  the failure is caught, and writes the current time. The export of sessions leaves the
  file alone when the logging client is unreachable and writes the current time when it
  completes.
\<close>

theorem run_state_write_gating_witness:
  "co_init example_init_failing_collab = Some (CollaboratorError ''no credentials'')
   \<and> run_evaluation_and_generate_artifacts example_env example_init_failing_collab
        example_clock False (Some example_eval_df) False None \<lparr>last_run_file = None\<rparr>
     = (Inl (CollaboratorError ''no credentials''), \<lparr>last_run_file = None\<rparr>)
   \<and> co_init example_unreachable_logs_collab = None
   \<and> co_list_entries example_unreachable_logs_collab
        (log_filter (env_log_name example_env)
           (if False then None
            else Some (get_last_run_timestamp example_clock
                         \<lparr>last_run_file = Some ''2025-12-01T00:00:00Z''\<rparr>)))
     = Inl (CollaboratorError ''logging unreachable'')
   \<and> run_evaluation_and_generate_artifacts example_env example_unreachable_logs_collab
        example_clock False None False None \<lparr>last_run_file = Some ''2025-12-01T00:00:00Z''\<rparr>
     = (Inl (CollaboratorError ''logging unreachable''),
        \<lparr>last_run_file = Some ''2025-12-01T00:00:00Z''\<rparr>)
   \<and> co_init example_upload_failing_collab = None
   \<and> (\<exists>agent_df simple_df acc.
         load_frames example_env example_upload_failing_collab (Some example_eval_df)
           (if False then None
            else Some (get_last_run_timestamp example_clock \<lparr>last_run_file = None\<rparr>)) None
           = Inr (agent_df, simple_df)
         \<and> run_jobs example_env example_upload_failing_collab False
              (clock_time_str example_clock) agent_df simple_df = Inr acc
         \<and> upload_radar_chart example_env example_upload_failing_collab
              (clock_time_str example_clock) acc
           = Inl (CollaboratorError ''storage unreachable''))
   \<and> run_evaluation_and_generate_artifacts example_env example_upload_failing_collab
        example_clock False (Some example_eval_df) False None \<lparr>last_run_file = None\<rparr>
     = (Inl (CollaboratorError ''storage unreachable''), \<lparr>last_run_file = None\<rparr>)
   \<and> \<not> isl (fst (run_evaluation_and_generate_artifacts example_env example_collab example_clock
                    False (Some example_eval_df) False None \<lparr>last_run_file = None\<rparr>))
   \<and> snd (run_evaluation_and_generate_artifacts example_env example_collab example_clock
             False (Some example_eval_df) False None \<lparr>last_run_file = None\<rparr>)
     = \<lparr>last_run_file = Some ''2026-01-02T03:04:05Z''\<rparr>
   \<and> \<not> isl (fst (run_evaluation_and_generate_artifacts example_env example_collab example_clock
                    False (Some example_eval_df) True None \<lparr>last_run_file = None\<rparr>))
   \<and> snd (run_evaluation_and_generate_artifacts example_env example_collab example_clock
             False (Some example_eval_df) True None \<lparr>last_run_file = None\<rparr>)
     = \<lparr>last_run_file = None\<rparr>
   \<and> \<not> isl (fst (run_evaluation_and_generate_artifacts example_env example_bleu_failing_collab
                    example_clock False (Some example_eval_df) False None \<lparr>last_run_file = None\<rparr>))
   \<and> snd (run_evaluation_and_generate_artifacts example_env example_bleu_failing_collab
             example_clock False (Some example_eval_df) False None \<lparr>last_run_file = None\<rparr>)
     = \<lparr>last_run_file = Some ''2026-01-02T03:04:05Z''\<rparr>
   \<and> main_export_sessions example_env example_unreachable_logs_collab example_clock False
        \<lparr>last_run_file = None\<rparr>
     = (Inl (CollaboratorError ''logging unreachable''), \<lparr>last_run_file = None\<rparr>)
   \<and> main_export_sessions example_env example_collab example_clock False \<lparr>last_run_file = None\<rparr>
     = (Inr [], \<lparr>last_run_file = Some ''2026-01-02T03:04:05Z''\<rparr>)"
proof -
  let ?w = "\<lparr>last_run_file = None\<rparr>"
  let ?w' = "\<lparr>last_run_file = Some ''2025-12-01T00:00:00Z''\<rparr>"
  let ?init = "CollaboratorError ''no credentials''"
  let ?logs = "CollaboratorError ''logging unreachable''"
  let ?store = "CollaboratorError ''storage unreachable''"
  have now: "save_current_timestamp example_clock ?w = \<lparr>last_run_file = Some ''2026-01-02T03:04:05Z''\<rparr>"
    by (simp add: save_current_timestamp_def example_clock_def)
  \<comment> \<open>client start-up fails\<close>
  have i1: "co_init example_init_failing_collab = Some ?init"
    by (simp add: example_init_failing_collab_def)
  note t1 = run_state_write_gating [where e = example_env and co = example_init_failing_collab
      and clk = example_clock and fill = False and eval_df = "Some example_eval_df"
      and all_time = False and sid = None and w = ?w and err = ?init]
  from t1 i1 have f1: "fst (run_evaluation_and_generate_artifacts example_env
      example_init_failing_collab example_clock False (Some example_eval_df) False None ?w) = Inl ?init"
    by blast
  from t1 have "snd (run_evaluation_and_generate_artifacts example_env
      example_init_failing_collab example_clock False (Some example_eval_df) False None ?w) = ?w"
    unfolding f1 by simp
  with f1 have r1: "run_evaluation_and_generate_artifacts example_env example_init_failing_collab
        example_clock False (Some example_eval_df) False None ?w = (Inl ?init, ?w)"
    by (simp add: prod_eq_iff)
  \<comment> \<open>the logging client cannot be reached\<close>
  have i2: "co_init example_unreachable_logs_collab = None"
    by (simp add: example_unreachable_logs_collab_def example_collab_def)
  have l2: "co_list_entries example_unreachable_logs_collab
        (log_filter (env_log_name example_env)
           (if False then None else Some (get_last_run_timestamp example_clock ?w'))) = Inl ?logs"
    by (simp add: example_unreachable_logs_collab_def)
  note t2 = run_state_write_gating [where e = example_env and co = example_unreachable_logs_collab
      and clk = example_clock and fill = False and eval_df = None
      and all_time = False and sid = None and w = ?w' and err = ?logs]
  from t2 i2 l2 have f2: "fst (run_evaluation_and_generate_artifacts example_env
      example_unreachable_logs_collab example_clock False None False None ?w') = Inl ?logs"
    by blast
  from t2 have "snd (run_evaluation_and_generate_artifacts example_env
      example_unreachable_logs_collab example_clock False None False None ?w') = ?w'"
    unfolding f2 by simp
  with f2 have r2: "run_evaluation_and_generate_artifacts example_env example_unreachable_logs_collab
        example_clock False None False None ?w' = (Inl ?logs, ?w')"
    by (simp add: prod_eq_iff)
  \<comment> \<open>the chart cannot be uploaded\<close>
  have i3: "co_init example_upload_failing_collab = None"
    by (simp add: example_upload_failing_collab_def example_collab_def)
  have lf: "load_frames example_env example_upload_failing_collab (Some example_eval_df)
           (if False then None else Some (get_last_run_timestamp example_clock ?w)) None
           = Inr (fst (split_eval_df example_eval_df), snd (split_eval_df example_eval_df))"
    by (simp add: load_frames_def)
  have "(case run_jobs example_env example_upload_failing_collab False
              (clock_time_str example_clock) (fst (split_eval_df example_eval_df))
              (snd (split_eval_df example_eval_df)) of
           Inl err \<Rightarrow> False
         | Inr acc \<Rightarrow> upload_radar_chart example_env example_upload_failing_collab
              (clock_time_str example_clock) acc = Inl ?store)"
    by code_simp
  then obtain acc where rj: "run_jobs example_env example_upload_failing_collab False
              (clock_time_str example_clock) (fst (split_eval_df example_eval_df))
              (snd (split_eval_df example_eval_df)) = Inr acc"
    and up: "upload_radar_chart example_env example_upload_failing_collab
              (clock_time_str example_clock) acc = Inl ?store"
    by (auto split: sum.splits)
  note t3 = run_state_write_gating [where e = example_env and co = example_upload_failing_collab
      and clk = example_clock and fill = False and eval_df = "Some example_eval_df"
      and all_time = False and sid = None and w = ?w and err = ?store]
  from t3 i3 lf rj up have f3: "fst (run_evaluation_and_generate_artifacts example_env
      example_upload_failing_collab example_clock False (Some example_eval_df) False None ?w)
      = Inl ?store"
    by blast
  from t3 have "snd (run_evaluation_and_generate_artifacts example_env
      example_upload_failing_collab example_clock False (Some example_eval_df) False None ?w) = ?w"
    unfolding f3 by simp
  with f3 have r3: "run_evaluation_and_generate_artifacts example_env example_upload_failing_collab
        example_clock False (Some example_eval_df) False None ?w = (Inl ?store, ?w)"
    by (simp add: prod_eq_iff)
  from lf rj up have e3: "\<exists>agent_df simple_df acc.
         load_frames example_env example_upload_failing_collab (Some example_eval_df)
           (if False then None else Some (get_last_run_timestamp example_clock ?w)) None
           = Inr (agent_df, simple_df)
         \<and> run_jobs example_env example_upload_failing_collab False
              (clock_time_str example_clock) agent_df simple_df = Inr acc
         \<and> upload_radar_chart example_env example_upload_failing_collab
              (clock_time_str example_clock) acc = Inl ?store"
    by blast
  \<comment> \<open>a pass that completes\<close>
  have c: "\<not> isl (fst (run_evaluation_and_generate_artifacts example_env example_collab example_clock
                    False (Some example_eval_df) False None ?w))"
    by code_simp
  note t4 = run_state_write_gating [where e = example_env and co = example_collab
      and clk = example_clock and fill = False and eval_df = "Some example_eval_df"
      and all_time = False and sid = None and w = ?w]
  from t4 c have d: "snd (run_evaluation_and_generate_artifacts example_env example_collab
      example_clock False (Some example_eval_df) False None ?w)
      = \<lparr>last_run_file = Some ''2026-01-02T03:04:05Z''\<rparr>"
    by (simp add: now)
  \<comment> \<open>an all-time pass that completes\<close>
  have e: "\<not> isl (fst (run_evaluation_and_generate_artifacts example_env example_collab example_clock
                    False (Some example_eval_df) True None ?w))"
    by code_simp
  note t5 = run_state_write_gating [where e = example_env and co = example_collab
      and clk = example_clock and fill = False and eval_df = "Some example_eval_df"
      and all_time = True and sid = None and w = ?w]
  from t5 have f: "snd (run_evaluation_and_generate_artifacts example_env example_collab
      example_clock False (Some example_eval_df) True None ?w) = ?w"
    by simp
  \<comment> \<open>a scoring job fails: the failure is caught and the pass completes\<close>
  have c7: "\<not> isl (fst (run_evaluation_and_generate_artifacts example_env
      example_bleu_failing_collab example_clock False (Some example_eval_df) False None ?w))"
    by code_simp
  note t7 = run_state_write_gating [where e = example_env and co = example_bleu_failing_collab
      and clk = example_clock and fill = False and eval_df = "Some example_eval_df"
      and all_time = False and sid = None and w = ?w]
  from t7 c7 have d7: "snd (run_evaluation_and_generate_artifacts example_env
      example_bleu_failing_collab example_clock False (Some example_eval_df) False None ?w)
      = \<lparr>last_run_file = Some ''2026-01-02T03:04:05Z''\<rparr>"
    by (simp add: now)
  \<comment> \<open>the export of sessions\<close>
  have m1: "fst (main_export_sessions example_env example_unreachable_logs_collab example_clock
      False ?w) = Inl ?logs"
    by code_simp
  note t6 = run_state_write_gating [where e = example_env and co = example_unreachable_logs_collab
      and clk = example_clock and all_time = False and w = ?w]
  from t6 have "snd (main_export_sessions example_env example_unreachable_logs_collab example_clock
      False ?w) = ?w"
    unfolding m1 by simp
  with m1 have g: "main_export_sessions example_env example_unreachable_logs_collab example_clock
      False ?w = (Inl ?logs, ?w)"
    by (simp add: prod_eq_iff)
  have m2: "fst (main_export_sessions example_env example_collab example_clock False ?w) = Inr []"
    by code_simp
  from t4 have "snd (main_export_sessions example_env example_collab example_clock False ?w)
      = \<lparr>last_run_file = Some ''2026-01-02T03:04:05Z''\<rparr>"
    unfolding m2 by (simp add: now)
  with m2 have h: "main_export_sessions example_env example_collab example_clock False ?w
      = (Inr [], \<lparr>last_run_file = Some ''2026-01-02T03:04:05Z''\<rparr>)"
    by (simp add: prod_eq_iff)
  from i1 r1 i2 l2 r2 i3 e3 r3 c d e f c7 d7 g h show ?thesis by (intro conjI)
qed

section \<open>Merge on export\<close>

lemma dds_subset: "set (drop_duplicates_seen key seen xs) \<subseteq> set xs"
  by (induction xs arbitrary: seen) auto

lemma dds_keys:
  "key ` set (drop_duplicates_seen key seen xs) = key ` set xs - set seen"
  by (induction xs arbitrary: seen) auto

lemma dds_distinct: "distinct (map key (drop_duplicates_seen key seen xs))"
proof (induction xs arbitrary: seen)
  case Nil
  then show ?case by simp
next
  case (Cons x xs)
  have "key x \<notin> key ` set (drop_duplicates_seen key (key x # seen) xs)"
    by (simp add: dds_keys)
  then show ?case using Cons by auto
qed

lemma dds_filter:
  "filter (\<lambda>n. key n = k) (drop_duplicates_seen key seen xs) =
     (if k \<in> set seen then []
      else (case find (\<lambda>n. key n = k) xs of None \<Rightarrow> [] | Some n \<Rightarrow> [n]))"
proof (induction xs arbitrary: seen)
  case Nil
  then show ?case by simp
next
  case (Cons x xs)
  show ?case
  proof (cases "key x \<in> set seen")
    case True
    then show ?thesis using Cons [of seen] by auto
  next
    case False
    then show ?thesis using Cons [of "key x # seen"] by auto
  qed
qed


lemma dds_fixed:
  assumes "distinct (map key xs)" and "key ` set xs \<inter> set seen = {}"
  shows "drop_duplicates_seen key seen xs = xs"
  using assms
proof (induction xs arbitrary: seen)
  case Nil
  then show ?case by simp
next
  case (Cons x xs)
  have "key ` set xs \<inter> set (key x # seen) = {}" using Cons.prems by auto
  then have "drop_duplicates_seen key (key x # seen) xs = xs"
    using Cons.IH Cons.prems(1) by simp
  then show ?case using Cons.prems(2) by auto
qed

lemma dds_Nil_iff: "drop_duplicates_seen key [] xs = [] \<longleftrightarrow> xs = []"
  by (cases xs) auto

lemma drop_duplicates_subset: "set (drop_duplicates key xs) \<subseteq> set xs"
  by (simp add: drop_duplicates_def dds_subset)

lemma drop_duplicates_keys: "key ` set (drop_duplicates key xs) = key ` set xs"
  by (simp add: drop_duplicates_def dds_keys)

lemma drop_duplicates_distinct: "distinct (map key (drop_duplicates key xs))"
  by (simp add: drop_duplicates_def dds_distinct)

lemma drop_duplicates_filter:
  "filter (\<lambda>n. key n = k) (drop_duplicates key xs) =
     (case find (\<lambda>n. key n = k) xs of None \<Rightarrow> [] | Some n \<Rightarrow> [n])"
  by (simp add: drop_duplicates_def dds_filter)


lemma drop_duplicates_fixed: "distinct (map key xs) \<Longrightarrow> drop_duplicates key xs = xs"
  by (simp add: drop_duplicates_def dds_fixed)

lemma drop_duplicates_idem: "drop_duplicates key (drop_duplicates key xs) = drop_duplicates key xs"
  by (rule drop_duplicates_fixed) (rule drop_duplicates_distinct)

lemma drop_duplicates_Nil_iff: "drop_duplicates key xs = [] \<longleftrightarrow> xs = []"
  by (simp add: drop_duplicates_def dds_Nil_iff)

lemma merge_left_row_unique:
  "merge_left_row columns (drop_duplicates sr_session_id new_rows) row =
     [merged_row columns row (new_type_for new_rows (cell_in columns row ''eval_id''))
        (new_value_for new_rows (cell_in columns row ''eval_id''))]"
  by (simp add: merge_left_row_def drop_duplicates_filter new_type_for_def new_value_for_def
      first_new_def Let_def split: option.splits)

lemma merge_left_unique:
  "merge_left_row columns (drop_duplicates sr_session_id new_rows) =
     (\<lambda>row. [merged_row columns row (new_type_for new_rows (cell_in columns row ''eval_id''))
        (new_value_for new_rows (cell_in columns row ''eval_id''))])"
  by (rule ext) (rule merge_left_row_unique)

lemma concat_singletons: "concat (map (\<lambda>x. [f x]) xs) = map f xs"
  by (induction xs) auto

lemma map_of_zip_filter:
  assumes "length cols = length row" and "P c"
  shows "map_of (zip (filter P cols) (map snd (filter (\<lambda>(k, v). P k) (zip cols row)))) c
         = map_of (zip cols row) c"
  using assms
proof (induction cols row rule: list_induct2)
  case Nil
  then show ?case by simp
next
  case (Cons x xs y ys)
  then show ?case by auto
qed

lemma map_of_zip_filter_out:
  assumes "length cols = length row" and "\<not> P c"
  shows "map_of (zip (filter P cols) (map snd (filter (\<lambda>(k, v). P k) (zip cols row)))) c = None"
  using assms
proof (induction cols row rule: list_induct2)
  case Nil
  then show ?case by simp
next
  case (Cons x xs y ys)
  then show ?case by auto
qed

lemma length_filter_zip:
  assumes "length cols = length row"
  shows "length (filter P cols) = length (map snd (filter (\<lambda>(k, v). P k) (zip cols row)))"
  using assms by (induction cols row rule: list_induct2) auto

lemma cell_in_merged_row:
  assumes "length row = length columns"
  shows "cell_in (merged_columns columns) (merged_row columns row a b) c =
           (if c = ''metric_type'' then fillna a (cell_in columns row ''metric_type'')
            else if c = ''metric_value'' then fillna b (cell_in columns row ''metric_value'')
            else cell_in columns row c)"
proof -
  let ?P = "\<lambda>c. c \<noteq> ''metric_type'' \<and> c \<noteq> ''metric_value''"
  let ?A = "filter ?P columns"
  let ?B = "map snd (filter (\<lambda>(k, v). ?P k) (zip columns row))"
  have len: "length ?A = length ?B"
    using assms length_filter_zip [of columns row ?P] by simp
  have z: "zip (?A @ [''metric_type'', ''metric_value'']) (?B @ [x, y])
           = zip ?A ?B @ [(''metric_type'', x), (''metric_value'', y)]" for x y
    using len by simp
  have dom: "dom (map_of (zip ?A ?B)) = set ?A"
    using len by (simp add: dom_map_of_zip)
  show ?thesis
  proof (cases "?P c")
    case True
    then have "map_of (zip ?A ?B) c = map_of (zip columns row) c"
      using map_of_zip_filter [of columns row ?P c] assms by simp
    then show ?thesis
      using True
      by (auto simp: cell_in_def merged_columns_def merged_row_def z map_add_def
          split: option.splits)
  next
    case False
    then have "map_of (zip ?A ?B) c = None"
      using map_of_zip_filter_out [of columns row ?P c] assms by simp
    then show ?thesis
      using False
      by (auto simp: cell_in_def merged_columns_def merged_row_def z map_add_def
          split: option.splits)
  qed
qed



lemma export_scores_nonempty_prior:
  assumes "export_scores (Some path) (CsvFile prior) (Some new_rows) = Inr written"
    and "path \<noteq> []" and "new_rows \<noteq> []" and "\<not> table_empty prior"
  shows "written = CsvFile
           \<lparr>ct_columns = merged_columns (ct_columns prior),
            ct_rows = map (\<lambda>row. merged_row (ct_columns prior) row
                              (new_type_for new_rows (cell_in (ct_columns prior) row ''eval_id''))
                              (new_value_for new_rows (cell_in (ct_columns prior) row ''eval_id'')))
                        (kept_prior_rows prior)\<rparr>"
proof -
  have ne: "\<not> table_empty (prior\<lparr>ct_rows := kept_prior_rows prior\<rparr>)"
    using assms(4) by (simp add: table_empty_def kept_prior_rows_def drop_duplicates_Nil_iff)
  show ?thesis
    using assms(1-3) ne
    by (auto simp: export_scores_def read_original_def Let_def kept_prior_rows_def
        merge_left_unique concat_singletons split: if_splits)
qed

lemma export_scores_fresh:
  assumes "export_scores (Some path) file (Some new_rows) = Inr written"
    and "path \<noteq> []" and "new_rows \<noteq> []"
    and "file = NoFile \<or> (\<exists>t. file = CsvFile t \<and> table_empty t)"
  shows "written = CsvFile (table_of_scores new_rows)"
  using assms
  by (auto simp: export_scores_def read_original_def Let_def table_empty_def
      drop_duplicates_Nil_iff split: if_splits)






lemma merged_export_cells:
  assumes "export_scores (Some path) (CsvFile prior) (Some new_rows) = Inr written"
    and "path \<noteq> []" and "new_rows \<noteq> []" and "\<not> table_empty prior" and "well_formed prior"
  shows "\<exists>t. written = CsvFile t
          \<and> ct_columns t = merged_columns (ct_columns prior)
          \<and> eval_ids t = map (\<lambda>row. cell_in (ct_columns prior) row ''eval_id'') (kept_prior_rows prior)
          \<and> distinct (eval_ids t)
          \<and> list_all2
               (\<lambda>out row. \<forall>c.
                  cell_in (ct_columns t) out c =
                    (if c = ''metric_type''
                     then fillna (new_type_for new_rows (cell_in (ct_columns prior) row ''eval_id''))
                            (cell_in (ct_columns prior) row ''metric_type'')
                     else if c = ''metric_value''
                     then fillna (new_value_for new_rows (cell_in (ct_columns prior) row ''eval_id''))
                            (cell_in (ct_columns prior) row ''metric_value'')
                     else cell_in (ct_columns prior) row c))
               (ct_rows t) (kept_prior_rows prior)"
proof -
  let ?cols = "ct_columns prior"
  let ?f = "\<lambda>row. merged_row ?cols row (new_type_for new_rows (cell_in ?cols row ''eval_id''))
                              (new_value_for new_rows (cell_in ?cols row ''eval_id''))"
  let ?t = "\<lparr>ct_columns = merged_columns ?cols, ct_rows = map ?f (kept_prior_rows prior)\<rparr>"
  have w: "written = CsvFile ?t"
    using export_scores_nonempty_prior [OF assms(1-4)] .
  have len: "length row = length ?cols" if "row \<in> set (kept_prior_rows prior)" for row
    using that assms(5) drop_duplicates_subset
    by (fastforce simp: well_formed_def kept_prior_rows_def)
  have cells: "cell_in (merged_columns ?cols) (?f row) c =
                    (if c = ''metric_type''
                     then fillna (new_type_for new_rows (cell_in ?cols row ''eval_id''))
                            (cell_in ?cols row ''metric_type'')
                     else if c = ''metric_value''
                     then fillna (new_value_for new_rows (cell_in ?cols row ''eval_id''))
                            (cell_in ?cols row ''metric_value'')
                     else cell_in ?cols row c)"
    if "row \<in> set (kept_prior_rows prior)" for row c
    using cell_in_merged_row [OF len [OF that]] by simp
  have ids: "eval_ids ?t = map (\<lambda>row. cell_in ?cols row ''eval_id'') (kept_prior_rows prior)"
    using cells by (simp add: eval_ids_def)
  have "distinct (map (\<lambda>row. cell_in ?cols row ''eval_id'') (kept_prior_rows prior))"
    unfolding kept_prior_rows_def by (rule drop_duplicates_distinct)
  then have d: "distinct (eval_ids ?t)"
    by (simp only: ids)
  have l: "list_all2
               (\<lambda>out row. \<forall>c.
                  cell_in (ct_columns ?t) out c =
                    (if c = ''metric_type''
                     then fillna (new_type_for new_rows (cell_in ?cols row ''eval_id''))
                            (cell_in ?cols row ''metric_type'')
                     else if c = ''metric_value''
                     then fillna (new_value_for new_rows (cell_in ?cols row ''eval_id''))
                            (cell_in ?cols row ''metric_value'')
                     else cell_in ?cols row c))
               (ct_rows ?t) (kept_prior_rows prior)"
    using cells by (simp add: list_all2_map1 list_all2_same)
  from w ids d l show ?thesis
    by (intro exI [of _ ?t]) simp
qed

text \<open>
  Claim C2, as the code has it. When the prior export is a non-empty table, the written
  table has one row for each identity of the prior table, in the order of first
  occurrence; in that row \<^verbatim>\<open>metric_type\<close> and \<^verbatim>\<open>metric_value\<close> are, cell by cell, the cell of
  the first row of the new pass for that identity when that cell is present, and the cell
  of the first prior row for the identity otherwise; every other column keeps the prior
  cell. Prior rows that repeat the identity of an earlier prior row are not part of the
  written table.
\<close>

theorem merge_export_fallback_fill:
  assumes "export_scores (Some path) (CsvFile prior) (Some new_rows) = Inr written"
    and "path \<noteq> []" and "new_rows \<noteq> []" and "\<not> table_empty prior" and "well_formed prior"
  shows "\<exists>t. written = CsvFile t
          \<and> ct_columns t = merged_columns (ct_columns prior)
          \<and> eval_ids t = map (\<lambda>row. cell_in (ct_columns prior) row ''eval_id'') (kept_prior_rows prior)
          \<and> distinct (eval_ids t)
          \<and> list_all2
               (\<lambda>out row. \<forall>c.
                  cell_in (ct_columns t) out c =
                    (if c = ''metric_type''
                     then fillna (new_type_for new_rows (cell_in (ct_columns prior) row ''eval_id''))
                            (cell_in (ct_columns prior) row ''metric_type'')
                     else if c = ''metric_value''
                     then fillna (new_value_for new_rows (cell_in (ct_columns prior) row ''eval_id''))
                            (cell_in (ct_columns prior) row ''metric_value'')
                     else cell_in (ct_columns prior) row c))
               (ct_rows t) (kept_prior_rows prior)"
  using merged_export_cells [OF assms] .

text \<open>
  A prior export with a further column and two identities, merged with a pass that scores
  identity \<^verbatim>\<open>a\<close> twice and the new identity \<^verbatim>\<open>b\<close>: the row of \<^verbatim>\<open>a\<close> takes the first new
  score, the row of \<^verbatim>\<open>c\<close> keeps its prior cells.
\<close>

theorem merge_export_fallback_fill_witness:
  "export_scores (Some ''scores.csv'') (CsvFile example_prior_export) (Some example_third_pass)
     = Inr (CsvFile example_merged_export)
   \<and> ''scores.csv'' \<noteq> []
   \<and> example_third_pass \<noteq> []
   \<and> \<not> table_empty example_prior_export
   \<and> well_formed example_prior_export
   \<and> eval_ids example_merged_export =
        map (\<lambda>row. cell_in (ct_columns example_prior_export) row ''eval_id'')
          (kept_prior_rows example_prior_export)
   \<and> distinct (eval_ids example_merged_export)"
proof -
  have run: "export_scores (Some ''scores.csv'') (CsvFile example_prior_export)
      (Some example_third_pass) = Inr (CsvFile example_merged_export)"
    by code_simp
  have p: "''scores.csv'' \<noteq> []" by simp
  have n: "example_third_pass \<noteq> []" by code_simp
  have e: "\<not> table_empty example_prior_export" by code_simp
  have w: "well_formed example_prior_export" by code_simp
  from merge_export_fallback_fill [OF run p n e w]
  have "eval_ids example_merged_export =
        map (\<lambda>row. cell_in (ct_columns example_prior_export) row ''eval_id'')
          (kept_prior_rows example_prior_export)
     \<and> distinct (eval_ids example_merged_export)"
    by auto
  with run p n e w show ?thesis by blast
qed

text \<open>
  Claim C2 as the specification words it fails on a prior export that holds two metrics of
  one record, such as the table the export itself writes when no prior file exists. A
  later pass that scores only another record does not touch either prior row, yet the
  second one is dropped.
\<close>

theorem merge_export_drops_prior_row_counterexample:
  "export_scores (Some ''scores.csv'') NoFile (Some example_first_pass)
     = Inr (CsvFile (table_of_scores example_first_pass))
   \<and> export_scores (Some ''scores.csv'') (CsvFile (table_of_scores example_first_pass))
       (Some example_second_pass)
     = Inr (CsvFile (table_of_scores [example_score ''a'' ''fluency'' 1]))"
  by code_simp




text \<open>
  Claim C10. With a non-empty prior table the written identities are exactly the prior
  identities, so a score row of the pass whose identity is not in the prior export is not
  written; the whole combined table is written when the prior file is missing or empty.
\<close>

theorem merge_export_left_join:
  assumes "export_scores (Some path) file (Some new_rows) = Inr written"
    and "path \<noteq> []" and "new_rows \<noteq> []"
  shows "(file = NoFile \<or> (\<exists>t. file = CsvFile t \<and> table_empty t) \<longrightarrow>
            written = CsvFile (table_of_scores new_rows)
            \<and> file_eval_ids written = sr_session_id ` set new_rows)
         \<and> (\<forall>t. file = CsvFile t \<and> \<not> table_empty t \<and> well_formed t \<longrightarrow>
               file_eval_ids written = file_eval_ids file
               \<and> (\<forall>n \<in> set new_rows.
                     sr_session_id n \<notin> file_eval_ids file \<longrightarrow>
                     sr_session_id n \<notin> file_eval_ids written))"
proof (intro conjI impI allI)
  assume fresh: "file = NoFile \<or> (\<exists>t. file = CsvFile t \<and> table_empty t)"
  from export_scores_fresh [OF assms fresh]
  show w: "written = CsvFile (table_of_scores new_rows)" .
  show "file_eval_ids written = sr_session_id ` set new_rows"
    unfolding w
    by (auto simp: file_eval_ids_def eval_ids_def table_of_scores_def cell_in_def)
next
  fix t assume t: "file = CsvFile t \<and> \<not> table_empty t \<and> well_formed t"
  from merged_export_cells [of path t new_rows written] assms t
  obtain u where u: "written = CsvFile u"
    "eval_ids u = map (\<lambda>row. cell_in (ct_columns t) row ''eval_id'') (kept_prior_rows t)"
    by blast
  have "set (eval_ids u) = (\<lambda>row. cell_in (ct_columns t) row ''eval_id'') ` set (kept_prior_rows t)"
    by (simp only: u(2) set_map)
  also have "\<dots> = (\<lambda>row. cell_in (ct_columns t) row ''eval_id'') ` set (ct_rows t)"
    unfolding kept_prior_rows_def by (rule drop_duplicates_keys)
  also have "\<dots> = set (eval_ids t)"
    by (simp add: eval_ids_def)
  finally have "set (eval_ids u) = set (eval_ids t)" .
  then show same: "file_eval_ids written = file_eval_ids file"
    using u(1) t by (simp add: file_eval_ids_def)
  then show "\<forall>n \<in> set new_rows.
                     sr_session_id n \<notin> file_eval_ids file \<longrightarrow>
                     sr_session_id n \<notin> file_eval_ids written"
    by simp
qed

text \<open>
  The record \<^verbatim>\<open>b\<close> of the second pass is not in the prior export of the first pass and is not
  written; with no prior file the whole table of the second pass is written.
\<close>

theorem merge_export_left_join_witness:
  "export_scores (Some ''scores.csv'') (CsvFile (table_of_scores example_first_pass))
       (Some example_second_pass)
     = Inr (CsvFile (table_of_scores [example_score ''a'' ''fluency'' 1]))
   \<and> ''scores.csv'' \<noteq> []
   \<and> example_second_pass \<noteq> []
   \<and> \<not> table_empty (table_of_scores example_first_pass)
   \<and> well_formed (table_of_scores example_first_pass)
   \<and> Txt ''b'' \<notin> file_eval_ids (CsvFile (table_of_scores example_first_pass))
   \<and> file_eval_ids (CsvFile (table_of_scores [example_score ''a'' ''fluency'' 1]))
       = file_eval_ids (CsvFile (table_of_scores example_first_pass))
   \<and> Txt ''b'' \<notin> file_eval_ids (CsvFile (table_of_scores [example_score ''a'' ''fluency'' 1]))
   \<and> export_scores (Some ''scores.csv'') NoFile (Some example_second_pass)
     = Inr (CsvFile (table_of_scores example_second_pass))
   \<and> file_eval_ids (CsvFile (table_of_scores example_second_pass)) = {Txt ''b''}"
proof -
  have run: "export_scores (Some ''scores.csv'') (CsvFile (table_of_scores example_first_pass))
       (Some example_second_pass)
     = Inr (CsvFile (table_of_scores [example_score ''a'' ''fluency'' 1]))"
    by code_simp
  have p: "''scores.csv'' \<noteq> []" by simp
  have n: "example_second_pass \<noteq> []" by code_simp
  have e: "\<not> table_empty (table_of_scores example_first_pass)" by code_simp
  have w: "well_formed (table_of_scores example_first_pass)" by code_simp
  have b: "Txt ''b'' \<notin> file_eval_ids (CsvFile (table_of_scores example_first_pass))"
    by code_simp
  have m: "example_score ''b'' ''fluency'' 3 \<in> set example_second_pass"
    by (simp add: example_second_pass_def)
  have s: "sr_session_id (example_score ''b'' ''fluency'' 3) = Txt ''b''"
    by (simp add: example_score_def)
  from merge_export_left_join [OF run p n] e w
  have same: "file_eval_ids (CsvFile (table_of_scores [example_score ''a'' ''fluency'' 1]))
       = file_eval_ids (CsvFile (table_of_scores example_first_pass))"
    and absent: "\<forall>n \<in> set example_second_pass.
         sr_session_id n \<notin> file_eval_ids (CsvFile (table_of_scores example_first_pass)) \<longrightarrow>
         sr_session_id n \<notin> file_eval_ids (CsvFile (table_of_scores [example_score ''a'' ''fluency'' 1]))"
    by blast+
  from absent m s b
  have gone: "Txt ''b'' \<notin> file_eval_ids (CsvFile (table_of_scores [example_score ''a'' ''fluency'' 1]))"
    by force
  have fresh: "export_scores (Some ''scores.csv'') NoFile (Some example_second_pass)
     = Inr (CsvFile (table_of_scores example_second_pass))"
    by code_simp
  from merge_export_left_join [OF fresh p n]
  have "file_eval_ids (CsvFile (table_of_scores example_second_pass))
          = sr_session_id ` set example_second_pass"
    by blast
  then have all: "file_eval_ids (CsvFile (table_of_scores example_second_pass)) = {Txt ''b''}"
    by (simp add: example_second_pass_def example_score_def)
  from run p n e w b same gone fresh all show ?thesis by (intro conjI)
qed

section \<open>Round trip through an evaluation-set file\<close>

lemma turn_text_final: "turn_text (conversation_turn row) ''final_response'' = Inr (cr_agent_response row)"
  by (simp add: turn_text_def conversation_turn_def text_parts_def dict_get_default_def)

lemma turn_text_user: "turn_text (conversation_turn row) ''user_content'' = Inr (cr_user_content row)"
  by (simp add: turn_text_def conversation_turn_def text_parts_def dict_get_default_def)

lemma turn_text_expected:
  "turn_text (conversation_turn row) ''expected_final_response'' =
     Inr (if truthy (cr_reference row) then cr_reference row else JStr [])"
  by (simp add: turn_text_def conversation_turn_def text_parts_def dict_get_default_def)

lemma case_reference_of_turns:
  assumes "rows \<noteq> []"
  shows "case_reference_of gt (JList (map conversation_turn rows)) =
           Inr (recovered_reference gt (cr_reference (last rows)))"
  using assms
  by (simp add: case_reference_of_def recovered_reference_def turn_text_expected last_map)

lemma load_turns:
  assumes "rows \<noteq> []"
  shows "load_eval_case (JObj [(''eval_id'', eid), (''conversation'', JList (map conversation_turn rows)),
                               (''ground_truth'', JObj gt)]) =
         Inr (Some \<lparr>ec_conversation = JList (map conversation_turn rows),
                    ec_session_id = eid,
                    ec_response = cr_agent_response (last rows),
                    ec_prompt = cr_user_content (hd rows),
                    ec_reference = recovered_reference gt (cr_reference (last rows)),
                    ec_ground_truth = gt\<rparr>)"
proof -
  obtain r rs where rows: "rows = r # rs" using assms by (cases rows) auto
  have f: "first_item (JList (map conversation_turn rows)) = Inr (conversation_turn (hd rows))"
    by (simp add: rows)
  have l: "last_item (JList (map conversation_turn rows)) = Inr (conversation_turn (last rows))"
    using assms by (simp add: last_map)
  show ?thesis
    using assms
    by (simp add: load_eval_case_def dict_get_default_def dict_get_def Let_def
        case_reference_of_turns f l turn_text_final turn_text_user del: first_item.simps last_item.simps)
qed


lemma load_single_case:
  assumes "load_eval_case c = Inr (Some r)"
  shows "load_eval_set (JObj [(''eval_set_id'', sid), (''eval_cases'', JList [c])]) = Inr [r]"
  using assms by (simp add: load_eval_set_def dict_get_default_def)

lemma sort_key_nonempty: "xs \<noteq> [] \<Longrightarrow> sort_key f xs \<noteq> []"
  by (metis length_0_conv length_sort)

text \<open>
  Claim C7, as the code has it. A simple row written to an evaluation-set file and read
  back gives one row with the same prompt and response, and the same reference when the
  reference is truthy (the empty string otherwise); its id is the request id prefixed with
  \<^verbatim>\<open>case-\<close>. The rows of one structured session are written as one evaluation case and read
  back as one row: its prompt is that of the first turn and its response that of the last
  turn in ascending \<^verbatim>\<open>eval_id\<close> order, and its reference is the \<^verbatim>\<open>reference\<close> entry of the
  group's first ground truth when that is truthy and the last turn's reference otherwise.
  So a session of a single row gives its prompt and response back, and its reference when
  the ground truth has no truthy \<^verbatim>\<open>reference\<close> entry.
\<close>

theorem evalset_round_trip:
  "load_eval_set (export_simple_row row) =
     Inr [\<lparr>ec_conversation = JList [conversation_turn row],
           ec_session_id = JStr (''case-'' @ cr_session_id row),
           ec_response = cr_agent_response row,
           ec_prompt = cr_user_content row,
           ec_reference = (if truthy (cr_reference row) then cr_reference row else JStr []),
           ec_ground_truth = [(''reference'', cr_reference row),
                              (''metric_type'', cr_metric_type row)]\<rparr>]
   \<and> (group_df \<noteq> [] \<and> cr_ground_truth (hd group_df) = Some gt \<longrightarrow>
        load_eval_set (export_agent_session session_id group_df) =
          Inr [\<lparr>ec_conversation = JList (map conversation_turn (sort_key cr_eval_id group_df)),
                ec_session_id = JStr (''case-'' @ session_id),
                ec_response = cr_agent_response (last (sort_key cr_eval_id group_df)),
                ec_prompt = cr_user_content (hd (sort_key cr_eval_id group_df)),
                ec_reference =
                  recovered_reference gt (cr_reference (last (sort_key cr_eval_id group_df))),
                ec_ground_truth = gt\<rparr>])
   \<and> (cr_ground_truth single = Some gt \<longrightarrow>
        load_eval_set (export_agent_session session_id [single]) =
          Inr [\<lparr>ec_conversation = JList [conversation_turn single],
                ec_session_id = JStr (''case-'' @ session_id),
                ec_response = cr_agent_response single,
                ec_prompt = cr_user_content single,
                ec_reference = recovered_reference gt (cr_reference single),
                ec_ground_truth = gt\<rparr>])
   \<and> (\<not> truthy (dict_get_default gt ''reference'' (JStr [])) \<and> truthy reference \<longrightarrow>
        recovered_reference gt reference = reference)"
proof (intro conjI impI)
  have "load_eval_case (JObj [(''eval_id'', JStr (''case-'' @ cr_session_id row)),
            (''conversation'', JList (map conversation_turn [row])),
            (''ground_truth'', JObj [(''reference'', cr_reference row),
                                     (''metric_type'', cr_metric_type row)])]) =
         Inr (Some \<lparr>ec_conversation = JList (map conversation_turn [row]),
                    ec_session_id = JStr (''case-'' @ cr_session_id row),
                    ec_response = cr_agent_response (last [row]),
                    ec_prompt = cr_user_content (hd [row]),
                    ec_reference = recovered_reference [(''reference'', cr_reference row),
                                     (''metric_type'', cr_metric_type row)] (cr_reference (last [row])),
                    ec_ground_truth = [(''reference'', cr_reference row),
                                     (''metric_type'', cr_metric_type row)]\<rparr>)"
    by (rule load_turns) simp
  then have "load_eval_case (JObj [(''eval_id'', JStr (''case-'' @ cr_session_id row)),
            (''conversation'', JList [conversation_turn row]),
            (''ground_truth'', JObj [(''reference'', cr_reference row),
                                     (''metric_type'', cr_metric_type row)])]) =
         Inr (Some \<lparr>ec_conversation = JList [conversation_turn row],
           ec_session_id = JStr (''case-'' @ cr_session_id row),
           ec_response = cr_agent_response row,
           ec_prompt = cr_user_content row,
           ec_reference = (if truthy (cr_reference row) then cr_reference row else JStr []),
           ec_ground_truth = [(''reference'', cr_reference row),
                              (''metric_type'', cr_metric_type row)]\<rparr>)"
    by (simp add: recovered_reference_def dict_get_default_def)
  from load_single_case [OF this]
  show "load_eval_set (export_simple_row row) =
     Inr [\<lparr>ec_conversation = JList [conversation_turn row],
           ec_session_id = JStr (''case-'' @ cr_session_id row),
           ec_response = cr_agent_response row,
           ec_prompt = cr_user_content row,
           ec_reference = (if truthy (cr_reference row) then cr_reference row else JStr []),
           ec_ground_truth = [(''reference'', cr_reference row),
                              (''metric_type'', cr_metric_type row)]\<rparr>]"
    by (simp add: export_simple_row_def)
next
  assume a: "group_df \<noteq> [] \<and> cr_ground_truth (hd group_df) = Some gt"
  let ?sorted = "sort_key cr_eval_id group_df"
  have ne: "?sorted \<noteq> []" using a by (simp add: sort_key_nonempty)
  have g: "(case group_df of
               [] \<Rightarrow> JNull
             | row # rest \<Rightarrow> (case cr_ground_truth row of Some gt \<Rightarrow> JObj gt | None \<Rightarrow> JNull))
           = JObj gt"
    using a by (cases group_df) auto
  from load_single_case [OF load_turns [OF ne, of "JStr (''case-'' @ session_id)" gt]]
  show "load_eval_set (export_agent_session session_id group_df) =
          Inr [\<lparr>ec_conversation = JList (map conversation_turn ?sorted),
                ec_session_id = JStr (''case-'' @ session_id),
                ec_response = cr_agent_response (last ?sorted),
                ec_prompt = cr_user_content (hd ?sorted),
                ec_reference = recovered_reference gt (cr_reference (last ?sorted)),
                ec_ground_truth = gt\<rparr>]"
    by (simp add: export_agent_session_def Let_def g)
next
  assume a: "cr_ground_truth single = Some gt"
  have "load_eval_case (JObj [(''eval_id'', JStr (''case-'' @ session_id)),
            (''conversation'', JList (map conversation_turn [single])),
            (''ground_truth'', JObj gt)]) =
         Inr (Some \<lparr>ec_conversation = JList (map conversation_turn [single]),
                    ec_session_id = JStr (''case-'' @ session_id),
                    ec_response = cr_agent_response (last [single]),
                    ec_prompt = cr_user_content (hd [single]),
                    ec_reference = recovered_reference gt (cr_reference (last [single])),
                    ec_ground_truth = gt\<rparr>)"
    by (rule load_turns) simp
  from load_single_case [OF this]
  show "load_eval_set (export_agent_session session_id [single]) =
          Inr [\<lparr>ec_conversation = JList [conversation_turn single],
                ec_session_id = JStr (''case-'' @ session_id),
                ec_response = cr_agent_response single,
                ec_prompt = cr_user_content single,
                ec_reference = recovered_reference gt (cr_reference single),
                ec_ground_truth = gt\<rparr>]"
    using a by (simp add: export_agent_session_def Let_def)
next
  assume "\<not> truthy (dict_get_default gt ''reference'' (JStr [])) \<and> truthy reference"
  then show "recovered_reference gt reference = reference"
    by (simp add: recovered_reference_def)
qed

text \<open>
  A structured session of one row and a simple row give their texts back; a session of two
  rows listed out of order comes back as one row with the first prompt and the last
  response; a structured row whose ground truth carries the reference text \<^verbatim>\<open>Paris\<close> comes
  back with that text as its reference, where the row itself held the whole ground-truth
  dict.
\<close>

theorem evalset_round_trip_witness:
  "cr_ground_truth (example_turn_row ''s-0'' ''q0'' ''a0'') = Some []
   \<and> map_sum id (map texts_of)
        (load_eval_set (export_agent_session ''s'' [example_turn_row ''s-0'' ''q0'' ''a0'']))
      = Inr [(JStr ''q0'', JStr ''a0'', JStr [])]
   \<and> map_sum id (map texts_of) (load_eval_set (export_simple_row (example_simple_row ''p'' ''a'')))
      = Inr [(JStr ''p'', JStr ''a'', JStr ''g'')]
   \<and> recovered_reference [] (JStr ''g'') = JStr ''g''
   \<and> [example_turn_row ''s-1'' ''q1'' ''a1'', example_turn_row ''s-0'' ''q0'' ''a0''] \<noteq> []
   \<and> map_sum id (map texts_of)
        (load_eval_set (export_agent_session ''s''
           [example_turn_row ''s-1'' ''q1'' ''a1'', example_turn_row ''s-0'' ''q0'' ''a0'']))
      = Inr [(JStr ''q0'', JStr ''a1'', JStr [])]
   \<and> cr_ground_truth example_reference_row
      = Some [(''reference'', JStr ''Paris''), (''metric_type'', JStr ''rouge'')]
   \<and> map_sum id (map texts_of)
        (load_eval_set (export_agent_session ''t'' [example_reference_row]))
      = Inr [(JStr ''capital of France?'', JStr ''Paris.'', JStr ''Paris'')]"
proof -
  let ?r0 = "example_turn_row ''s-0'' ''q0'' ''a0''"
  let ?r1 = "example_turn_row ''s-1'' ''q1'' ''a1''"
  have h1: "cr_ground_truth ?r0 = Some []"
    by (simp add: example_turn_row_def)
  have h2: "cr_ground_truth example_reference_row
      = Some [(''reference'', JStr ''Paris''), (''metric_type'', JStr ''rouge'')]"
    by (simp add: example_reference_row_def)
  have h3: "[?r1, ?r0] \<noteq> [] \<and> cr_ground_truth (hd [?r1, ?r0]) = Some []"
    by (simp add: example_turn_row_def)
  have h4: "\<not> truthy (dict_get_default [] ''reference'' (JStr [])) \<and> truthy (JStr ''g'')"
    by (simp add: dict_get_default_def)
  have s: "sort_key cr_eval_id [?r1, ?r0] = [?r0, ?r1]"
    by code_simp
  note t1 = evalset_round_trip [where row = "example_simple_row ''p'' ''a''"
      and group_df = "[?r1, ?r0]" and gt = "[]" and session_id = "''s''" and single = "?r0"
      and reference = "JStr ''g''"]
  note t2 = evalset_round_trip [where row = "example_simple_row ''p'' ''a''"
      and group_df = "[example_reference_row]"
      and gt = "[(''reference'', JStr ''Paris''), (''metric_type'', JStr ''rouge'')]"
      and session_id = "''t''" and single = example_reference_row and reference = JNull]
  have a: "map_sum id (map texts_of) (load_eval_set (export_agent_session ''s'' [?r0]))
      = Inr [(JStr ''q0'', JStr ''a0'', JStr [])]"
    using t1 h1
    by (simp add: texts_of_def example_turn_row_def recovered_reference_def dict_get_default_def)
  have b: "map_sum id (map texts_of) (load_eval_set (export_simple_row (example_simple_row ''p'' ''a'')))
      = Inr [(JStr ''p'', JStr ''a'', JStr ''g'')]"
    using t1 by (simp add: texts_of_def example_simple_row_def)
  from t1 h4 have r: "recovered_reference [] (JStr ''g'') = JStr ''g''"
    by blast
  from t1 h3 have "load_eval_set (export_agent_session ''s'' [?r1, ?r0]) =
          Inr [\<lparr>ec_conversation = JList (map conversation_turn (sort_key cr_eval_id [?r1, ?r0])),
                ec_session_id = JStr (''case-'' @ ''s''),
                ec_response = cr_agent_response (last (sort_key cr_eval_id [?r1, ?r0])),
                ec_prompt = cr_user_content (hd (sort_key cr_eval_id [?r1, ?r0])),
                ec_reference =
                  recovered_reference [] (cr_reference (last (sort_key cr_eval_id [?r1, ?r0]))),
                ec_ground_truth = []\<rparr>]"
    by blast
  then have m: "map_sum id (map texts_of) (load_eval_set (export_agent_session ''s'' [?r1, ?r0]))
      = Inr [(JStr ''q0'', JStr ''a1'', JStr [])]"
    unfolding s
    by (simp add: texts_of_def example_turn_row_def recovered_reference_def dict_get_default_def)
  have c: "map_sum id (map texts_of)
        (load_eval_set (export_agent_session ''t'' [example_reference_row]))
      = Inr [(JStr ''capital of France?'', JStr ''Paris.'', JStr ''Paris'')]"
    using t2 h2
    by (simp add: texts_of_def example_reference_row_def recovered_reference_def
        dict_get_default_def)
  from h3 have ne: "[?r1, ?r0] \<noteq> []" by blast
  from h1 a b r ne m h2 c show ?thesis by (intro conjI)
qed

text \<open>
  Claim C7 as the specification words it fails on a session of two records, such as the
  two rows read from the example session: both are written into one evaluation case, and
  reading it gives a single row with the prompt of the first record and the response of
  the second, so neither record is reproduced.
\<close>

theorem evalset_multi_turn_counterexample:
  "get_logs_for_evaluation None example_session_entries =
     Inr (Some [example_turn_row ''s-0'' ''q0'' ''a0'', example_turn_row ''s-1'' ''q1'' ''a1''],
          None)
   \<and> export_sessions_to_evalset
       (Some [example_turn_row ''s-0'' ''q0'' ''a0'', example_turn_row ''s-1'' ''q1'' ''a1'']) None =
     [(''rag-agent.evalset.s.json'',
       export_agent_session ''s''
         [example_turn_row ''s-0'' ''q0'' ''a0'', example_turn_row ''s-1'' ''q1'' ''a1''])]
   \<and> load_eval_set
       (export_agent_session ''s''
          [example_turn_row ''s-0'' ''q0'' ''a0'', example_turn_row ''s-1'' ''q1'' ''a1'']) =
     Inr [\<lparr>ec_conversation =
             JList [conversation_turn (example_turn_row ''s-0'' ''q0'' ''a0''),
                    conversation_turn (example_turn_row ''s-1'' ''q1'' ''a1'')],
           ec_session_id = JStr ''case-s'',
           ec_response = JStr ''a1'',
           ec_prompt = JStr ''q0'',
           ec_reference = JStr [],
           ec_ground_truth = []\<rparr>]"
  by code_simp


end
